theory Spec2Isabelle
  imports Complex_Main
begin

section \<open>Values of the source language\<close>

text \<open>
  A JavaScript string is a sequence of UTF-16 code units; \<open>===\<close>, \<open>includes\<close>,
  \<open>startsWith\<close>, \<open>length\<close> and \<open>split\<close> all work on code units. The tables of
  the migration service hold Devanagari text, so strings are modelled as lists of code
  units. \<open>ascii\<close> embeds a Basic Latin literal.

  A JavaScript number is modelled as a rational: the numbers of the program are finite
  (they come from JSON bodies and from integer parsing), comparison of finite doubles
  agrees with comparison of the rationals they denote, and rounding error of the
  floating-point division is not modelled.
\<close>

type_synonym jstring = "nat list"

definition ascii :: "string \<Rightarrow> jstring" where
  "ascii s = map of_char s"

datatype jsvalue = Num rat | Str jstring

text \<open>\<open>x ?? d\<close>, and a destructuring default: the value when it is there.\<close>

definition orElse :: "'a option \<Rightarrow> 'a \<Rightarrow> 'a" where
  "orElse x d = (case x of Some v \<Rightarrow> v | None \<Rightarrow> d)"

text \<open>\<open>Map.prototype.set\<close>: a key that is there keeps its place, a new one goes last.\<close>

fun map_set :: "'k \<Rightarrow> 'v \<Rightarrow> ('k \<times> 'v) list \<Rightarrow> ('k \<times> 'v) list" where
  "map_set k v [] = [(k, v)]"
| "map_set k v ((k', v') # kvs) = (if k' = k then (k, v) # kvs else (k', v') # map_set k v kvs)"

section \<open>Scoring engine (kpi\_entry.model.ts, KpiEntryValidation)\<close>

datatype kpi_type = Quantitative | Percentage | Binary | Qualitative | Score | OtherType jstring

text \<open>A scoring rule is an untyped object in the source; the fields the scorer probes.\<close>

record scoring_rule =
  rule_value :: "jsvalue option"
  rule_min :: "rat option"
  rule_max :: "rat option"
  rule_score :: rat

record template_item =
  item_name :: jstring
  maxMarks :: rat
  kpiType :: kpi_type
  scoringRules :: "scoring_rule list"

record kpi_template =
  template_id :: jstring
  template_name :: jstring
  departmentSlug :: jstring
  template_role :: jstring
  template_items :: "template_item list"

record raw_value =
  rv_name :: jstring
  rv_value :: jsvalue

record scored_value =
  sv_name :: jstring
  sv_value :: jsvalue
  sv_score :: rat

datatype error =
    ItemNotInTemplate jstring
  | ExpectsNumeric jstring
  | NegativeValue jstring
  | PercentageOutOfRange jstring
  | ExpectsString jstring
  | ScoreOutOfRange jstring rat
  | UnknownKpiType jstring
  | InvalidKpiItems "jstring list"
  | MissingKpiItems "jstring list"
  | TemplateNotFound
  | EntryNotFound
  | SchemaValidation
  | NoCsvConfig jstring
  | OfficerColumnNotFound
  | TypeError
  | EntryAlreadyExists
  | MemberFetchFailed

text \<open>validateValueByType: the switch on the KPI type, each throw a result.\<close>

fun validateValueByType :: "template_item \<Rightarrow> jsvalue \<Rightarrow> error + unit" where
  "validateValueByType ti v =
     (case kpiType ti of
        Quantitative \<Rightarrow>
          (case v of
             Str _ \<Rightarrow> Inl (ExpectsNumeric (item_name ti))
           | Num x \<Rightarrow> if x < 0 then Inl (NegativeValue (item_name ti)) else Inr ())
      | Percentage \<Rightarrow>
          (case v of
             Str _ \<Rightarrow> Inl (ExpectsNumeric (item_name ti))
           | Num x \<Rightarrow>
               if x < 0 \<or> x > 100 then Inl (PercentageOutOfRange (item_name ti)) else Inr ())
      | Binary \<Rightarrow>
          (case v of Num _ \<Rightarrow> Inl (ExpectsString (item_name ti)) | Str _ \<Rightarrow> Inr ())
      | Qualitative \<Rightarrow>
          (case v of Num _ \<Rightarrow> Inl (ExpectsString (item_name ti)) | Str _ \<Rightarrow> Inr ())
      | Score \<Rightarrow>
          (case v of
             Str _ \<Rightarrow> Inl (ExpectsNumeric (item_name ti))
           | Num x \<Rightarrow>
               if x < 0 \<or> x > maxMarks ti
               then Inl (ScoreOutOfRange (item_name ti) (maxMarks ti)) else Inr ())
      | OtherType t \<Rightarrow> Inl (UnknownKpiType t))"

text \<open>
  \<open>Array.prototype.sort\<close> with a comparator is a stable sort; an insertion sort that
  places an element before the first one it does not follow is stable as well, and any
  two stable sorts agree on a consistent comparator. A comparator result \<open>NaN\<close> counts
  as \<open>+0\<close> (ECMAScript SortCompare), so the comparator of the model returns a rational.
\<close>

fun insert_cmp :: "('a \<Rightarrow> 'a \<Rightarrow> rat) \<Rightarrow> 'a \<Rightarrow> 'a list \<Rightarrow> 'a list" where
  "insert_cmp c x [] = [x]"
| "insert_cmp c x (y # ys) = (if c x y \<le> 0 then x # y # ys else y # insert_cmp c x ys)"

definition js_sort :: "('a \<Rightarrow> 'a \<Rightarrow> rat) \<Rightarrow> 'a list \<Rightarrow> 'a list" where
  "js_sort c xs = foldr (insert_cmp c) xs []"

text \<open>
  The comparator \<open>(a, b) => b.value - a.value\<close> of the percentage branch. A rule value
  that is not a number makes the difference \<open>NaN\<close> in the model (counted as 0 by the
  sort); JavaScript would first coerce a string operand.
\<close>

definition rule_number :: "scoring_rule \<Rightarrow> rat option" where
  "rule_number r = (case rule_value r of Some (Num x) \<Rightarrow> Some x | _ \<Rightarrow> None)"

definition cmp_rule_desc :: "scoring_rule \<Rightarrow> scoring_rule \<Rightarrow> rat" where
  "cmp_rule_desc a b =
     (case (rule_number b, rule_number a) of
        (Some y, Some x) \<Rightarrow> y - x
      | _ \<Rightarrow> 0)"

text \<open>The loop \<open>for (const rule of sortedRules) if (inputValue >= rule.value) return rule.score\<close>.\<close>

fun first_threshold :: "rat \<Rightarrow> scoring_rule list \<Rightarrow> rat" where
  "first_threshold v [] = 0"
| "first_threshold v (r # rs) =
     (case rule_number r of
        Some x \<Rightarrow> if v \<ge> x then rule_score r else first_threshold v rs
      | None \<Rightarrow> first_threshold v rs)"

text \<open>matchesRule, with its three shapes of rule.\<close>

fun matchesRule :: "scoring_rule \<Rightarrow> jsvalue \<Rightarrow> kpi_type \<Rightarrow> bool" where
  "matchesRule rule v kt =
     (if kt = Binary \<or> kt = Qualitative then rule_value rule = Some v
      else
        (case (rule_min rule, rule_max rule) of
           (Some lo, Some hi) \<Rightarrow> (case v of Num x \<Rightarrow> x \<ge> lo \<and> x \<le> hi | Str _ \<Rightarrow> False)
         | _ \<Rightarrow>
           (case rule_value rule of
              None \<Rightarrow> False
            | Some rv \<Rightarrow>
                if kt = Percentage
                then (case (rv, v) of (Num y, Num x) \<Rightarrow> x \<ge> y | _ \<Rightarrow> False)
                else rv = v)))"

fun first_match :: "jsvalue \<Rightarrow> kpi_type \<Rightarrow> scoring_rule list \<Rightarrow> rat" where
  "first_match v kt [] = 0"
| "first_match v kt (r # rs) = (if matchesRule r v kt then rule_score r else first_match v kt rs)"

text \<open>
  calculateScore. It is private and runs after validateValueByType, which leaves a
  number for the score and percentage types; on a string there (not reachable) the
  model returns 0.
\<close>

fun calculateScore :: "template_item \<Rightarrow> jsvalue \<Rightarrow> rat" where
  "calculateScore ti v =
     (if kpiType ti = Score then
        (case v of Num x \<Rightarrow> min x (maxMarks ti) | Str _ \<Rightarrow> 0)
      else if kpiType ti = Percentage then
        (case v of
           Num x \<Rightarrow> first_threshold x (js_sort cmp_rule_desc (scoringRules ti))
         | Str _ \<Rightarrow> 0)
      else first_match v (kpiType ti) (scoringRules ti))"

text \<open>validateAndCalculateScores: the loop over the submitted values; a throw ends it.\<close>

fun validateAndCalculateScores ::
  "kpi_template \<Rightarrow> raw_value list \<Rightarrow> error + scored_value list" where
  "validateAndCalculateScores tpl [] = Inr []"
| "validateAndCalculateScores tpl (v # vs) =
     (case find (\<lambda>item. item_name item = rv_name v) (template_items tpl) of
        None \<Rightarrow> Inl (ItemNotInTemplate (rv_name v))
      | Some ti \<Rightarrow>
          (case validateValueByType ti (rv_value v) of
             Inl e \<Rightarrow> Inl e
           | Inr _ \<Rightarrow>
               (case validateAndCalculateScores tpl vs of
                  Inl e \<Rightarrow> Inl e
                | Inr rest \<Rightarrow>
                    Inr (\<lparr>sv_name = rv_name v, sv_value = rv_value v,
                           sv_score = calculateScore ti (rv_value v)\<rparr> # rest))))"

text \<open>validateTemplateItems: rejects names that the template does not have.\<close>

definition validateTemplateItems :: "kpi_template \<Rightarrow> jstring list \<Rightarrow> error + unit" where
  "validateTemplateItems tpl providedNames =
     (let templateNames = map item_name (template_items tpl);
          invalidItems = filter (\<lambda>n. n \<notin> set templateNames) providedNames
      in if length invalidItems > 0 then Inl (InvalidKpiItems invalidItems) else Inr ())"

section \<open>Stored entries and the document store (kpi\_entry.model.ts)\<close>

datatype status = Created | Initiated | Generated

record kpi_ref =
  ref_label :: jstring
  ref_value :: jstring

record kpi_entry =
  entry_id :: nat
  month :: rat
  year :: rat
  templateId :: jstring
  kpiRef :: kpi_ref
  entry_values :: "scored_value list"
  status :: status
  totalScore :: rat
  createdBy :: jstring
  createdFor :: jstring

text \<open>
  The document store: the entry collection in its natural order, the template
  collection, and the next free document id (an ObjectId in the source; only its
  freshness matters).
\<close>

record database =
  kpi_entries :: "kpi_entry list"
  kpi_templates :: "kpi_template list"
  next_id :: nat

definition findTemplateById :: "database \<Rightarrow> jstring \<Rightarrow> kpi_template option" where
  "findTemplateById db tid = find (\<lambda>t. template_id t = tid) (kpi_templates db)"

definition findEntryById :: "database \<Rightarrow> nat \<Rightarrow> kpi_entry option" where
  "findEntryById db i = find (\<lambda>e. entry_id e = i) (kpi_entries db)"

text \<open>
  The validators of kpiEntrySchema that \<open>save\<close> runs: month in 1..12, year from 2020,
  and the required strings (a required string must not be empty).
\<close>

definition schema_valid :: "kpi_entry \<Rightarrow> bool" where
  "schema_valid e =
     (1 \<le> month e \<and> month e \<le> 12 \<and> 2020 \<le> year e \<and> templateId e \<noteq> [] \<and>
      ref_label (kpiRef e) \<noteq> [] \<and> ref_value (kpiRef e) \<noteq> [] \<and>
      list_all (\<lambda>v. sv_name v \<noteq> []) (entry_values e) \<and>
      createdBy e \<noteq> [] \<and> createdFor e \<noteq> [])"

definition save :: "database \<Rightarrow> kpi_entry \<Rightarrow> error + (database \<times> kpi_entry)" where
  "save db e =
     (if schema_valid e then
        (let saved = e\<lparr>entry_id := next_id db\<rparr>
         in Inr (db\<lparr>kpi_entries := kpi_entries db @ [saved], next_id := next_id db + 1\<rparr>, saved))
      else Inl SchemaValidation)"

definition sum_scores :: "scored_value list \<Rightarrow> rat" where
  "sum_scores vs = foldl (\<lambda>sum item. sum + sv_score item) 0 vs"

section \<open>The identity service (external)\<close>

text \<open>
  \<open>String.prototype.trim\<close> removes white space and line terminators at both ends.
\<close>

definition is_js_space :: "nat \<Rightarrow> bool" where
  "is_js_space c =
     (c = 9 \<or> c = 10 \<or> c = 11 \<or> c = 12 \<or> c = 13 \<or> c = 32 \<or> c = 160 \<or> c = 5760 \<or>
      (8192 \<le> c \<and> c \<le> 8202) \<or> c = 8232 \<or> c = 8233 \<or> c = 8239 \<or> c = 8287 \<or>
      c = 12288 \<or> c = 65279)"

definition trim :: "jstring \<Rightarrow> jstring" where
  "trim s = rev (dropWhile is_js_space (rev (dropWhile is_js_space s)))"

record member =
  userId :: jstring
  user_name :: jstring
  metadata_kpiRef :: "kpi_ref list option"

text \<open>
  What the service answers: to \<open>GET /members/name/<name>\<close> (None for a failed call or
  an answer without a user), and to the listing of the tehsildar members of the revenue
  department (None for a failed call or an answer without \<open>docs\<close>).
\<close>

record identity_service =
  member_by_name :: "jstring \<Rightarrow> member option"
  tehsildar_members :: "member list option"

definition fetchMemberByName :: "identity_service \<Rightarrow> jstring \<Rightarrow> member option" where
  "fetchMemberByName svc name = member_by_name svc (trim name)"

definition is_court_ref :: "jstring \<Rightarrow> kpi_ref \<Rightarrow> bool" where
  "is_court_ref court r = (ref_label r = ascii ''court'' \<and> ref_value r = court)"



section \<open>Migration orchestrator (kpi\_entry.migration.ts)\<close>

text \<open>kpiValues is an object; the list is its entries in enumeration order.\<close>

record csv_kpi_data =
  officerName :: jstring
  courtName :: "jstring option"
  kpiValues :: "(jstring \<times> rat) list"

datatype message =
    MemberNotFound
  | CourtNotInKpiRef jstring
  | EntryExistsForCourt jstring
  | EntryExists
  | CreatedForCourt jstring
  | CreatedSuccessfully
  | ErrorMessage error

record detail =
  d_success :: bool
  d_message :: message
  d_entryId :: "nat option"

datatype migration_error = ErrorProcessing jstring error | NoValidData

record migration_result =
  totalRecords :: nat
  successfulEntries :: nat
  failedEntries :: nat
  skippedEntries :: nat
  errors :: "migration_error list"
  details :: "jstring \<rightharpoonup> detail"

definition skipRecord :: "migration_result \<Rightarrow> jstring \<Rightarrow> message \<Rightarrow> migration_result" where
  "skipRecord res name msg =
     res\<lparr>skippedEntries := skippedEntries res + 1,
         details := (details res)(name \<mapsto> \<lparr>d_success = False, d_message = msg, d_entryId = None\<rparr>)\<rparr>"

definition failRecord :: "migration_result \<Rightarrow> jstring \<Rightarrow> error \<Rightarrow> migration_result" where
  "failRecord res name e =
     res\<lparr>failedEntries := failedEntries res + 1,
         errors := errors res @ [ErrorProcessing name e],
         details := (details res)(name \<mapsto>
           \<lparr>d_success = False, d_message = ErrorMessage e, d_entryId = None\<rparr>)\<rparr>"

definition toValues :: "(jstring \<times> rat) list \<Rightarrow> raw_value list" where
  "toValues kvs = map (\<lambda>(n, v). \<lparr>rv_name = n, rv_value = Num v\<rparr>) kvs"

definition orSystem :: "jstring \<Rightarrow> jstring" where
  "orSystem creator = (if creator = [] then ascii ''system'' else creator)"

text \<open>
  The tail both branches of the loop body share: score the values against the template,
  save the entry as generated, count the success. A throw is \<open>Inl\<close>.
\<close>

definition newKpiEntry ::
  "rat \<Rightarrow> rat \<Rightarrow> jstring \<Rightarrow> jstring \<Rightarrow> member \<Rightarrow> kpi_ref \<Rightarrow> scored_value list \<Rightarrow> kpi_entry" where
  "newKpiEntry mo yr tid creator m ref validatedValues =
     \<lparr>entry_id = 0, month = mo, year = yr, templateId = tid, kpiRef = ref,
      entry_values = validatedValues, status = Generated,
      totalScore = sum_scores validatedValues,
      createdBy = orSystem creator, createdFor = userId m\<rparr>"

definition scoreAndSave ::
  "kpi_template \<Rightarrow> rat \<Rightarrow> rat \<Rightarrow> jstring \<Rightarrow> jstring \<Rightarrow> member \<Rightarrow> kpi_ref \<Rightarrow> message \<Rightarrow>
   csv_kpi_data \<Rightarrow> migration_result \<times> database \<Rightarrow> error + (migration_result \<times> database)" where
  "scoreAndSave tpl mo yr tid creator m ref msg record st =
     (case validateAndCalculateScores tpl (toValues (kpiValues record)) of
        Inl e \<Rightarrow> Inl e
      | Inr validatedValues \<Rightarrow>
          (case save (snd st) (newKpiEntry mo yr tid creator m ref validatedValues) of
             Inl e \<Rightarrow> Inl e
           | Inr (db', saved) \<Rightarrow>
               Inr ((fst st)\<lparr>successfulEntries := successfulEntries (fst st) + 1,
                      details := (details (fst st))(officerName record \<mapsto>
                        \<lparr>d_success = True, d_message = msg, d_entryId = Some (entry_id saved)\<rparr>)\<rparr>,
                    db')))"

text \<open>\<open>if (record.courtName)\<close>: a court name that is present and not empty.\<close>

definition court_of :: "csv_kpi_data \<Rightarrow> jstring option" where
  "court_of record =
     (case courtName record of Some c \<Rightarrow> if c = [] then None else Some c | None \<Rightarrow> None)"

definition firstRefOrDefault :: "member \<Rightarrow> kpi_ref" where
  "firstRefOrDefault m =
     (case metadata_kpiRef m of
        Some (r # _) \<Rightarrow> r
      | _ \<Rightarrow> \<lparr>ref_label = ascii ''area'', ref_value = ascii ''raipur''\<rparr>)"

definition matchingCourtRef :: "member \<Rightarrow> jstring \<Rightarrow> kpi_ref option" where
  "matchingCourtRef m court =
     (case metadata_kpiRef m of None \<Rightarrow> None | Some refs \<Rightarrow> find (is_court_ref court) refs)"

definition existingForCourt ::
  "database \<Rightarrow> jstring \<Rightarrow> rat \<Rightarrow> rat \<Rightarrow> jstring \<Rightarrow> jstring \<Rightarrow> kpi_entry option" where
  "existingForCourt db uid mo yr tid court =
     find (\<lambda>e. createdFor e = uid \<and> month e = mo \<and> year e = yr \<and> templateId e = tid \<and>
               ref_value (kpiRef e) = court) (kpi_entries db)"

definition existingEntry ::
  "database \<Rightarrow> jstring \<Rightarrow> rat \<Rightarrow> rat \<Rightarrow> jstring \<Rightarrow> kpi_entry option" where
  "existingEntry db uid mo yr tid =
     find (\<lambda>e. createdFor e = uid \<and> month e = mo \<and> year e = yr \<and> templateId e = tid)
       (kpi_entries db)"

text \<open>The body of the \<open>try\<close> for one record.\<close>

definition tryRecord ::
  "identity_service \<Rightarrow> kpi_template \<Rightarrow> rat \<Rightarrow> rat \<Rightarrow> jstring \<Rightarrow> jstring \<Rightarrow>
   migration_result \<times> database \<Rightarrow> csv_kpi_data \<Rightarrow> error + (migration_result \<times> database)" where
  "tryRecord svc tpl mo yr tid creator st record =
     (case court_of record of
        Some court \<Rightarrow>
          (case fetchMemberByName svc (officerName record) of
             None \<Rightarrow> Inr (skipRecord (fst st) (officerName record) MemberNotFound, snd st)
           | Some m \<Rightarrow>
               (case matchingCourtRef m court of
                  None \<Rightarrow>
                    Inr (skipRecord (fst st) (officerName record) (CourtNotInKpiRef court), snd st)
                | Some ref \<Rightarrow>
                    (case existingForCourt (snd st) (userId m) mo yr tid court of
                       Some _ \<Rightarrow>
                         Inr (skipRecord (fst st) (officerName record) (EntryExistsForCourt court),
                              snd st)
                     | None \<Rightarrow>
                         scoreAndSave tpl mo yr tid creator m ref (CreatedForCourt court) record st)))
      | None \<Rightarrow>
          (case fetchMemberByName svc (officerName record) of
             None \<Rightarrow> Inr (skipRecord (fst st) (officerName record) MemberNotFound, snd st)
           | Some m \<Rightarrow>
               (case existingEntry (snd st) (userId m) mo yr tid of
                  Some _ \<Rightarrow> Inr (skipRecord (fst st) (officerName record) EntryExists, snd st)
                | None \<Rightarrow>
                    scoreAndSave tpl mo yr tid creator m (firstRefOrDefault m) CreatedSuccessfully
                      record st)))"

text \<open>The \<open>catch\<close>: a throw counts the record as failed and the loop goes on.\<close>

definition processRecord ::
  "identity_service \<Rightarrow> kpi_template \<Rightarrow> rat \<Rightarrow> rat \<Rightarrow> jstring \<Rightarrow> jstring \<Rightarrow>
   migration_result \<times> database \<Rightarrow> csv_kpi_data \<Rightarrow> migration_result \<times> database" where
  "processRecord svc tpl mo yr tid creator st record =
     (case tryRecord svc tpl mo yr tid creator st record of
        Inr st' \<Rightarrow> st'
      | Inl e \<Rightarrow> (failRecord (fst st) (officerName record) e, snd st))"

definition createKpiEntryFromCsvData ::
  "identity_service \<Rightarrow> database \<Rightarrow> csv_kpi_data list \<Rightarrow> rat \<Rightarrow> rat \<Rightarrow> jstring \<Rightarrow> jstring \<Rightarrow>
   error + (migration_result \<times> database)" where
  "createKpiEntryFromCsvData svc db csvData mo yr tid creator =
     (let result = \<lparr>totalRecords = length csvData, successfulEntries = 0, failedEntries = 0,
                    skippedEntries = 0, errors = [], details = Map.empty\<rparr>
      in case findTemplateById db tid of
           None \<Rightarrow> Inl TemplateNotFound
         | Some tpl \<Rightarrow> Inr (foldl (processRecord svc tpl mo yr tid creator) (result, db) csvData))"

section \<open>CSV migration parser (kpi\_entry.migration.ts)\<close>

subsection \<open>Strings\<close>

text \<open>
  \<open>toLowerCase\<close> on the code units of Basic Latin and Latin-1; the other code units
  that occur in the tables are Devanagari, which has no case.
\<close>

definition lower_unit :: "nat \<Rightarrow> nat" where
  "lower_unit c = (if (65 \<le> c \<and> c \<le> 90) \<or> (192 \<le> c \<and> c \<le> 222 \<and> c \<noteq> 215) then c + 32 else c)"

definition toLowerCase :: "jstring \<Rightarrow> jstring" where
  "toLowerCase s = map lower_unit s"

fun is_prefix :: "'a list \<Rightarrow> 'a list \<Rightarrow> bool" where
  "is_prefix [] ys = True"
| "is_prefix (x # xs) [] = False"
| "is_prefix (x # xs) (y # ys) = (x = y \<and> is_prefix xs ys)"

text \<open>\<open>s.includes(sub)\<close>: sub occurs in s as a run of code units.\<close>

fun js_includes :: "'a list \<Rightarrow> 'a list \<Rightarrow> bool" where
  "js_includes [] sub = (sub = [])"
| "js_includes (c # cs) sub = (is_prefix sub (c # cs) \<or> js_includes cs sub)"

text \<open>\<open>s.split(sep)\<close> for a separator of one code unit.\<close>

fun split_on :: "nat \<Rightarrow> jstring \<Rightarrow> jstring list" where
  "split_on sep [] = [[]]"
| "split_on sep (c # cs) =
     (if c = sep then [] # split_on sep cs
      else (case split_on sep cs of f # r \<Rightarrow> (c # f) # r | [] \<Rightarrow> [[c]]))"

fun findIndex :: "('a \<Rightarrow> bool) \<Rightarrow> 'a list \<Rightarrow> nat option" where
  "findIndex p [] = None"
| "findIndex p (x # xs) = (if p x then Some 0 else map_option Suc (findIndex p xs))"

definition indexOf :: "'a list \<Rightarrow> 'a \<Rightarrow> nat option" where
  "indexOf xs x = findIndex (\<lambda>y. y = x) xs"

text \<open>\<open>xs[i]\<close>, undefined out of range.\<close>

definition nth_opt :: "'a list \<Rightarrow> nat \<Rightarrow> 'a option" where
  "nth_opt xs i = (if i < length xs then Some (xs ! i) else None)"

subsection \<open>Numbers read from cells\<close>

definition digit_of :: "nat \<Rightarrow> nat option" where
  "digit_of c =
     (if 48 \<le> c \<and> c \<le> 57 then Some (c - 48)
      else if 97 \<le> c \<and> c \<le> 122 then Some (c - 87)
      else if 65 \<le> c \<and> c \<le> 90 then Some (c - 55)
      else None)"

definition is_digit :: "nat \<Rightarrow> nat \<Rightarrow> bool" where
  "is_digit radix c = (case digit_of c of Some d \<Rightarrow> d < radix | None \<Rightarrow> False)"

definition digits_value :: "nat \<Rightarrow> jstring \<Rightarrow> nat" where
  "digits_value radix ds = foldl (\<lambda>acc c. acc * radix + orElse (digit_of c) 0) 0 ds"

text \<open>
  \<open>parseInt(s)\<close> without a radix: leading white space, a sign, a \<open>0x\<close> prefix for
  radix 16, then the longest run of digits; None is \<open>NaN\<close>.
\<close>

definition parseInt :: "jstring \<Rightarrow> int option" where
  "parseInt s =
     (let s1 = dropWhile is_js_space s;
          neg = (case s1 of c # _ \<Rightarrow> c = 45 | [] \<Rightarrow> False);
          s2 = (case s1 of c # r \<Rightarrow> if c = 45 \<or> c = 43 then r else s1 | [] \<Rightarrow> s1);
          hex = (take 2 s2 = ascii ''0x'' \<or> take 2 s2 = ascii ''0X'');
          radix = (if hex then 16 else 10);
          s3 = (if hex then drop 2 s2 else s2);
          ds = takeWhile (is_digit radix) s3
      in if ds = [] then None
         else Some ((if neg then - 1 else 1) * int (digits_value radix ds)))"

text \<open>
  \<open>Number(s)\<close> on a string: white space trimmed, the empty string is 0, a prefixed
  hexadecimal, octal or binary integer, or a signed decimal literal with an optional
  fraction and exponent; None is \<open>NaN\<close>. \<open>Infinity\<close> is outside the number model and
  is None here.
\<close>

definition prefixedInteger :: "nat \<Rightarrow> jstring \<Rightarrow> rat option" where
  "prefixedInteger radix ds =
     (if ds \<noteq> [] \<and> list_all (is_digit radix) ds then Some (of_nat (digits_value radix ds)) else None)"

definition decimalLiteral :: "jstring \<Rightarrow> rat option" where
  "decimalLiteral s =
     (let ip = takeWhile (is_digit 10) s;
          r1 = dropWhile (is_digit 10) s;
          hasDot = (case r1 of c # _ \<Rightarrow> c = 46 | [] \<Rightarrow> False);
          fp = (if hasDot then takeWhile (is_digit 10) (tl r1) else []);
          r2 = (if hasDot then dropWhile (is_digit 10) (tl r1) else r1);
          mant = (of_nat (digits_value 10 ip) :: rat) + of_nat (digits_value 10 fp) / 10 ^ length fp
      in if ip = [] \<and> fp = [] then None
         else (case r2 of
                 [] \<Rightarrow> Some mant
               | c # r \<Rightarrow>
                   if c = 101 \<or> c = 69 then
                     (let eneg = (case r of d # _ \<Rightarrow> d = 45 | [] \<Rightarrow> False);
                          r3 = (case r of d # r' \<Rightarrow> if d = 45 \<or> d = 43 then r' else r | [] \<Rightarrow> r)
                      in if r3 \<noteq> [] \<and> list_all (is_digit 10) r3
                         then Some (if eneg then mant / 10 ^ digits_value 10 r3
                                    else mant * 10 ^ digits_value 10 r3)
                         else None)
                   else None))"

definition jsNumber :: "jstring \<Rightarrow> rat option" where
  "jsNumber s =
     (let t = trim s
      in if t = [] then Some 0
         else if take 2 t = ascii ''0x'' \<or> take 2 t = ascii ''0X'' then prefixedInteger 16 (drop 2 t)
         else if take 2 t = ascii ''0o'' \<or> take 2 t = ascii ''0O'' then prefixedInteger 8 (drop 2 t)
         else if take 2 t = ascii ''0b'' \<or> take 2 t = ascii ''0B'' then prefixedInteger 2 (drop 2 t)
         else (case t of
                 c # r \<Rightarrow>
                   if c = 45 then map_option uminus (decimalLiteral r)
                   else if c = 43 then decimalLiteral r
                   else decimalLiteral t
               | [] \<Rightarrow> None))"

text \<open>\<open>Math.round(x * 100) / 100\<close>; Math.round rounds a half up.\<close>

definition round2 :: "rat \<Rightarrow> rat" where
  "round2 x = of_int \<lfloor>x * 100 + 1 / 2\<rfloor> / 100"

subsection \<open>The tables of the service\<close>

text \<open>
  The string literals of the tables that are not Basic Latin, as their UTF-16 code units;
  the names transliterate them.
\<close>

definition hi_piithaasiina_adhikaarii :: jstring where
  "hi_piithaasiina_adhikaarii = [0x92A, 0x940, 0x920, 0x93E, 0x938, 0x940, 0x928, 0x20,
     0x905, 0x927, 0x93F, 0x915, 0x93E, 0x930, 0x940]"

definition hi_piithaasiina_adhikaarii_kaa_naama :: jstring where
  "hi_piithaasiina_adhikaarii_kaa_naama = [0x92A, 0x940, 0x920, 0x93E, 0x938, 0x940, 0x928,
     0x20, 0x905, 0x927, 0x93F, 0x915, 0x93E, 0x930, 0x940, 0x20, 0x915, 0x93E, 0x20, 0x928,
     0x93E, 0x92E]"

definition hi_adhikaarii :: jstring where
  "hi_adhikaarii = [0x905, 0x927, 0x93F, 0x915, 0x93E, 0x930, 0x940]"

definition hi_naama :: jstring where
  "hi_naama = [0x928, 0x93E, 0x92E]"

definition hi_adhikaarii_kaa_naama :: jstring where
  "hi_adhikaarii_kaa_naama = [0x905, 0x927, 0x93F, 0x915, 0x93E, 0x930, 0x940, 0x20, 0x915,
     0x93E, 0x20, 0x928, 0x93E, 0x92E]"

definition hi_padaadhikaarii :: jstring where
  "hi_padaadhikaarii = [0x92A, 0x926, 0x93E, 0x927, 0x93F, 0x915, 0x93E, 0x930, 0x940]"

definition hi_vyapavartana :: jstring where
  "hi_vyapavartana = [0x935, 0x94D, 0x92F, 0x92A, 0x935, 0x930, 0x94D, 0x924, 0x928]"

definition hi_vyapavartana_a_2 :: jstring where
  "hi_vyapavartana_a_2 = [0x935, 0x94D, 0x92F, 0x92A, 0x935, 0x930, 0x94D, 0x924, 0x928,
     0x20, 0x28, 0x905, 0x2D, 0x32, 0x29]"

definition hi_vyapavartana_a_2_v2 :: jstring where
  "hi_vyapavartana_a_2_v2 = [0x935, 0x94D, 0x92F, 0x92A, 0x935, 0x930, 0x94D, 0x924, 0x928,
     0x20, 0x905, 0x2D, 0x32]"

definition hi_abhilekha_durustii_trutiyudhaara :: jstring where
  "hi_abhilekha_durustii_trutiyudhaara = [0x905, 0x92D, 0x93F, 0x932, 0x947, 0x916, 0x20,
     0x926, 0x941, 0x930, 0x941, 0x938, 0x94D, 0x924, 0x940, 0x2F, 0x924, 0x94D, 0x930,
     0x941, 0x91F, 0x93F, 0x92F, 0x941, 0x927, 0x93E, 0x930]"

definition hi_truti_sudhaara :: jstring where
  "hi_truti_sudhaara = [0x924, 0x94D, 0x930, 0x941, 0x91F, 0x93F, 0x20, 0x938, 0x941, 0x927,
     0x93E, 0x930]"

definition hi_truti_sudhaara_a_6_a :: jstring where
  "hi_truti_sudhaara_a_6_a = [0x924, 0x94D, 0x930, 0x941, 0x91F, 0x93F, 0x20, 0x938, 0x941,
     0x927, 0x93E, 0x930, 0x20, 0x28, 0x905, 0x2D, 0x36, 0x2D, 0x905, 0x29]"

definition hi_truti_sudhaara_a_6_a_v2 :: jstring where
  "hi_truti_sudhaara_a_6_a_v2 = [0x924, 0x94D, 0x930, 0x941, 0x91F, 0x93F, 0x20, 0x938,
     0x941, 0x927, 0x93E, 0x930, 0x20, 0x905, 0x2D, 0x36, 0x2D, 0x905]"

definition hi_abhilekha_durustii :: jstring where
  "hi_abhilekha_durustii = [0x905, 0x92D, 0x93F, 0x932, 0x947, 0x916, 0x20, 0x926, 0x941,
     0x930, 0x941, 0x938, 0x94D, 0x924, 0x940]"

definition hi_apiila_niraakarana :: jstring where
  "hi_apiila_niraakarana = [0x905, 0x92A, 0x940, 0x932, 0x20, 0x928, 0x93F, 0x930, 0x93E,
     0x915, 0x930, 0x923]"

definition hi_aanganabaadii_skuula_piidiiesa_shopa_vikaasa_kaarya_niriikshana :: jstring where
  "hi_aanganabaadii_skuula_piidiiesa_shopa_vikaasa_kaarya_niriikshana = [0x906, 0x901, 0x917,
     0x928, 0x92C, 0x93E, 0x921, 0x93C, 0x940, 0x2F, 0x938, 0x94D, 0x915, 0x942, 0x932, 0x2F,
     0x92A, 0x940, 0x921, 0x940, 0x90F, 0x938, 0x20, 0x936, 0x949, 0x92A, 0x2F, 0x935, 0x93F,
     0x915, 0x93E, 0x938, 0x20, 0x915, 0x93E, 0x930, 0x94D, 0x92F, 0x20, 0x928, 0x93F, 0x930,
     0x940, 0x915, 0x94D, 0x937, 0x923]"

definition hi_aanganabaadii_skula_piidiiesa_shopa_svaasthya_kendra_niriikshana :: jstring where
  "hi_aanganabaadii_skula_piidiiesa_shopa_svaasthya_kendra_niriikshana = [0x906, 0x902,
     0x917, 0x928, 0x92C, 0x93E, 0x921, 0x93C, 0x940, 0x20, 0x2F, 0x20, 0x938, 0x94D, 0x915,
     0x941, 0x932, 0x20, 0x2F, 0x20, 0x92A, 0x940, 0x921, 0x940, 0x90F, 0x938, 0x20, 0x936,
     0x949, 0x92A, 0x20, 0x2F, 0x20, 0x938, 0x94D, 0x935, 0x93E, 0x938, 0x94D, 0x925, 0x94D,
     0x92F, 0x20, 0x915, 0x947, 0x928, 0x94D, 0x926, 0x94D, 0x930, 0x20, 0x928, 0x93F, 0x930,
     0x940, 0x915, 0x94D, 0x937, 0x923]"

definition hi_aanganabaadii_skuula_piidiiesa_shopa_svaasthya_kendra_niriikshana :: jstring where
  "hi_aanganabaadii_skuula_piidiiesa_shopa_svaasthya_kendra_niriikshana = [0x906, 0x902,
     0x917, 0x928, 0x92C, 0x93E, 0x921, 0x93C, 0x940, 0x2F, 0x938, 0x94D, 0x915, 0x942,
     0x932, 0x2F, 0x92A, 0x940, 0x921, 0x940, 0x90F, 0x938, 0x20, 0x936, 0x949, 0x92A, 0x2F,
     0x938, 0x94D, 0x935, 0x93E, 0x938, 0x94D, 0x925, 0x94D, 0x92F, 0x20, 0x915, 0x947,
     0x928, 0x94D, 0x926, 0x94D, 0x930, 0x20, 0x928, 0x93F, 0x930, 0x940, 0x915, 0x94D,
     0x937, 0x923]"

definition hi_aanganabaadii_skuula_piidiiesa_shopa_svaasthya_kendra_niriikshana_v2 :: jstring where
  "hi_aanganabaadii_skuula_piidiiesa_shopa_svaasthya_kendra_niriikshana_v2 = [0x906, 0x902,
     0x917, 0x928, 0x92C, 0x93E, 0x921, 0x93C, 0x940, 0x20, 0x938, 0x94D, 0x915, 0x942,
     0x932, 0x20, 0x92A, 0x940, 0x921, 0x940, 0x90F, 0x938, 0x20, 0x936, 0x949, 0x92A, 0x20,
     0x938, 0x94D, 0x935, 0x93E, 0x938, 0x94D, 0x925, 0x94D, 0x92F, 0x20, 0x915, 0x947,
     0x928, 0x94D, 0x926, 0x94D, 0x930, 0x20, 0x928, 0x93F, 0x930, 0x940, 0x915, 0x94D,
     0x937, 0x923]"

definition hi_tiiela_janadarshana_janashikaayata_piijii :: jstring where
  "hi_tiiela_janadarshana_janashikaayata_piijii = [0x91F, 0x940, 0x90F, 0x932, 0x2F, 0x91C,
     0x928, 0x926, 0x930, 0x94D, 0x936, 0x928, 0x2F, 0x91C, 0x928, 0x936, 0x93F, 0x915,
     0x93E, 0x92F, 0x924, 0x2F, 0x92A, 0x940, 0x91C, 0x940]"

definition hi_tii_ela_janadarshana_janashikaayata_loka_sevaa :: jstring where
  "hi_tii_ela_janadarshana_janashikaayata_loka_sevaa = [0x91F, 0x940, 0x2E, 0x90F, 0x932,
     0x2E, 0x2F, 0x91C, 0x928, 0x926, 0x930, 0x94D, 0x936, 0x928, 0x20, 0x2F, 0x20, 0x91C,
     0x928, 0x936, 0x93F, 0x915, 0x93E, 0x92F, 0x924, 0x20, 0x2F, 0x932, 0x94B, 0x915, 0x20,
     0x938, 0x947, 0x935, 0x93E]"

definition hi_tiiela_janadarshana_janashikaayata_piijii_v2 :: jstring where
  "hi_tiiela_janadarshana_janashikaayata_piijii_v2 = [0x91F, 0x940, 0x90F, 0x932, 0x20, 0x2F,
     0x20, 0x91C, 0x928, 0x926, 0x930, 0x94D, 0x936, 0x928, 0x20, 0x2F, 0x20, 0x91C, 0x928,
     0x936, 0x93F, 0x915, 0x93E, 0x92F, 0x924, 0x20, 0x2F, 0x20, 0x92A, 0x940, 0x91C, 0x940]"

definition hi_TL_janadarshana_janashikaayata_PG :: jstring where
  "hi_TL_janadarshana_janashikaayata_PG = [0x54, 0x4C, 0x20, 0x2F, 0x20, 0x91C, 0x928, 0x926,
     0x930, 0x94D, 0x936, 0x928, 0x20, 0x2F, 0x20, 0x91C, 0x928, 0x936, 0x93F, 0x915, 0x93E,
     0x92F, 0x924, 0x20, 0x2F, 0x20, 0x50, 0x47]"

definition hi_TL_janadarshana_janashikaayata_PG_v2 :: jstring where
  "hi_TL_janadarshana_janashikaayata_PG_v2 = [0x54, 0x4C, 0x2F, 0x91C, 0x928, 0x926, 0x930,
     0x94D, 0x936, 0x928, 0x2F, 0x91C, 0x928, 0x936, 0x93F, 0x915, 0x93E, 0x92F, 0x924, 0x2F,
     0x50, 0x47]"

definition hi_khaataa_vibhaajana_vivaadita_avivaadita :: jstring where
  "hi_khaataa_vibhaajana_vivaadita_avivaadita = [0x916, 0x93E, 0x924, 0x93E, 0x20, 0x935,
     0x93F, 0x92D, 0x93E, 0x91C, 0x928, 0x20, 0x28, 0x935, 0x93F, 0x935, 0x93E, 0x926, 0x93F,
     0x924, 0x20, 0x2B, 0x20, 0x905, 0x935, 0x93F, 0x935, 0x93E, 0x926, 0x93F, 0x924, 0x29]"

definition hi_khaataa_vibhaajana :: jstring where
  "hi_khaataa_vibhaajana = [0x916, 0x93E, 0x924, 0x93E, 0x20, 0x935, 0x93F, 0x92D, 0x93E,
     0x91C, 0x928]"

definition hi_naamaantarana_vivaadita_avivaadita :: jstring where
  "hi_naamaantarana_vivaadita_avivaadita = [0x928, 0x93E, 0x92E, 0x93E, 0x902, 0x924, 0x930,
     0x923, 0x20, 0x28, 0x935, 0x93F, 0x935, 0x93E, 0x926, 0x93F, 0x924, 0x20, 0x2B, 0x20,
     0x905, 0x935, 0x93F, 0x935, 0x93E, 0x926, 0x93F, 0x924, 0x29]"

definition hi_naamaantarana :: jstring where
  "hi_naamaantarana = [0x928, 0x93E, 0x92E, 0x93E, 0x902, 0x924, 0x930, 0x923]"

definition hi_siimaankana :: jstring where
  "hi_siimaankana = [0x938, 0x940, 0x92E, 0x93E, 0x902, 0x915, 0x928]"

definition hi_vividha_raajasva_maamale_bii_121 :: jstring where
  "hi_vividha_raajasva_maamale_bii_121 = [0x935, 0x93F, 0x935, 0x93F, 0x927, 0x20, 0x930,
     0x93E, 0x91C, 0x938, 0x94D, 0x935, 0x20, 0x92E, 0x93E, 0x92E, 0x932, 0x947, 0x20, 0x28,
     0x92C, 0x940, 0x2D, 0x31, 0x32, 0x31, 0x29]"

definition hi_vividha_raajasva_maamale :: jstring where
  "hi_vividha_raajasva_maamale = [0x935, 0x93F, 0x935, 0x93F, 0x927, 0x20, 0x930, 0x93E,
     0x91C, 0x938, 0x94D, 0x935, 0x20, 0x92E, 0x93E, 0x92E, 0x932, 0x947]"

definition hi_kula_niraakarana :: jstring where
  "hi_kula_niraakarana = [0x915, 0x941, 0x932, 0x20, 0x928, 0x93F, 0x930, 0x93E, 0x915,
     0x930, 0x923]"

definition hi_kuula_niraakarana :: jstring where
  "hi_kuula_niraakarana = [0x915, 0x942, 0x932, 0x20, 0x928, 0x93F, 0x930, 0x93E, 0x915,
     0x930, 0x923]"

definition hi_jaati_pramaanapatra :: jstring where
  "hi_jaati_pramaanapatra = [0x91C, 0x93E, 0x924, 0x93F, 0x20, 0x92A, 0x94D, 0x930, 0x92E,
     0x93E, 0x923, 0x92A, 0x924, 0x94D, 0x930]"

definition hi_jaati_pramaana_patra :: jstring where
  "hi_jaati_pramaana_patra = [0x91C, 0x93E, 0x924, 0x93F, 0x20, 0x92A, 0x94D, 0x930, 0x92E,
     0x93E, 0x923, 0x20, 0x92A, 0x924, 0x94D, 0x930]"

definition hi_avaidha_utkhanana_atikramana :: jstring where
  "hi_avaidha_utkhanana_atikramana = [0x905, 0x935, 0x948, 0x927, 0x20, 0x909, 0x924, 0x94D,
     0x916, 0x928, 0x928, 0x2F, 0x905, 0x924, 0x93F, 0x915, 0x94D, 0x930, 0x92E, 0x923]"

definition hi_avaidha_utkhanana_atikramana_v2 :: jstring where
  "hi_avaidha_utkhanana_atikramana_v2 = [0x905, 0x935, 0x948, 0x927, 0x20, 0x909, 0x924,
     0x94D, 0x916, 0x928, 0x928, 0x20, 0x2F, 0x905, 0x924, 0x93F, 0x915, 0x94D, 0x930, 0x92E,
     0x923]"

definition hi_aara_bii_sii_6_4 :: jstring where
  "hi_aara_bii_sii_6_4 = [0x906, 0x930, 0x20, 0x92C, 0x940, 0x20, 0x938, 0x940, 0x20, 0x36,
     0x20, 0x28, 0x34, 0x29]"

definition hi_aara_bii_sii_6_4_v2 :: jstring where
  "hi_aara_bii_sii_6_4_v2 = [0x906, 0x930, 0x2E, 0x92C, 0x940, 0x2E, 0x938, 0x940, 0x2E,
     0x20, 0x36, 0x20, 0x28, 0x34, 0x29]"

definition hi_kula_prakaranon_kaa_niraakarana :: jstring where
  "hi_kula_prakaranon_kaa_niraakarana = [0x915, 0x941, 0x932, 0x20, 0x92A, 0x94D, 0x930,
     0x915, 0x930, 0x923, 0x94B, 0x902, 0x20, 0x915, 0x93E, 0x20, 0x928, 0x93F, 0x930, 0x93E,
     0x915, 0x930, 0x923]"


datatype calc_type = PercentageCalc | DirectCalc

record kpi_mapping =
  searchTerms :: "jstring list"
  calculationType :: calc_type

record csv_parser_config =
  cfg_departmentSlug :: jstring
  cfg_role :: jstring
  officerNameColumn :: jstring
  kpiMappings :: "(jstring \<times> kpi_mapping) list"

record header_mapping =
  originalHeader :: jstring
  normalizedHeader :: jstring
  confidence :: rat

text \<open>
  The tables are objects; a list holds the entries of each in the order of
  \<open>Object.entries\<close>, which for keys like these is the order in which they are written.
\<close>

definition headerNormalizations :: "(jstring \<times> jstring list) list" where
  "headerNormalizations =
     [(hi_piithaasiina_adhikaarii,
       [hi_piithaasiina_adhikaarii_kaa_naama,
        hi_piithaasiina_adhikaarii, hi_adhikaarii, ascii ''officer'', ascii ''name'',
        hi_naama, hi_adhikaarii_kaa_naama, hi_padaadhikaarii]),
      (ascii ''officerName'',
       [hi_piithaasiina_adhikaarii,
        hi_piithaasiina_adhikaarii_kaa_naama, hi_adhikaarii, ascii ''officer'',
        ascii ''name'', hi_naama, hi_adhikaarii_kaa_naama, hi_padaadhikaarii]),
      (hi_vyapavartana,
       [hi_vyapavartana, hi_vyapavartana_a_2, hi_vyapavartana_a_2_v2,
        ascii ''disposal'', ascii ''case disposal'']),
      (hi_abhilekha_durustii_trutiyudhaara,
       [hi_abhilekha_durustii_trutiyudhaara,
        hi_truti_sudhaara, hi_truti_sudhaara_a_6_a, hi_truti_sudhaara_a_6_a_v2,
        ascii ''error correction'', ascii ''record correction'', hi_abhilekha_durustii]),
      (hi_apiila_niraakarana,
       [hi_apiila_niraakarana, ascii ''appeal disposal'',
        ascii ''appeal resolution'']),
      (hi_aanganabaadii_skuula_piidiiesa_shopa_vikaasa_kaarya_niriikshana,
       [hi_aanganabaadii_skuula_piidiiesa_shopa_vikaasa_kaarya_niriikshana,
        hi_aanganabaadii_skula_piidiiesa_shopa_svaasthya_kendra_niriikshana,
        hi_aanganabaadii_skuula_piidiiesa_shopa_svaasthya_kendra_niriikshana,
        hi_aanganabaadii_skuula_piidiiesa_shopa_svaasthya_kendra_niriikshana_v2,
        ascii ''inspection'', ascii ''field inspection'']),
      (hi_tiiela_janadarshana_janashikaayata_piijii,
       [hi_tiiela_janadarshana_janashikaayata_piijii,
        hi_tii_ela_janadarshana_janashikaayata_loka_sevaa,
        hi_tiiela_janadarshana_janashikaayata_piijii_v2,
        hi_TL_janadarshana_janashikaayata_PG, hi_TL_janadarshana_janashikaayata_PG_v2,
        ascii ''public hearing'', ascii ''grievance'']),
      (hi_khaataa_vibhaajana_vivaadita_avivaadita,
       [hi_khaataa_vibhaajana_vivaadita_avivaadita,
        hi_khaataa_vibhaajana, ascii ''account division'']),
      (hi_naamaantarana_vivaadita_avivaadita,
       [hi_naamaantarana_vivaadita_avivaadita,
        hi_naamaantarana, ascii ''name transfer'']),
      (hi_siimaankana,
       [hi_siimaankana, ascii ''demarcation'']),
      (hi_vividha_raajasva_maamale_bii_121,
       [hi_vividha_raajasva_maamale_bii_121,
        hi_vividha_raajasva_maamale, ascii ''miscellaneous revenue cases'']),
      (hi_kula_niraakarana,
       [hi_kula_niraakarana, hi_kuula_niraakarana,
        ascii ''total disposal'']),
      (hi_jaati_pramaanapatra,
       [hi_jaati_pramaanapatra, hi_jaati_pramaana_patra,
        ascii ''caste certificate'']),
      (hi_avaidha_utkhanana_atikramana,
       [hi_avaidha_utkhanana_atikramana,
        hi_avaidha_utkhanana_atikramana_v2, ascii ''illegal excavation/encroachment'']),
      (hi_aara_bii_sii_6_4,
       [hi_aara_bii_sii_6_4, ascii ''RBC 6(4)'',
        hi_aara_bii_sii_6_4_v2]),
      (hi_tii_ela_janadarshana_janashikaayata_loka_sevaa,
       [hi_tii_ela_janadarshana_janashikaayata_loka_sevaa,
        hi_tiiela_janadarshana_janashikaayata_piijii, ascii ''public hearing'',
        ascii ''grievance''])]"

definition sdmConfig :: csv_parser_config where
  "sdmConfig =
     \<lparr>cfg_departmentSlug = ascii ''revenue-department'', cfg_role = ascii ''sdm'',
      officerNameColumn = hi_piithaasiina_adhikaarii,
      kpiMappings =
        [(hi_vyapavartana,
          \<lparr>searchTerms = [hi_vyapavartana],
           calculationType = PercentageCalc\<rparr>),
         (hi_abhilekha_durustii_trutiyudhaara,
          \<lparr>searchTerms = [hi_abhilekha_durustii_trutiyudhaara],
           calculationType = PercentageCalc\<rparr>),
         (hi_apiila_niraakarana,
          \<lparr>searchTerms = [hi_apiila_niraakarana],
           calculationType = PercentageCalc\<rparr>),
         (hi_kula_prakaranon_kaa_niraakarana,
          \<lparr>searchTerms = [hi_kula_prakaranon_kaa_niraakarana],
           calculationType = PercentageCalc\<rparr>),
         (hi_jaati_pramaanapatra,
          \<lparr>searchTerms = [hi_jaati_pramaanapatra],
           calculationType = PercentageCalc\<rparr>),
         (hi_aanganabaadii_skuula_piidiiesa_shopa_vikaasa_kaarya_niriikshana,
          \<lparr>searchTerms = [hi_aanganabaadii_skuula_piidiiesa_shopa_vikaasa_kaarya_niriikshana],
           calculationType = PercentageCalc\<rparr>),
         (ascii ''RBC 6(4)'',
          \<lparr>searchTerms = [ascii ''RBC 6(4)''],
           calculationType = PercentageCalc\<rparr>),
         (hi_tiiela_janadarshana_janashikaayata_piijii,
          \<lparr>searchTerms = [hi_tiiela_janadarshana_janashikaayata_piijii],
           calculationType = PercentageCalc\<rparr>)]\<rparr>"

definition tehsildarConfig :: csv_parser_config where
  "tehsildarConfig =
     \<lparr>cfg_departmentSlug = ascii ''revenue-department'', cfg_role = ascii ''tehsildar'',
      officerNameColumn = hi_piithaasiina_adhikaarii,
      kpiMappings =
        [(hi_khaataa_vibhaajana_vivaadita_avivaadita,
          \<lparr>searchTerms = [hi_khaataa_vibhaajana_vivaadita_avivaadita, hi_khaataa_vibhaajana],
           calculationType = PercentageCalc\<rparr>),
         (hi_naamaantarana_vivaadita_avivaadita,
          \<lparr>searchTerms = [hi_naamaantarana_vivaadita_avivaadita, hi_naamaantarana],
           calculationType = PercentageCalc\<rparr>),
         (hi_siimaankana,
          \<lparr>searchTerms = [hi_siimaankana],
           calculationType = PercentageCalc\<rparr>),
         (hi_vividha_raajasva_maamale_bii_121,
          \<lparr>searchTerms = [hi_vividha_raajasva_maamale_bii_121, hi_vividha_raajasva_maamale],
           calculationType = PercentageCalc\<rparr>),
         (hi_kula_niraakarana,
          \<lparr>searchTerms = [hi_kuula_niraakarana, hi_kula_niraakarana],
           calculationType = PercentageCalc\<rparr>),
         (hi_jaati_pramaanapatra,
          \<lparr>searchTerms = [hi_jaati_pramaana_patra, hi_jaati_pramaanapatra],
           calculationType = PercentageCalc\<rparr>),
         (hi_avaidha_utkhanana_atikramana,
          \<lparr>searchTerms = [hi_avaidha_utkhanana_atikramana_v2, hi_avaidha_utkhanana_atikramana],
           calculationType = PercentageCalc\<rparr>),
         (hi_aara_bii_sii_6_4,
          \<lparr>searchTerms = [hi_aara_bii_sii_6_4, ascii ''RBC 6(4)''],
           calculationType = PercentageCalc\<rparr>),
         (hi_tii_ela_janadarshana_janashikaayata_loka_sevaa,
          \<lparr>searchTerms = [hi_tii_ela_janadarshana_janashikaayata_loka_sevaa,
             hi_tiiela_janadarshana_janashikaayata_piijii],
           calculationType = PercentageCalc\<rparr>)]\<rparr>"

definition csvParserConfigs :: "(jstring \<times> csv_parser_config) list" where
  "csvParserConfigs =
     [(ascii ''revenue-department-sdm'', sdmConfig),
      (ascii ''revenue-department-tehsildar'', tehsildarConfig)]"

subsection \<open>Header normalizer\<close>

record best_match =
  standardHeader :: jstring
  bm_variation :: jstring
  bm_score :: nat

definition variationScore :: "jstring \<Rightarrow> jstring \<Rightarrow> nat" where
  "variationScore normalized variation =
     (let variationLower = toLowerCase variation
      in if normalized = variationLower then 100
         else if js_includes normalized variationLower \<or>
                 js_includes variationLower normalized then 50
         else 0)"

text \<open>The body of the inner loop: a strictly better score replaces the best match.\<close>

definition considerVariation ::
  "jstring \<Rightarrow> jstring \<Rightarrow> best_match option \<Rightarrow> jstring \<Rightarrow> best_match option" where
  "considerVariation normalized std bestMatch variation =
     (let score = variationScore normalized variation
      in if score > 0 \<and> (case bestMatch of None \<Rightarrow> True | Some b \<Rightarrow> score > bm_score b)
         then Some \<lparr>standardHeader = std, bm_variation = variation, bm_score = score\<rparr>
         else bestMatch)"

definition normalizeHeader :: "jstring \<Rightarrow> (jstring \<times> jstring list) list \<Rightarrow> jstring option" where
  "normalizeHeader header normalizations =
     (let normalized = toLowerCase (trim header);
          bestMatch =
            foldl (\<lambda>best (std, variations). foldl (considerVariation normalized std) best variations)
              None normalizations
      in map_option standardHeader bestMatch)"

subsection \<open>Edit distance and similarity\<close>

text \<open>
  levenshteinDistance fills a matrix row by row; \<open>levCells\<close> computes the cells
  \<open>matrix[j][i..]\<close> of one row from the cell to the left and the row above.
\<close>

fun firstRow :: "nat \<Rightarrow> 'a list \<Rightarrow> nat list" where
  "firstRow i [] = [i]"
| "firstRow i (x # xs) = i # firstRow (i + 1) xs"

fun levCells :: "nat \<Rightarrow> jstring \<Rightarrow> nat \<Rightarrow> nat list \<Rightarrow> nat list" where
  "levCells c (x # xs) left (diag # up # prev) =
     (let v = min (min (left + 1) (up + 1)) (diag + (if x = c then 0 else 1))
      in v # levCells c xs v (up # prev))"
| "levCells c xs left prev = []"

definition levRow :: "jstring \<Rightarrow> nat \<times> nat list \<Rightarrow> nat \<Rightarrow> nat \<times> nat list" where
  "levRow str1 jrow c = (fst jrow + 1, (fst jrow + 1) # levCells c str1 (fst jrow + 1) (snd jrow))"

definition levenshteinDistance :: "jstring \<Rightarrow> jstring \<Rightarrow> nat" where
  "levenshteinDistance str1 str2 = last (snd (foldl (levRow str1) (0, firstRow 0 str1) str2))"

definition calculateSimilarity :: "jstring \<Rightarrow> jstring \<Rightarrow> rat" where
  "calculateSimilarity str1 str2 =
     (let longer = (if length str1 > length str2 then str1 else str2);
          shorter = (if length str1 > length str2 then str2 else str1)
      in if length longer = 0 then 1
         else (of_nat (length longer) - of_nat (levenshteinDistance longer shorter)) /
              of_nat (length longer))"

subsection \<open>Header mapping\<close>

text \<open>The body of the loop of findBestHeaderMatch over the available headers.\<close>

definition considerHeader ::
  "jstring \<Rightarrow> jstring \<Rightarrow> (jstring \<times> jstring list) list \<Rightarrow> header_mapping option \<times> rat \<Rightarrow>
   jstring \<Rightarrow> header_mapping option \<times> rat" where
  "considerHeader targetHeader normalizedTarget normalizations best header =
     (if header = [] \<or> trim header = [] then best
      else
        (case normalizeHeader header normalizations of
           None \<Rightarrow> best
         | Some nh \<Rightarrow>
             if nh = normalizedTarget then
               (if 1 > snd best
                then (Some \<lparr>originalHeader = header, normalizedHeader = nh, confidence = 1\<rparr>, 1)
                else best)
             else if nh \<noteq> [] \<and> calculateSimilarity header targetHeader > 7 / 10 then
               (let c = calculateSimilarity header targetHeader
                in if c > snd best
                   then (Some \<lparr>originalHeader = header, normalizedHeader = nh, confidence = c\<rparr>, c)
                   else best)
             else best))"

definition findBestHeaderMatch ::
  "jstring \<Rightarrow> jstring list \<Rightarrow> (jstring \<times> jstring list) list \<Rightarrow> header_mapping option" where
  "findBestHeaderMatch targetHeader availableHeaders normalizations =
     (case normalizeHeader targetHeader normalizations of
        None \<Rightarrow> None
      | Some normalizedTarget \<Rightarrow>
          if normalizedTarget = [] then None
          else fst (foldl (considerHeader targetHeader normalizedTarget normalizations) (None, 0)
                      availableHeaders))"

text \<open>The search terms of one KPI, tried in order; the first match is used.\<close>

fun firstSearchTermMatch :: "jstring list \<Rightarrow> jstring list \<Rightarrow> header_mapping option" where
  "firstSearchTermMatch [] headers = None"
| "firstSearchTermMatch (searchTerm # rest) headers =
     (case findBestHeaderMatch searchTerm headers headerNormalizations of
        Some kpiMatch \<Rightarrow> Some kpiMatch
      | None \<Rightarrow> firstSearchTermMatch rest headers)"

definition configKey :: "jstring \<Rightarrow> jstring \<Rightarrow> jstring" where
  "configKey dept role = dept @ ascii ''-'' @ role"

text \<open>
  createHeaderMapping; the result is an object, here the list of its entries. The
  sub-headers, which the source passes along, are not read.
\<close>

definition createHeaderMapping ::
  "jstring list \<Rightarrow> jstring \<Rightarrow> jstring \<Rightarrow> error + (jstring \<times> header_mapping) list" where
  "createHeaderMapping headers dept role =
     (case map_of csvParserConfigs (configKey dept role) of
        None \<Rightarrow> Inl (NoCsvConfig (configKey dept role))
      | Some config \<Rightarrow>
          (let officerNameMatch =
                 findBestHeaderMatch (officerNameColumn config) headers headerNormalizations;
               headerMapping0 =
                 (case officerNameMatch of
                    Some m \<Rightarrow> [(ascii ''officerName'', m)]
                  | None \<Rightarrow> [])
           in Inr (foldl (\<lambda>headerMapping (kpiName, mapping).
                       case firstSearchTermMatch (searchTerms mapping) headers of
                         Some kpiMatch \<Rightarrow> map_set kpiName kpiMatch headerMapping
                       | None \<Rightarrow> headerMapping)
                     headerMapping0 (kpiMappings config))))"

subsection \<open>Value extraction\<close>

text \<open>
  extractPercentageWithMapping. The sequence of KPIs is read from the configuration
  under the fixed key \<open>revenue-department-tehsildar\<close>, as in the source.
\<close>

definition percentageOf :: "int \<Rightarrow> int \<Rightarrow> rat" where
  "percentageOf disposed registered =
     (let exactPercentage = of_int disposed / of_int registered * 100;
          cappedPercentage = min exactPercentage 100
      in round2 cappedPercentage)"

definition extractPercentageWithMapping ::
  "jstring list \<Rightarrow> jstring list \<Rightarrow> header_mapping \<Rightarrow> jstring \<Rightarrow> rat option" where
  "extractPercentageWithMapping vals headers kpiMapping kpiName =
     (case findIndex (\<lambda>header. trim header = originalHeader kpiMapping) headers of
        None \<Rightarrow> None
      | Some kpiIndex \<Rightarrow>
          (case map_of csvParserConfigs (ascii ''revenue-department-tehsildar'') of
             None \<Rightarrow> None
           | Some config \<Rightarrow>
               (case indexOf (map fst (kpiMappings config)) kpiName of
                  None \<Rightarrow> None
                | Some kpiIndexInSequence \<Rightarrow>
                    (let baseIndex = 2 + kpiIndexInSequence * 3;
                         registeredIndex = baseIndex;
                         disposedIndex = baseIndex + 1;
                         registeredValue = map_option trim (nth_opt vals registeredIndex);
                         disposedValue = map_option trim (nth_opt vals disposedIndex)
                     in case (registeredValue, disposedValue) of
                          (Some rv, Some dv) \<Rightarrow>
                            if rv \<noteq> [] \<and> dv \<noteq> [] then
                              (case (parseInt rv, parseInt dv) of
                                 (Some registered, Some disposed) \<Rightarrow>
                                   if registered > 0 then Some (percentageOf disposed registered)
                                   else None
                               | _ \<Rightarrow> None)
                            else None
                        | _ \<Rightarrow> None))))"

definition extractDirectValueWithMapping ::
  "jstring list \<Rightarrow> jstring list \<Rightarrow> header_mapping \<Rightarrow> rat option" where
  "extractDirectValueWithMapping vals headers kpiMapping =
     (case findIndex (\<lambda>header. trim header = originalHeader kpiMapping) headers of
        None \<Rightarrow> None
      | Some kpiIndex \<Rightarrow>
          (case map_option trim (nth_opt vals kpiIndex) of
             None \<Rightarrow> None
           | Some v \<Rightarrow> if v \<noteq> [] then jsNumber v else None))"

subsection \<open>parseCsvData\<close>

text \<open>The values of one row: for each KPI of the configuration that has a mapped header.\<close>

definition extractKpi ::
  "jstring list \<Rightarrow> jstring list \<Rightarrow> (jstring \<times> header_mapping) list \<Rightarrow>
   (jstring \<times> rat) list \<Rightarrow> jstring \<times> kpi_mapping \<Rightarrow> (jstring \<times> rat) list" where
  "extractKpi vals headers headerMapping acc entry =
     (case map_of headerMapping (fst entry) of
        None \<Rightarrow> acc
      | Some kpiMapping \<Rightarrow>
          (case (case calculationType (snd entry) of
                   PercentageCalc \<Rightarrow>
                     extractPercentageWithMapping vals headers kpiMapping (fst entry)
                 | DirectCalc \<Rightarrow> extractDirectValueWithMapping vals headers kpiMapping) of
             Some v \<Rightarrow> map_set (fst entry) v acc
           | None \<Rightarrow> acc))"

text \<open>The body of the loop over the lines: the record of a line, or none when it is skipped.\<close>

definition parseLine ::
  "jstring list \<Rightarrow> (jstring \<times> header_mapping) list \<Rightarrow> csv_parser_config \<Rightarrow> jstring \<Rightarrow> nat \<Rightarrow>
   jstring \<Rightarrow> csv_kpi_data option" where
  "parseLine headers headerMapping config role officerNameIndex line =
     (let vals = split_on 44 line
      in if length vals < 2 then None
         else
           (case map_option trim (nth_opt vals officerNameIndex) of
              None \<Rightarrow> None
            | Some name \<Rightarrow>
                if name = [] then None
                else
                  (let extracted =
                         foldl (extractKpi vals headers headerMapping) [] (kpiMappings config)
                   in if length extracted > 0
                      then Some \<lparr>officerName = name,
                                 courtName =
                                   (if role = ascii ''tehsildar'' \<and> length vals > 1
                                    then map_option trim (nth_opt vals 1) else None),
                                 kpiValues = extracted\<rparr>
                      else None)))"

text \<open>
  parseCsvData. \<open>lines[1].split\<close> throws a TypeError when there is one line only. The
  loop over the lines starts at index 1.
\<close>

definition parseCsvData :: "jstring \<Rightarrow> jstring \<Rightarrow> jstring \<Rightarrow> error + csv_kpi_data list" where
  "parseCsvData csvContent dept role =
     (let lines = split_on 10 (trim csvContent)
      in case lines of
           [] \<Rightarrow> Inl TypeError
         | [_] \<Rightarrow> Inl TypeError
         | line0 # line1 # _ \<Rightarrow>
             (let headers = split_on 44 line0;
                  subHeaders = split_on 44 line1
              in case createHeaderMapping headers dept role of
                   Inl e \<Rightarrow> Inl e
                 | Inr headerMapping \<Rightarrow>
                     (case map_of headerMapping (ascii ''officerName'') of
                        None \<Rightarrow> Inl OfficerColumnNotFound
                      | Some officerNameMapping \<Rightarrow>
                          (case findIndex (\<lambda>header. trim header = originalHeader officerNameMapping)
                                  headers of
                             None \<Rightarrow> Inl OfficerColumnNotFound
                           | Some officerNameIndex \<Rightarrow>
                               (case map_of csvParserConfigs (configKey dept role) of
                                  None \<Rightarrow> Inl (NoCsvConfig (configKey dept role))
                                | Some config \<Rightarrow>
                                    Inr (List.map_filter
                                          (parseLine headers headerMapping config role officerNameIndex)
                                          (drop 1 lines)))))))"

text \<open>migrateCsvData: parse, and create the entries when there is a record.\<close>

definition migrateCsvData ::
  "identity_service \<Rightarrow> database \<Rightarrow> jstring \<Rightarrow> rat \<Rightarrow> rat \<Rightarrow> jstring \<Rightarrow> jstring \<Rightarrow> jstring \<Rightarrow>
   jstring \<Rightarrow> error + (migration_result \<times> database)" where
  "migrateCsvData svc db csvContent mo yr tid dept role creator =
     (case parseCsvData csvContent dept role of
        Inl e \<Rightarrow> Inl e
      | Inr csvData \<Rightarrow>
          if length csvData = 0 then
            Inr (\<lparr>totalRecords = 0, successfulEntries = 0, failedEntries = 0, skippedEntries = 0,
                  errors = [NoValidData], details = Map.empty\<rparr>, db)
          else createKpiEntryFromCsvData svc db csvData mo yr tid (orSystem creator))"

section \<open>Entry service (KpiEntryService)\<close>

text \<open>KpiEntryUpdate: every field of the entry optional.\<close>

record entry_update =
  u_month :: "rat option"
  u_year :: "rat option"
  u_templateId :: "jstring option"
  u_kpiRef :: "kpi_ref option"
  u_values :: "raw_value list option"
  u_status :: "status option"
  u_totalScore :: "rat option"
  u_createdBy :: "jstring option"
  u_createdFor :: "jstring option"

text \<open>
  The merge by name of updateKpiEntry: a map from name to item built from the stored
  values, each new value set into it, and the values of the map in its order. Only the
  name and the value of a merged item are read afterwards.
\<close>

definition mergeValues :: "scored_value list \<Rightarrow> raw_value list \<Rightarrow> raw_value list" where
  "mergeValues existingValues newValues =
     (let existingValuesMap =
            foldl (\<lambda>m item. map_set (sv_name item) (sv_value item) m) [] existingValues;
          merged =
            foldl (\<lambda>m newValue. map_set (rv_name newValue) (rv_value newValue) m)
              existingValuesMap newValues
      in map (\<lambda>(k, v). \<lparr>rv_name = k, rv_value = v\<rparr>) merged)"

text \<open>
  The first part of updateKpiEntry: when the update carries values, they are merged,
  validated and scored, and replace \<open>values\<close> and \<open>totalScore\<close> of the update.
\<close>

definition rescoredValues ::
  "database \<Rightarrow> nat \<Rightarrow> entry_update \<Rightarrow> error + (scored_value list option \<times> rat option)" where
  "rescoredValues db i upd =
     (case u_values upd of
        None \<Rightarrow> Inr (None, u_totalScore upd)
      | Some newValues \<Rightarrow>
          (case findEntryById db i of
             None \<Rightarrow> Inl EntryNotFound
           | Some existing \<Rightarrow>
               (case findTemplateById db (templateId existing) of
                  None \<Rightarrow> Inl TemplateNotFound
                | Some tpl \<Rightarrow>
                    (let mergedValues = mergeValues (entry_values existing) newValues
                     in case validateTemplateItems tpl (map rv_name mergedValues) of
                          Inl e \<Rightarrow> Inl e
                        | Inr _ \<Rightarrow>
                            (case validateAndCalculateScores tpl mergedValues of
                               Inl e \<Rightarrow> Inl e
                             | Inr validatedValues \<Rightarrow>
                                 Inr (Some validatedValues, Some (sum_scores validatedValues)))))))"

text \<open>The document after \<open>{...kpiEntry, status: 'initiated'}\<close> is set on it.\<close>

definition setFields ::
  "entry_update \<Rightarrow> scored_value list option \<Rightarrow> rat option \<Rightarrow> kpi_entry \<Rightarrow> kpi_entry" where
  "setFields upd vals tot e =
     e\<lparr>month := orElse (u_month upd) (month e),
       year := orElse (u_year upd) (year e),
       templateId := orElse (u_templateId upd) (templateId e),
       kpiRef := orElse (u_kpiRef upd) (kpiRef e),
       entry_values := orElse vals (entry_values e),
       status := Initiated,
       totalScore := orElse tot (totalScore e),
       createdBy := orElse (u_createdBy upd) (createdBy e),
       createdFor := orElse (u_createdFor upd) (createdFor e)\<rparr>"

text \<open>findByIdAndUpdate: the first document with the id is changed; none, and null comes back.\<close>

fun updateFirst :: "('a \<Rightarrow> bool) \<Rightarrow> ('a \<Rightarrow> 'a) \<Rightarrow> 'a list \<Rightarrow> 'a list" where
  "updateFirst p f [] = []"
| "updateFirst p f (x # xs) = (if p x then f x # xs else x # updateFirst p f xs)"

definition findByIdAndUpdate ::
  "database \<Rightarrow> nat \<Rightarrow> (kpi_entry \<Rightarrow> kpi_entry) \<Rightarrow> database \<times> kpi_entry option" where
  "findByIdAndUpdate db i f =
     (case findEntryById db i of
        None \<Rightarrow> (db, None)
      | Some e \<Rightarrow>
          (db\<lparr>kpi_entries := updateFirst (\<lambda>e. entry_id e = i) f (kpi_entries db)\<rparr>, Some (f e)))"

definition updateKpiEntry ::
  "database \<Rightarrow> nat \<Rightarrow> entry_update \<Rightarrow> error + (database \<times> kpi_entry option)" where
  "updateKpiEntry db i upd =
     (case rescoredValues db i upd of
        Inl e \<Rightarrow> Inl e
      | Inr (vals, tot) \<Rightarrow> Inr (findByIdAndUpdate db i (setFields upd vals tot)))"

definition updateKpiEntryStatus :: "database \<Rightarrow> nat \<Rightarrow> status \<Rightarrow> database \<times> kpi_entry option" where
  "updateKpiEntryStatus db i s = findByIdAndUpdate db i (\<lambda>e. e\<lparr>status := s\<rparr>)"

definition bulkUpdateStatus :: "database \<Rightarrow> nat list \<Rightarrow> status \<Rightarrow> database" where
  "bulkUpdateStatus db ids s =
     db\<lparr>kpi_entries := map (\<lambda>e. if entry_id e \<in> set ids then e\<lparr>status := s\<rparr> else e) (kpi_entries db)\<rparr>"

text \<open>
  insertMany: every document is validated before anything is written, and one document
  that fails keeps all of them out of the collection. The saved documents get fresh ids,
  in order.
\<close>

definition insertMany :: "database \<Rightarrow> kpi_entry list \<Rightarrow> error + (database \<times> kpi_entry list)" where
  "insertMany db docs =
     (if list_all schema_valid docs then
        (let saved = map (\<lambda>(n, e). e\<lparr>entry_id := next_id db + n\<rparr>) (enumerate 0 docs)
         in Inr (db\<lparr>kpi_entries := kpi_entries db @ saved, next_id := next_id db + length docs\<rparr>,
                 saved))
      else Inl SchemaValidation)"

text \<open>
  The document createKpiEntry builds for one reference of the member; \<open>values\<close>,
  \<open>status\<close> and \<open>totalScore\<close> are not set and take the defaults of the schema.
\<close>

definition newEntryDoc :: "rat \<Rightarrow> rat \<Rightarrow> jstring \<Rightarrow> jstring \<Rightarrow> jstring \<Rightarrow> kpi_ref \<Rightarrow> kpi_entry" where
  "newEntryDoc mo yr tid creator who kpi =
     \<lparr>entry_id = 0, month = mo, year = yr, templateId = tid, kpiRef = kpi, entry_values = [],
      status = Created, totalScore = 0, createdBy = creator, createdFor = who\<rparr>"

text \<open>
  createKpiEntry. \<open>memberById\<close> is what the identity service answers to
  \<open>GET /members/<id>\<close>: None for a failed call or an answer without a member, both of
  which the function turns into the same error. A member without \<open>metadata.kpiRef\<close>
  makes \<open>map\<close> throw. The arguments are optional in the source; the router passes
  month, year, templateId and createdFor only when they are there, and a createdBy that
  is missing is the empty string here: the required validator rejects both alike.
\<close>

definition createKpiEntry ::
  "(jstring \<Rightarrow> member option) \<Rightarrow> database \<Rightarrow> rat \<Rightarrow> rat \<Rightarrow> jstring \<Rightarrow> jstring \<Rightarrow> jstring \<Rightarrow>
   error + (database \<times> kpi_entry list)" where
  "createKpiEntry memberById db mo yr tid creator who =
     (case findTemplateById db tid of
        None \<Rightarrow> Inl TemplateNotFound
      | Some template \<Rightarrow>
          (case existingEntry db who mo yr tid of
             Some _ \<Rightarrow> Inl EntryAlreadyExists
           | None \<Rightarrow>
               (case memberById who of
                  None \<Rightarrow> Inl MemberFetchFailed
                | Some m \<Rightarrow>
                    (case metadata_kpiRef m of
                       None \<Rightarrow> Inl TypeError
                     | Some refs \<Rightarrow>
                         insertMany db (map (newEntryDoc mo yr tid creator who) refs)))))"

text \<open>findByIdAndDelete: the first document with the id is removed and returned.\<close>

fun removeFirst :: "('a \<Rightarrow> bool) \<Rightarrow> 'a list \<Rightarrow> 'a list" where
  "removeFirst p [] = []"
| "removeFirst p (x # xs) = (if p x then xs else x # removeFirst p xs)"

definition deleteKpiEntry :: "database \<Rightarrow> nat \<Rightarrow> database \<times> kpi_entry option" where
  "deleteKpiEntry db i =
     (db\<lparr>kpi_entries := removeFirst (\<lambda>e. entry_id e = i) (kpi_entries db)\<rparr>, findEntryById db i)"

section \<open>Monthly report (kpi\_entry.monthly-report.ts, generateMonthlyReport)\<close>

record monthly_report_filters =
  rf_month :: rat
  rf_year :: rat
  rf_department :: "jstring option"

record report_details =
  rd_created :: nat
  rd_initiated :: nat
  rd_generated :: nat

record monthly_report_result =
  mr_totalEntries :: nat
  mr_updatedEntries :: nat
  mr_skippedEntries :: nat
  mr_department :: "jstring option"
  mr_month :: rat
  mr_year :: rat
  mr_details :: report_details

text \<open>
  The query: month, year, a status that is not generated yet and, when a department is
  given (and is not the empty string), a template of that department.
\<close>

definition reportQuery :: "database \<Rightarrow> monthly_report_filters \<Rightarrow> kpi_entry \<Rightarrow> bool" where
  "reportQuery db f e =
     (month e = rf_month f \<and> year e = rf_year f \<and> (status e = Created \<or> status e = Initiated) \<and>
      (case rf_department f of
         None \<Rightarrow> True
       | Some department \<Rightarrow>
           if department = [] then True
           else
             (let templates = filter (\<lambda>t. departmentSlug t = department) (kpi_templates db);
                  templateIds = map template_id templates
              in templateId e \<in> set templateIds)))"

text \<open>
  The body of the loop over the entries found: an entry whose template is in the map and
  that has a value is set to generated by its id, any other entry is counted as skipped.
  The state is the store, updatedEntries, skippedEntries and details.
\<close>

definition reportStep ::
  "(jstring \<times> kpi_template) list \<Rightarrow> database \<times> nat \<times> nat \<times> report_details \<Rightarrow> kpi_entry \<Rightarrow>
   database \<times> nat \<times> nat \<times> report_details" where
  "reportStep templateMap st entry =
     (case st of
        (db, updatedEntries, skipped, det) \<Rightarrow>
          (case map_of templateMap (templateId entry) of
             None \<Rightarrow> (db, updatedEntries, skipped + 1, det)
           | Some template \<Rightarrow>
               if length (entry_values entry) > 0 then
                 (fst (findByIdAndUpdate db (entry_id entry) (\<lambda>e. e\<lparr>status := Generated\<rparr>)),
                  updatedEntries + 1, skipped,
                  if status entry = Created then det\<lparr>rd_created := rd_created det + 1\<rparr>
                  else if status entry = Initiated then det\<lparr>rd_initiated := rd_initiated det + 1\<rparr>
                  else det)
               else (db, updatedEntries, skipped + 1, det)))"

text \<open>
  The final counts: the entries of the month and year are grouped by status, and a
  status that has a group overwrites its field of details; a status without a group
  leaves the field as the loop left it.
\<close>

definition finalDetails :: "database \<Rightarrow> rat \<Rightarrow> rat \<Rightarrow> report_details \<Rightarrow> report_details" where
  "finalDetails db mo yr det =
     (let count = (\<lambda>s. length (filter (\<lambda>e. month e = mo \<and> year e = yr \<and> status e = s)
                                 (kpi_entries db)))
      in \<lparr>rd_created = (if count Created > 0 then count Created else rd_created det),
          rd_initiated = (if count Initiated > 0 then count Initiated else rd_initiated det),
          rd_generated = (if count Generated > 0 then count Generated else rd_generated det)\<rparr>)"

text \<open>
  generateMonthlyReport. The entries are read once, before the loop; the ids of their
  templates are made unique (only membership in them is used) and the templates with
  these ids are put into a map by id.
\<close>

definition generateMonthlyReport ::
  "database \<Rightarrow> monthly_report_filters \<Rightarrow> database \<times> monthly_report_result" where
  "generateMonthlyReport db f =
     (let entriesToUpdate = filter (reportQuery db f) (kpi_entries db);
          noDetails = \<lparr>rd_created = 0, rd_initiated = 0, rd_generated = 0\<rparr>
      in if length entriesToUpdate = 0 then
           (db, \<lparr>mr_totalEntries = 0, mr_updatedEntries = 0, mr_skippedEntries = 0,
                 mr_department = rf_department f, mr_month = rf_month f, mr_year = rf_year f,
                 mr_details = noDetails\<rparr>)
         else
           (let templateIds = remdups (map templateId entriesToUpdate);
                templates = filter (\<lambda>t. template_id t \<in> set templateIds) (kpi_templates db);
                templateMap = foldl (\<lambda>m t. map_set (template_id t) t m) [] templates
            in case foldl (reportStep templateMap) (db, 0, 0, noDetails) entriesToUpdate of
                 (db', updatedEntries, skipped, det) \<Rightarrow>
                   (db', \<lparr>mr_totalEntries = length entriesToUpdate,
                          mr_updatedEntries = updatedEntries, mr_skippedEntries = skipped,
                          mr_department = rf_department f, mr_month = rf_month f,
                          mr_year = rf_year f,
                          mr_details = finalDetails db' (rf_month f) (rf_year f) det\<rparr>)))"

section \<open>Statistics engine (getEmployeeRankings)\<close>

text \<open>
  StatisticsFilters: every field optional. \<open>limit\<close> and \<open>page\<close> are numbers in the
  source; the model takes whole numbers.
\<close>

record statistics_filters =
  f_month :: "rat option"
  f_year :: "rat option"
  f_departments :: "jstring list option"
  f_roles :: "jstring list option"
  f_excludeDepartments :: "jstring list option"
  f_excludeRoles :: "jstring list option"
  f_limit :: "int option"
  f_page :: "int option"

record entry_summary =
  es_templateId :: jstring
  es_templateName :: jstring
  es_totalScore :: rat
  es_maxPossibleScore :: rat
  es_percentageScore :: rat
  es_status :: status

record employee_score =
  employeeId :: jstring
  emp_createdFor :: jstring
  emp_departmentSlug :: jstring
  emp_role :: jstring
  emp_totalScore :: rat
  maxPossibleScore :: rat
  emp_kpiEntries :: "entry_summary list"

text \<open>An EmployeeRanking: the employee's fields, spread, with a percentage and a rank.\<close>

record employee_ranking =
  employee :: employee_score
  percentageScore :: rat
  ranking_rank :: nat

record rankings_page =
  rankings :: "employee_ranking list"
  page_total :: nat
  page_page :: int
  page_limit :: int
  totalPages :: "int option"
  hasNextPage :: bool
  hasPreviousPage :: bool

definition defaultDepartments :: "jstring list" where
  "defaultDepartments = [ascii ''collector-office'', ascii ''revenue-department'']"

definition finalDepartments :: "statistics_filters \<Rightarrow> jstring list" where
  "finalDepartments f =
     (let departments = orElse (f_departments f) defaultDepartments
      in if length departments > 0 then departments else defaultDepartments)"

definition finalRoles :: "statistics_filters \<Rightarrow> jstring list" where
  "finalRoles f = orElse (f_roles f) []"

text \<open>The query: generated entries, of the month and the year when they are given and not 0.\<close>

definition rankingQuery :: "statistics_filters \<Rightarrow> kpi_entry \<Rightarrow> bool" where
  "rankingQuery f e =
     (status e = Generated \<and>
      (case f_month f of Some m \<Rightarrow> m \<noteq> 0 \<longrightarrow> month e = m | None \<Rightarrow> True) \<and>
      (case f_year f of Some y \<Rightarrow> y \<noteq> 0 \<longrightarrow> year e = y | None \<Rightarrow> True))"

definition startsWith :: "jstring \<Rightarrow> jstring \<Rightarrow> bool" where
  "startsWith s p = (take (length p) s = p)"

definition departmentMatch :: "statistics_filters \<Rightarrow> kpi_template \<Rightarrow> bool" where
  "departmentMatch f tpl =
     (departmentSlug tpl \<in> set (finalDepartments f) \<and>
      departmentSlug tpl \<notin> set (orElse (f_excludeDepartments f) []))"

definition roleMatch :: "statistics_filters \<Rightarrow> kpi_template \<Rightarrow> bool" where
  "roleMatch f tpl =
     ((length (finalRoles f) = 0 \<or>
       (template_role tpl \<noteq> [] \<and> list_ex (\<lambda>r. startsWith (template_role tpl) r) (finalRoles f))) \<and>
      \<not> list_ex (\<lambda>r. template_role tpl \<noteq> [] \<and> startsWith (template_role tpl) r)
          (orElse (f_excludeRoles f) []))"

definition templateMaxScore :: "kpi_template \<Rightarrow> rat" where
  "templateMaxScore tpl = foldl (\<lambda>sum item. sum + maxMarks item) 0 (template_items tpl)"

definition newEmployee :: "kpi_template \<Rightarrow> kpi_entry \<Rightarrow> employee_score" where
  "newEmployee tpl e =
     \<lparr>employeeId = createdFor e, emp_createdFor = createdFor e,
      emp_departmentSlug = departmentSlug tpl, emp_role = template_role tpl,
      emp_totalScore = 0, maxPossibleScore = 0, emp_kpiEntries = []\<rparr>"

definition addToEmployee :: "kpi_template \<Rightarrow> kpi_entry \<Rightarrow> employee_score \<Rightarrow> employee_score" where
  "addToEmployee tpl e emp =
     emp\<lparr>emp_totalScore := emp_totalScore emp + totalScore e,
         maxPossibleScore := maxPossibleScore emp + templateMaxScore tpl,
         emp_kpiEntries := emp_kpiEntries emp @
           [\<lparr>es_templateId = templateId e, es_templateName = template_name tpl,
             es_totalScore = totalScore e, es_maxPossibleScore = templateMaxScore tpl,
             es_percentageScore =
               (if templateMaxScore tpl > 0 then totalScore e / templateMaxScore tpl * 100 else 0),
             es_status = status e\<rparr>]\<rparr>"

text \<open>
  \<open>if (!map.has(k)) map.set(k, fresh); const v = map.get(k); ...mutate v...\<close> on a Map in
  insertion order.
\<close>

fun upsert :: "'k \<Rightarrow> 'v \<Rightarrow> ('v \<Rightarrow> 'v) \<Rightarrow> ('k \<times> 'v) list \<Rightarrow> ('k \<times> 'v) list" where
  "upsert k fresh f [] = [(k, f fresh)]"
| "upsert k fresh f ((k', v) # kvs) =
     (if k' = k then (k', f v) # kvs else (k', v) # upsert k fresh f kvs)"

definition rankingStep ::
  "statistics_filters \<Rightarrow> database \<Rightarrow> (jstring \<times> employee_score) list \<Rightarrow> kpi_entry \<Rightarrow>
   (jstring \<times> employee_score) list" where
  "rankingStep f db employeeScores e =
     (case findTemplateById db (templateId e) of
        None \<Rightarrow> employeeScores
      | Some tpl \<Rightarrow>
          if \<not> departmentMatch f tpl \<or> \<not> roleMatch f tpl then employeeScores
          else upsert (createdFor e) (newEmployee tpl e) (addToEmployee tpl e) employeeScores)"

definition employeeScores :: "statistics_filters \<Rightarrow> database \<Rightarrow> employee_score list" where
  "employeeScores f db =
     map snd (foldl (rankingStep f db) [] (filter (rankingQuery f) (kpi_entries db)))"

definition withPercentage :: "employee_score \<Rightarrow> employee_ranking" where
  "withPercentage emp =
     \<lparr>employee = emp,
      percentageScore =
        (if maxPossibleScore emp > 0 then emp_totalScore emp / maxPossibleScore emp * 100 else 0),
      ranking_rank = 0\<rparr>"

definition byPercentageDesc :: "employee_ranking \<Rightarrow> employee_ranking \<Rightarrow> rat" where
  "byPercentageDesc a b = percentageScore b - percentageScore a"

definition addRanks :: "employee_ranking list \<Rightarrow> employee_ranking list" where
  "addRanks rs = map (\<lambda>(index, ranking). ranking\<lparr>ranking_rank := index + 1\<rparr>) (enumerate 0 rs)"

text \<open>The full ranking list, before the page is cut out of it.\<close>

definition allRankings :: "statistics_filters \<Rightarrow> database \<Rightarrow> employee_ranking list" where
  "allRankings f db = addRanks (js_sort byPercentageDesc (map withPercentage (employeeScores f db)))"

text \<open>\<open>Array.prototype.slice\<close> with whole-number bounds; a negative bound counts from the end.\<close>

definition js_slice :: "int \<Rightarrow> int \<Rightarrow> 'a list \<Rightarrow> 'a list" where
  "js_slice start stop xs =
     (let len = int (length xs);
          k = (if start < 0 then max (len + start) 0 else min start len);
          final = (if stop < 0 then max (len + stop) 0 else min stop len)
      in take (nat (final - k)) (drop (nat k) xs))"

text \<open>
  \<open>Math.ceil(n / limit)\<close>: for \<open>limit = 0\<close> the quotient is \<open>Infinity\<close> or \<open>NaN\<close>, None
  in the model; \<open>page < Infinity\<close> holds and \<open>page < NaN\<close> does not.
\<close>

definition ceilPages :: "nat \<Rightarrow> int \<Rightarrow> int option" where
  "ceilPages n limit = (if limit = 0 then None else Some \<lceil>(of_nat n :: rat) / of_int limit\<rceil>)"

definition getEmployeeRankings :: "statistics_filters \<Rightarrow> database \<Rightarrow> rankings_page" where
  "getEmployeeRankings f db =
     (let limit = orElse (f_limit f) 50;
          page = orElse (f_page f) 1;
          rankings = allRankings f db;
          startIndex = (page - 1) * limit;
          endIndex = startIndex + limit
      in \<lparr>rankings = js_slice startIndex endIndex rankings,
          page_total = length rankings,
          page_page = page,
          page_limit = limit,
          totalPages = ceilPages (length rankings) limit,
          hasNextPage =
            (case ceilPages (length rankings) limit of
               Some t \<Rightarrow> page < t
             | None \<Rightarrow> length rankings > 0),
          hasPreviousPage = (page > 1)\<rparr>)"

section \<open>Notions used to state what a migration run does\<close>

text \<open>
  A record is blocked in a store when the loop body skips it there: no member of that
  name, no reference of the member for the court, or an entry that is already there.
\<close>

definition blocked ::
  "identity_service \<Rightarrow> rat \<Rightarrow> rat \<Rightarrow> jstring \<Rightarrow> database \<Rightarrow> csv_kpi_data \<Rightarrow> bool" where
  "blocked svc mo yr tid db record =
     (case fetchMemberByName svc (officerName record) of
        None \<Rightarrow> True
      | Some m \<Rightarrow>
          (case court_of record of
             Some court \<Rightarrow>
               (case matchingCourtRef m court of
                  None \<Rightarrow> True
                | Some ref \<Rightarrow> existingForCourt db (userId m) mo yr tid court \<noteq> None)
           | None \<Rightarrow> existingEntry db (userId m) mo yr tid \<noteq> None))"

text \<open>Scoring or saving the entry of a record throws; the store plays no part in it.\<close>

definition scoreFails ::
  "kpi_template \<Rightarrow> rat \<Rightarrow> rat \<Rightarrow> jstring \<Rightarrow> jstring \<Rightarrow> member \<Rightarrow> kpi_ref \<Rightarrow> csv_kpi_data \<Rightarrow> bool" where
  "scoreFails tpl mo yr tid creator m ref record =
     (case validateAndCalculateScores tpl (toValues (kpiValues record)) of
        Inl _ \<Rightarrow> True
      | Inr validatedValues \<Rightarrow> \<not> schema_valid (newKpiEntry mo yr tid creator m ref validatedValues))"

definition rejects ::
  "identity_service \<Rightarrow> kpi_template \<Rightarrow> rat \<Rightarrow> rat \<Rightarrow> jstring \<Rightarrow> jstring \<Rightarrow> csv_kpi_data \<Rightarrow> bool" where
  "rejects svc tpl mo yr tid creator record =
     (case fetchMemberByName svc (officerName record) of
        None \<Rightarrow> False
      | Some m \<Rightarrow>
          (case court_of record of
             Some court \<Rightarrow>
               (case matchingCourtRef m court of
                  None \<Rightarrow> False
                | Some ref \<Rightarrow> scoreFails tpl mo yr tid creator m ref record)
           | None \<Rightarrow> scoreFails tpl mo yr tid creator m (firstRefOrDefault m) record))"

text \<open>A store that has the entries of another and then some, and the same templates.\<close>

definition extends :: "database \<Rightarrow> database \<Rightarrow> bool" where
  "extends db db' =
     (kpi_templates db' = kpi_templates db \<and>
      take (length (kpi_entries db)) (kpi_entries db') = kpi_entries db)"

text \<open>One record was counted: exactly one of the three counters went up by one.\<close>

definition countedOnce :: "migration_result \<Rightarrow> migration_result \<Rightarrow> bool" where
  "countedOnce res res' =
     (totalRecords res' = totalRecords res \<and>
      [successfulEntries res' - successfulEntries res, failedEntries res' - failedEntries res,
       skippedEntries res' - skippedEntries res] \<in> set [[1, 0, 0], [0, 1, 0], [0, 0, 1]] \<and>
      successfulEntries res \<le> successfulEntries res' \<and> failedEntries res \<le> failedEntries res' \<and>
      skippedEntries res \<le> skippedEntries res')"

text \<open>
  The state of the loop of createKpiEntryFromCsvData, run on a store, when it reaches the
  record at index \<open>i\<close>: the counters so far and the store so far.
\<close>

definition loopState ::
  "identity_service \<Rightarrow> kpi_template \<Rightarrow> rat \<Rightarrow> rat \<Rightarrow> jstring \<Rightarrow> jstring \<Rightarrow> database \<Rightarrow>
   csv_kpi_data list \<Rightarrow> nat \<Rightarrow> migration_result \<times> database" where
  "loopState svc tpl mo yr tid creator db csvData i =
     foldl (processRecord svc tpl mo yr tid creator)
       (\<lparr>totalRecords = length csvData, successfulEntries = 0, failedEntries = 0,
         skippedEntries = 0, errors = [], details = Map.empty\<rparr>, db)
       (take i csvData)"

section \<open>The operations that write to the entry collection\<close>

text \<open>
  The operations of the entry service, the monthly report service and the migration
  service that write to the collection of entries, with their arguments.
\<close>

datatype operation =
    CreateKpiEntry rat rat jstring jstring jstring
  | UpdateKpiEntry nat entry_update
  | UpdateKpiEntryStatus nat status
  | DeleteKpiEntry nat
  | BulkUpdateStatus "nat list" status
  | GenerateMonthlyReport monthly_report_filters
  | CreateKpiEntryFromCsvData "csv_kpi_data list" rat rat jstring jstring
  | MigrateCsvData jstring rat rat jstring jstring jstring jstring

text \<open>The store an operation leaves; an operation that throws has written nothing.\<close>

definition storeAfter ::
  "identity_service \<Rightarrow> (jstring \<Rightarrow> member option) \<Rightarrow> database \<Rightarrow> operation \<Rightarrow> database" where
  "storeAfter svc memberById db op =
     (case op of
        CreateKpiEntry mo yr tid creator who \<Rightarrow>
          (case createKpiEntry memberById db mo yr tid creator who of
             Inl _ \<Rightarrow> db | Inr (db', _) \<Rightarrow> db')
      | UpdateKpiEntry i upd \<Rightarrow>
          (case updateKpiEntry db i upd of Inl _ \<Rightarrow> db | Inr (db', _) \<Rightarrow> db')
      | UpdateKpiEntryStatus i s \<Rightarrow> fst (updateKpiEntryStatus db i s)
      | DeleteKpiEntry i \<Rightarrow> fst (deleteKpiEntry db i)
      | BulkUpdateStatus ids s \<Rightarrow> bulkUpdateStatus db ids s
      | GenerateMonthlyReport f \<Rightarrow> fst (generateMonthlyReport db f)
      | CreateKpiEntryFromCsvData csvData mo yr tid creator \<Rightarrow>
          (case createKpiEntryFromCsvData svc db csvData mo yr tid creator of
             Inl _ \<Rightarrow> db | Inr (_, db') \<Rightarrow> db')
      | MigrateCsvData csvContent mo yr tid dept role creator \<Rightarrow>
          (case migrateCsvData svc db csvContent mo yr tid dept role creator of
             Inl _ \<Rightarrow> db | Inr (_, db') \<Rightarrow> db'))"

text \<open>
  The ids of a store: no two entries share an id, and the next id is above all of them.
\<close>

definition storeIds :: "database \<Rightarrow> bool" where
  "storeIds db =
     (distinct (map entry_id (kpi_entries db)) \<and>
      list_all (\<lambda>e. entry_id e < next_id db) (kpi_entries db))"

definition succeeds :: "'e + 'a \<Rightarrow> bool" where
  "succeeds x = (case x of Inl _ \<Rightarrow> False | Inr _ \<Rightarrow> True)"

text \<open>
  The entries that the monthly report sets to generated: those its query finds whose
  template is in the store and that have at least one value.
\<close>

definition reportMarks :: "database \<Rightarrow> monthly_report_filters \<Rightarrow> kpi_entry \<Rightarrow> bool" where
  "reportMarks db f e =
     (reportQuery db f e \<and> findTemplateById db (templateId e) \<noteq> None \<and> entry_values e \<noteq> [])"

text \<open>
  The status of a stored entry after an operation, as the amended claim has it:
  updateKpiEntry sets initiated on the entry it updates, the two status operations set
  the status the caller passes, the monthly report sets generated on the entries it
  marks, and nothing else changes a status.
\<close>

definition statusAfter :: "database \<Rightarrow> operation \<Rightarrow> kpi_entry \<Rightarrow> status" where
  "statusAfter db op e =
     (case op of
        UpdateKpiEntry i upd \<Rightarrow>
          if entry_id e = i \<and> succeeds (updateKpiEntry db i upd) then Initiated else status e
      | UpdateKpiEntryStatus i s \<Rightarrow> if entry_id e = i then s else status e
      | BulkUpdateStatus ids s \<Rightarrow> if entry_id e \<in> set ids then s else status e
      | GenerateMonthlyReport f \<Rightarrow> if reportMarks db f e then Generated else status e
      | _ \<Rightarrow> status e)"

text \<open>
  The status of an entry that an operation creates, as the amended claim has it:
  created for createKpiEntry, generated for the migration; no other operation creates
  an entry.
\<close>

definition statusOfNew :: "operation \<Rightarrow> status option" where
  "statusOfNew op =
     (case op of
        CreateKpiEntry _ _ _ _ _ \<Rightarrow> Some Created
      | CreateKpiEntryFromCsvData _ _ _ _ _ \<Rightarrow> Some Generated
      | MigrateCsvData _ _ _ _ _ _ _ \<Rightarrow> Some Generated
      | _ \<Rightarrow> None)"

section \<open>The percentage rule as the specification words it\<close>

text \<open>
  Sort the rules descending by value; the score of the first rule whose value is at most
  the input; 0 when there is none.
\<close>

definition the_number :: "scoring_rule \<Rightarrow> rat" where
  "the_number r = (case rule_number r of Some x \<Rightarrow> x | None \<Rightarrow> 0)"

definition percentage_score_spec :: "scoring_rule list \<Rightarrow> rat \<Rightarrow> rat" where
  "percentage_score_spec rules v =
     (case find (\<lambda>r. the_number r \<le> v) (sort_key (\<lambda>r. - the_number r) rules) of
        Some r \<Rightarrow> rule_score r
      | None \<Rightarrow> 0)"

definition numeric_rules :: "scoring_rule list \<Rightarrow> bool" where
  "numeric_rules rules = list_all (\<lambda>r. rule_number r \<noteq> None) rules"

definition threshold_rule :: "rat \<Rightarrow> rat \<Rightarrow> scoring_rule" where
  "threshold_rule v s = \<lparr>rule_value = Some (Num v), rule_min = None, rule_max = None, rule_score = s\<rparr>"

definition example_rules :: "scoring_rule list" where
  "example_rules = [threshold_rule 90 10, threshold_rule 70 7, threshold_rule 50 5]"

definition one_item_template :: "template_item \<Rightarrow> kpi_template" where
  "one_item_template ti =
     \<lparr>template_id = ascii ''t1'', template_name = ascii ''T'', departmentSlug = ascii ''d'',
      template_role = ascii ''r'', template_items = [ti]\<rparr>"

definition percentage_item :: "scoring_rule list \<Rightarrow> template_item" where
  "percentage_item rules =
     \<lparr>item_name = ascii ''p'', maxMarks = 10, kpiType = Percentage, scoringRules = rules\<rparr>"

definition score_item :: "rat \<Rightarrow> template_item" where
  "score_item m = \<lparr>item_name = ascii ''s'', maxMarks = m, kpiType = Score, scoringRules = []\<rparr>"

section \<open>The header policy as the specification words it\<close>

text \<open>
  Every (canonical key, variant) pair of the table in iteration order; the score of a
  header against a variant (100 for case-insensitive equality, 50 for containment in
  either direction, 0 otherwise); the best score over the table; and the canonical key
  of the first pair that reaches the best score, none when the best score is 0.
\<close>

definition variantPairs :: "(jstring \<times> jstring list) list \<Rightarrow> (jstring \<times> jstring) list" where
  "variantPairs table = concat (map (\<lambda>(std, variations). map (Pair std) variations) table)"

definition policyScore :: "jstring \<Rightarrow> jstring \<Rightarrow> nat" where
  "policyScore h v =
     (if toLowerCase h = toLowerCase v then 100
      else if js_includes (toLowerCase h) (toLowerCase v) \<or>
              js_includes (toLowerCase v) (toLowerCase h) then 50
      else 0)"

definition bestScore :: "jstring \<Rightarrow> (jstring \<times> jstring list) list \<Rightarrow> nat" where
  "bestScore h table = foldr max (map (\<lambda>p. policyScore h (snd p)) (variantPairs table)) 0"

definition policyNormalize :: "jstring \<Rightarrow> (jstring \<times> jstring list) list \<Rightarrow> jstring option" where
  "policyNormalize h table =
     (if bestScore h table = 0 then None
      else map_option fst
             (find (\<lambda>p. policyScore h (snd p) = bestScore h table) (variantPairs table)))"

section \<open>A small store, identity service and batch for the examples\<close>

definition exampleTemplate :: kpi_template where
  "exampleTemplate =
     \<lparr>template_id = ascii ''t1'', template_name = ascii ''T'',
      departmentSlug = ascii ''revenue-department'', template_role = ascii ''tehsildar'',
      template_items = [percentage_item example_rules]\<rparr>"

definition exampleDb :: database where
  "exampleDb = \<lparr>kpi_entries = [], kpi_templates = [exampleTemplate], next_id = 0\<rparr>"

definition courtRef :: "string \<Rightarrow> kpi_ref" where
  "courtRef c = \<lparr>ref_label = ascii ''court'', ref_value = ascii c\<rparr>"

definition memberA :: member where
  "memberA = \<lparr>userId = ascii ''u1'', user_name = ascii ''A'', metadata_kpiRef = Some [courtRef ''c2'']\<rparr>"

definition memberA2 :: member where
  "memberA2 = \<lparr>userId = ascii ''u2'', user_name = ascii ''A'', metadata_kpiRef = Some [courtRef ''c3'']\<rparr>"

definition exampleSvc :: identity_service where
  "exampleSvc =
     \<lparr>member_by_name = (\<lambda>n. if n = ascii ''A'' then Some memberA else None),
      tehsildar_members = Some [memberA, memberA2]\<rparr>"

definition recOk :: csv_kpi_data where
  "recOk = \<lparr>officerName = ascii ''A'', courtName = Some (ascii ''c2''), kpiValues = [(ascii ''p'', 96)]\<rparr>"

definition recOtherCourt :: csv_kpi_data where
  "recOtherCourt =
     \<lparr>officerName = ascii ''A'', courtName = Some (ascii ''c1''), kpiValues = [(ascii ''p'', 96)]\<rparr>"

definition recUnknownItem :: csv_kpi_data where
  "recUnknownItem =
     \<lparr>officerName = ascii ''A'', courtName = Some (ascii ''c2''), kpiValues = [(ascii ''q'', 96)]\<rparr>"

definition recUnknownOfficer :: csv_kpi_data where
  "recUnknownOfficer =
     \<lparr>officerName = ascii ''Z'', courtName = None, kpiValues = [(ascii ''p'', 96)]\<rparr>"

text \<open>The four counters of a result, in the order total, successful, failed, skipped.\<close>

definition counters :: "migration_result \<Rightarrow> nat list" where
  "counters res = [totalRecords res, successfulEntries res, failedEntries res, skippedEntries res]"

text \<open>What a run returned, read off for the examples.\<close>

definition resultCounters :: "error + (migration_result \<times> database) \<Rightarrow> nat list" where
  "resultCounters x = (case x of Inl _ \<Rightarrow> [] | Inr (res, _) \<Rightarrow> counters res)"

definition resultEntries :: "error + (migration_result \<times> database) \<Rightarrow> kpi_entry list" where
  "resultEntries x = (case x of Inl _ \<Rightarrow> [] | Inr (_, db) \<Rightarrow> kpi_entries db)"

definition resultMessage ::
  "error + (migration_result \<times> database) \<Rightarrow> jstring \<Rightarrow> message option" where
  "resultMessage x name =
     (case x of Inl _ \<Rightarrow> None | Inr (res, _) \<Rightarrow> map_option d_message (details res name))"

text \<open>The same batch run a second time, against the store the first run left.\<close>

definition migrateTwice ::
  "identity_service \<Rightarrow> database \<Rightarrow> csv_kpi_data list \<Rightarrow> rat \<Rightarrow> rat \<Rightarrow> jstring \<Rightarrow> jstring \<Rightarrow>
   error + (migration_result \<times> database)" where
  "migrateTwice svc db csvData mo yr tid creator =
     (case createKpiEntryFromCsvData svc db csvData mo yr tid creator of
        Inl e \<Rightarrow> Inl e
      | Inr (res1, db1) \<Rightarrow> createKpiEntryFromCsvData svc db1 csvData mo yr tid creator)"

text \<open>A stored entry that migration generated, and an update that carries no field.\<close>

definition storedEntry :: kpi_entry where
  "storedEntry =
     \<lparr>entry_id = 7, month = 5, year = 2024, templateId = ascii ''t1'', kpiRef = courtRef ''c2'',
      entry_values = [\<lparr>sv_name = ascii ''p'', sv_value = Num 96, sv_score = 10\<rparr>],
      status = Generated, totalScore = 10, createdBy = ascii ''system'', createdFor = ascii ''u1''\<rparr>"

definition oneEntryDb :: database where
  "oneEntryDb = \<lparr>kpi_entries = [storedEntry], kpi_templates = [exampleTemplate], next_id = 8\<rparr>"

definition emptyUpdate :: entry_update where
  "emptyUpdate =
     \<lparr>u_month = None, u_year = None, u_templateId = None, u_kpiRef = None, u_values = None,
      u_status = None, u_totalScore = None, u_createdBy = None, u_createdFor = None\<rparr>"

text \<open>
  A store for the monthly report: a created entry with a value, a created entry without
  values, an initiated entry with a value, a generated one, and a created entry with a
  value of another month.
\<close>

definition reportEntry :: "nat \<Rightarrow> rat \<Rightarrow> status \<Rightarrow> scored_value list \<Rightarrow> kpi_entry" where
  "reportEntry i mo s vs =
     \<lparr>entry_id = i, month = mo, year = 2024, templateId = ascii ''t1'', kpiRef = courtRef ''c2'',
      entry_values = vs, status = s, totalScore = 0, createdBy = ascii ''admin'',
      createdFor = ascii ''u1''\<rparr>"

definition oneValue :: "scored_value list" where
  "oneValue = [\<lparr>sv_name = ascii ''p'', sv_value = Num 96, sv_score = 10\<rparr>]"

definition reportDb :: database where
  "reportDb =
     \<lparr>kpi_entries =
        [reportEntry 10 5 Created oneValue, reportEntry 11 5 Created [],
         reportEntry 12 5 Initiated oneValue, reportEntry 13 5 Generated oneValue,
         reportEntry 14 6 Created oneValue],
      kpi_templates = [exampleTemplate], next_id = 15\<rparr>"

definition mayReport :: monthly_report_filters where
  "mayReport = \<lparr>rf_month = 5, rf_year = 2024, rf_department = None\<rparr>"

definition memberOfId :: "jstring \<Rightarrow> member option" where
  "memberOfId i = (if i = ascii ''u1'' then Some memberA else None)"

definition storedStatuses :: "error + (database \<times> kpi_entry option) \<Rightarrow> status list" where
  "storedStatuses x = (case x of Inl _ \<Rightarrow> [] | Inr (db, _) \<Rightarrow> map status (kpi_entries db))"

text \<open>
  Three employees with one generated entry each against the example template (10 marks):
  totals 7, 9 and 5, stored in that order.
\<close>

definition generatedEntry :: "nat \<Rightarrow> string \<Rightarrow> rat \<Rightarrow> kpi_entry" where
  "generatedEntry i who tot =
     \<lparr>entry_id = i, month = 5, year = 2024, templateId = ascii ''t1'', kpiRef = courtRef ''c2'',
      entry_values = [], status = Generated, totalScore = tot, createdBy = ascii ''system'',
      createdFor = ascii who\<rparr>"

definition rankingDb :: database where
  "rankingDb =
     \<lparr>kpi_entries = [generatedEntry 0 ''e70'' 7, generatedEntry 1 ''e90'' 9, generatedEntry 2 ''e50'' 5],
      kpi_templates = [exampleTemplate], next_id = 3\<rparr>"

definition pageFilters :: "int \<Rightarrow> int \<Rightarrow> statistics_filters" where
  "pageFilters limit page =
     \<lparr>f_month = None, f_year = None, f_departments = None, f_roles = None,
      f_excludeDepartments = None, f_excludeRoles = None, f_limit = Some limit, f_page = Some page\<rparr>"

definition rankingSummary :: "employee_ranking list \<Rightarrow> (jstring \<times> rat \<times> nat) list" where
  "rankingSummary rs = map (\<lambda>r. (employeeId (employee r), percentageScore r, ranking_rank r)) rs"

text \<open>
  Header rows and CSV texts for the examples of the parser: a layout of the tehsildar
  configuration and one of the sdm configuration, each with an officer column, a second
  column and the three columns of the first KPI.
\<close>

definition tehsildarHeaders :: "jstring list" where
  "tehsildarHeaders = [ascii ''officer'', ascii ''court'', ascii ''account division'']"

definition sdmHeaders :: "jstring list" where
  "sdmHeaders = [ascii ''officer'', ascii ''court'', ascii ''disposal'']"

definition dataRow :: "jstring list" where
  "dataRow = [ascii ''Ram'', ascii ''Court1'', ascii ''100'', ascii ''96'', ascii ''4'']"

definition casteHeaders :: "jstring list" where
  "casteHeaders = [ascii ''officer'', ascii ''court'', hi_jaati_pramaanapatra]"

definition wideRow :: "jstring list" where
  "wideRow = map ascii
     [''Ram'', ''Court1'', ''1'', ''1'', ''0'', ''1'', ''1'', ''0'', ''1'', ''1'', ''0'',
      ''1'', ''1'', ''0'', ''50'', ''25'', ''25'', ''10'', ''9'', ''1'']"

definition twoLineCsv :: jstring where
  "twoLineCsv = ascii ''officer,court,account division'' @ [10] @ ascii ''Ram,Court1,100,96,4''"

definition sdmCsv :: jstring where
  "sdmCsv =
     ascii ''officer,court,disposal'' @ [10] @ ascii '',,registered,disposed,pending'' @ [10] @
     ascii ''Ram,Court1,100,96,4''"

section \<open>Scoring: theorems\<close>

lemma insert_cmp_insort:
  "list_all (\<lambda>r. rule_number r \<noteq> None) (x # ys) \<Longrightarrow>
   insert_cmp cmp_rule_desc x ys = insort_key (\<lambda>r. - the_number r) x ys"
  by (induction ys) (auto simp: cmp_rule_desc_def the_number_def split: option.splits)

lemma list_all_insort:
  "list_all P (insort_key f x ys) = (P x \<and> list_all P ys)"
  by (induction ys) auto

lemma js_sort_rules:
  "numeric_rules rules \<Longrightarrow> js_sort cmp_rule_desc rules = sort_key (\<lambda>r. - the_number r) rules"
proof (induction rules)
  case Nil
  then show ?case by (simp add: js_sort_def)
next
  case (Cons r rs)
  then have ih: "js_sort cmp_rule_desc rs = sort_key (\<lambda>r. - the_number r) rs"
    by (simp add: numeric_rules_def)
  have "list_all (\<lambda>r. rule_number r \<noteq> None) (sort_key (\<lambda>r. - the_number r) rs)"
    using Cons.prems by (simp add: numeric_rules_def list_all_iff)
  with Cons.prems have "list_all (\<lambda>r. rule_number r \<noteq> None) (r # sort_key (\<lambda>r. - the_number r) rs)"
    by (simp add: numeric_rules_def)
  from insert_cmp_insort [OF this] ih show ?case
    by (simp add: js_sort_def)
qed

lemma first_threshold_find:
  "list_all (\<lambda>r. rule_number r \<noteq> None) rs \<Longrightarrow>
   first_threshold v rs =
     (case find (\<lambda>r. the_number r \<le> v) rs of Some r \<Rightarrow> rule_score r | None \<Rightarrow> 0)"
  by (induction rs) (auto simp: the_number_def split: option.splits)

lemma calculateScore_percentage:
  assumes "kpiType ti = Percentage" and "numeric_rules (scoringRules ti)"
  shows "calculateScore ti (Num v) = percentage_score_spec (scoringRules ti) v"
proof -
  have "list_all (\<lambda>r. rule_number r \<noteq> None) (sort_key (\<lambda>r. - the_number r) (scoringRules ti))"
    using assms(2) by (simp add: numeric_rules_def list_all_iff)
  from first_threshold_find [OF this] assms show ?thesis
    by (simp add: js_sort_rules percentage_score_spec_def)
qed

lemma find_item_name:
  "find (\<lambda>item. item_name item = n) xs = Some ti \<Longrightarrow> item_name ti = n"
  by (induction xs) (auto split: if_splits)

lemma validate_nth:
  "validateAndCalculateScores tpl vs = Inr out \<Longrightarrow> i < length vs \<Longrightarrow>
   find (\<lambda>item. item_name item = rv_name (vs ! i)) (template_items tpl) = Some ti \<Longrightarrow>
   i < length out \<and> out ! i = \<lparr>sv_name = rv_name (vs ! i), sv_value = rv_value (vs ! i),
       sv_score = calculateScore ti (rv_value (vs ! i))\<rparr>"
proof (induction vs arbitrary: out i)
  case Nil
  then show ?case by simp
next
  case (Cons v vs)
  then show ?case
    by (cases i) (auto split: option.splits sum.splits)
qed

lemma example_scores:
  "validateAndCalculateScores (one_item_template (percentage_item example_rules))
       [\<lparr>rv_name = ascii ''p'', rv_value = Num x\<rparr>] =
     (if x < 0 \<or> x > 100 then Inl (PercentageOutOfRange (ascii ''p''))
      else Inr [\<lparr>sv_name = ascii ''p'', sv_value = Num x,
                 sv_score = (if 90 \<le> x then 10 else if 70 \<le> x then 7 else if 50 \<le> x then 5 else 0)\<rparr>])"
  by (simp add: one_item_template_def percentage_item_def example_rules_def threshold_rule_def
      js_sort_def cmp_rule_desc_def rule_number_def)

text \<open>
  C1. For a percentage-type template item whose rules carry numeric thresholds,
  validateAndCalculateScores gives a submitted value in 0..100 the score that the
  specification words: the rules sorted descending by value, the score of the first rule
  whose value is at most the input, 0 when there is none. The same holds for the value at
  any position of a longer submission that the function accepts. With the rules
  (90, 10), (70, 7), (50, 5): 96 scores 10, 75 scores 7 and 40 scores 0.
\<close>

theorem percentage_score_is_first_threshold:
  assumes item: "find (\<lambda>item. item_name item = n) (template_items tpl) = Some ti"
    and perc: "kpiType ti = Percentage"
    and nums: "numeric_rules (scoringRules ti)"
  shows "(0 \<le> v \<and> v \<le> 100 \<longrightarrow>
           validateAndCalculateScores tpl [\<lparr>rv_name = n, rv_value = Num v\<rparr>] =
             Inr [\<lparr>sv_name = n, sv_value = Num v,
                   sv_score = percentage_score_spec (scoringRules ti) v\<rparr>]) \<and>
         (\<forall>vs out i. validateAndCalculateScores tpl vs = Inr out \<and> i < length vs \<and>
              vs ! i = \<lparr>rv_name = n, rv_value = Num v\<rparr> \<longrightarrow>
            i < length out \<and>
            out ! i = \<lparr>sv_name = n, sv_value = Num v,
                        sv_score = percentage_score_spec (scoringRules ti) v\<rparr>) \<and>
         validateAndCalculateScores (one_item_template (percentage_item example_rules))
             [\<lparr>rv_name = ascii ''p'', rv_value = Num 96\<rparr>] =
           Inr [\<lparr>sv_name = ascii ''p'', sv_value = Num 96, sv_score = 10\<rparr>] \<and>
         validateAndCalculateScores (one_item_template (percentage_item example_rules))
             [\<lparr>rv_name = ascii ''p'', rv_value = Num 75\<rparr>] =
           Inr [\<lparr>sv_name = ascii ''p'', sv_value = Num 75, sv_score = 7\<rparr>] \<and>
         validateAndCalculateScores (one_item_template (percentage_item example_rules))
             [\<lparr>rv_name = ascii ''p'', rv_value = Num 40\<rparr>] =
           Inr [\<lparr>sv_name = ascii ''p'', sv_value = Num 40, sv_score = 0\<rparr>]"
proof -
  have score: "calculateScore ti (Num v) = percentage_score_spec (scoringRules ti) v"
    by (rule calculateScore_percentage [OF perc nums])
  have single: "0 \<le> v \<and> v \<le> 100 \<longrightarrow>
      validateAndCalculateScores tpl [\<lparr>rv_name = n, rv_value = Num v\<rparr>] =
        Inr [\<lparr>sv_name = n, sv_value = Num v, sv_score = percentage_score_spec (scoringRules ti) v\<rparr>]"
    using item perc score by simp
  have nth: "\<forall>vs out i. validateAndCalculateScores tpl vs = Inr out \<and> i < length vs \<and>
              vs ! i = \<lparr>rv_name = n, rv_value = Num v\<rparr> \<longrightarrow>
            i < length out \<and>
            out ! i = \<lparr>sv_name = n, sv_value = Num v,
                        sv_score = percentage_score_spec (scoringRules ti) v\<rparr>"
  proof (intro allI impI)
    fix vs out i
    assume h: "validateAndCalculateScores tpl vs = Inr out \<and> i < length vs \<and>
              vs ! i = \<lparr>rv_name = n, rv_value = Num v\<rparr>"
    then have "find (\<lambda>item. item_name item = rv_name (vs ! i)) (template_items tpl) = Some ti"
      using item by simp
    from validate_nth [OF _ _ this, of out] h score
    show "i < length out \<and>
            out ! i = \<lparr>sv_name = n, sv_value = Num v,
                        sv_score = percentage_score_spec (scoringRules ti) v\<rparr>"
      by simp
  qed
  have e96: "validateAndCalculateScores (one_item_template (percentage_item example_rules))
             [\<lparr>rv_name = ascii ''p'', rv_value = Num 96\<rparr>] =
           Inr [\<lparr>sv_name = ascii ''p'', sv_value = Num 96, sv_score = 10\<rparr>]"
    by (simp only: example_scores) simp
  have e75: "validateAndCalculateScores (one_item_template (percentage_item example_rules))
             [\<lparr>rv_name = ascii ''p'', rv_value = Num 75\<rparr>] =
           Inr [\<lparr>sv_name = ascii ''p'', sv_value = Num 75, sv_score = 7\<rparr>]"
    by (simp only: example_scores) simp
  have e40: "validateAndCalculateScores (one_item_template (percentage_item example_rules))
             [\<lparr>rv_name = ascii ''p'', rv_value = Num 40\<rparr>] =
           Inr [\<lparr>sv_name = ascii ''p'', sv_value = Num 40, sv_score = 0\<rparr>]"
    by (simp only: example_scores) simp
  from single nth e96 e75 e40 show ?thesis
    by (intro conjI)
qed

theorem percentage_score_is_first_threshold_witness:
  "find (\<lambda>item. item_name item = ascii ''p'')
     (template_items (one_item_template (percentage_item example_rules))) =
     Some (percentage_item example_rules) \<and>
   kpiType (percentage_item example_rules) = Percentage \<and>
   numeric_rules (scoringRules (percentage_item example_rules)) \<and>
   (0::rat) \<le> 75 \<and> (75::rat) \<le> 100 \<and>
   percentage_score_spec (scoringRules (percentage_item example_rules)) 75 = 7 \<and>
   validateAndCalculateScores (one_item_template (percentage_item example_rules))
       [\<lparr>rv_name = ascii ''p'', rv_value = Num 75\<rparr>] =
     Inr [\<lparr>sv_name = ascii ''p'', sv_value = Num 75,
           sv_score = percentage_score_spec (scoringRules (percentage_item example_rules)) 75\<rparr>]"
proof -
  have a: "find (\<lambda>item. item_name item = ascii ''p'')
     (template_items (one_item_template (percentage_item example_rules))) =
     Some (percentage_item example_rules)"
    by (simp add: one_item_template_def percentage_item_def)
  have b: "kpiType (percentage_item example_rules) = Percentage"
    by (simp add: percentage_item_def)
  have c: "numeric_rules (scoringRules (percentage_item example_rules))"
    by (simp add: percentage_item_def example_rules_def threshold_rule_def numeric_rules_def
        rule_number_def)
  have d: "percentage_score_spec (scoringRules (percentage_item example_rules)) 75 = 7"
    by (simp add: percentage_item_def example_rules_def threshold_rule_def
        percentage_score_spec_def the_number_def rule_number_def)
  from percentage_score_is_first_threshold [OF a b c, of 75] a b c d
  show ?thesis by simp
qed

text \<open>
  C3, as stated, fails at the input of the example: with maxMarks = 20 the value 25 is
  rejected by validateValueByType, so no score 20 is returned.
\<close>

theorem score_above_maxMarks_rejected:
  "validateAndCalculateScores (one_item_template (score_item 20))
       [\<lparr>rv_name = ascii ''s'', rv_value = Num 25\<rparr>] =
     Inl (ScoreOutOfRange (ascii ''s'') 20) \<and>
   validateAndCalculateScores (one_item_template (score_item 20))
       [\<lparr>rv_name = ascii ''s'', rv_value = Num 25\<rparr>] \<noteq>
     Inr [\<lparr>sv_name = ascii ''s'', sv_value = Num 25, sv_score = 20\<rparr>]"
  by (simp add: one_item_template_def score_item_def)

text \<open>
  C3, amended. For a score-type template item, validateAndCalculateScores returns
  min(value, maxMarks), which is the value itself, for a value in 0..maxMarks; a value
  above maxMarks or below 0 is rejected with a validation error and gets no score. The
  clamp itself is what calculateScore computes. With maxMarks = 20, the value 15
  scores 15.
\<close>

theorem score_type_within_maxMarks:
  assumes item: "find (\<lambda>item. item_name item = n) (template_items tpl) = Some ti"
    and sc: "kpiType ti = Score"
  shows "(0 \<le> v \<and> v \<le> maxMarks ti \<longrightarrow>
           validateAndCalculateScores tpl [\<lparr>rv_name = n, rv_value = Num v\<rparr>] =
             Inr [\<lparr>sv_name = n, sv_value = Num v, sv_score = min v (maxMarks ti)\<rparr>] \<and>
           min v (maxMarks ti) = v) \<and>
         (v < 0 \<or> maxMarks ti < v \<longrightarrow>
           validateAndCalculateScores tpl [\<lparr>rv_name = n, rv_value = Num v\<rparr>] =
             Inl (ScoreOutOfRange n (maxMarks ti))) \<and>
         calculateScore ti (Num v) = min v (maxMarks ti) \<and>
         validateAndCalculateScores (one_item_template (score_item 20))
             [\<lparr>rv_name = ascii ''s'', rv_value = Num 15\<rparr>] =
           Inr [\<lparr>sv_name = ascii ''s'', sv_value = Num 15, sv_score = 15\<rparr>]"
  using item sc find_item_name [OF item]
  by (auto simp: one_item_template_def score_item_def)

theorem score_type_within_maxMarks_witness:
  "find (\<lambda>item. item_name item = ascii ''s'') (template_items (one_item_template (score_item 20))) =
     Some (score_item 20) \<and>
   kpiType (score_item 20) = Score \<and>
   (0::rat) \<le> 15 \<and> (15::rat) \<le> maxMarks (score_item 20) \<and>
   validateAndCalculateScores (one_item_template (score_item 20))
       [\<lparr>rv_name = ascii ''s'', rv_value = Num 15\<rparr>] =
     Inr [\<lparr>sv_name = ascii ''s'', sv_value = Num 15, sv_score = min 15 (maxMarks (score_item 20))\<rparr>] \<and>
   ((25::rat) < 0 \<or> maxMarks (score_item 20) < 25) \<and>
   validateAndCalculateScores (one_item_template (score_item 20))
       [\<lparr>rv_name = ascii ''s'', rv_value = Num 25\<rparr>] =
     Inl (ScoreOutOfRange (ascii ''s'') (maxMarks (score_item 20)))"
proof -
  have a: "find (\<lambda>item. item_name item = ascii ''s'')
      (template_items (one_item_template (score_item 20))) = Some (score_item 20)"
    by (simp add: one_item_template_def score_item_def)
  have b: "kpiType (score_item 20) = Score"
    by (simp add: score_item_def)
  have m: "maxMarks (score_item 20) = 20"
    by (simp add: score_item_def)
  from score_type_within_maxMarks [OF a b, of 15] score_type_within_maxMarks [OF a b, of 25] a b m
  show ?thesis by simp
qed

lemma find_append_hit: "P e \<Longrightarrow> find P (xs @ [e]) \<noteq> None"
  by (induction xs) auto

lemma find_take_mono:
  "find P xs = Some y \<Longrightarrow> take (length xs) ys = xs \<Longrightarrow> \<exists>z. find P ys = Some z"
proof -
  assume a: "find P xs = Some y" and b: "take (length xs) ys = xs"
  from a have "y \<in> set xs" "P y"
    by (auto simp: find_Some_iff)
  moreover have "set xs \<subseteq> set ys"
    using b set_take_subset [of "length xs" ys] by simp
  ultimately have "find P ys \<noteq> None"
    by (auto simp: find_None_iff)
  then show ?thesis by auto
qed

lemma process_blocked:
  "blocked svc mo yr tid db r \<Longrightarrow>
   \<exists>msg. processRecord svc tpl mo yr tid creator (res, db) r = (skipRecord res (officerName r) msg, db)"
  by (auto simp: blocked_def processRecord_def tryRecord_def split: option.splits)

lemma scoreAndSave_fails:
  "scoreFails tpl mo yr tid creator m ref r \<Longrightarrow>
   \<exists>e. scoreAndSave tpl mo yr tid creator m ref msg r (res, db) = Inl e"
  by (auto simp: scoreFails_def scoreAndSave_def save_def split: sum.splits)

lemma scoreAndSave_ok:
  "\<not> scoreFails tpl mo yr tid creator m ref r \<Longrightarrow>
   \<exists>vs. validateAndCalculateScores tpl (toValues (kpiValues r)) = Inr vs \<and>
     scoreAndSave tpl mo yr tid creator m ref msg r (res, db) =
       Inr (res\<lparr>successfulEntries := successfulEntries res + 1,
               details := (details res)(officerName r \<mapsto>
                 \<lparr>d_success = True, d_message = msg, d_entryId = Some (next_id db)\<rparr>)\<rparr>,
            db\<lparr>kpi_entries := kpi_entries db @
                  [(newKpiEntry mo yr tid creator m ref vs)\<lparr>entry_id := next_id db\<rparr>],
               next_id := next_id db + 1\<rparr>)"
  by (auto simp: scoreFails_def scoreAndSave_def save_def Let_def split: sum.splits)

lemma process_rejects:
  "\<not> blocked svc mo yr tid db r \<Longrightarrow> rejects svc tpl mo yr tid creator r \<Longrightarrow>
   \<exists>e. processRecord svc tpl mo yr tid creator (res, db) r = (failRecord res (officerName r) e, db)"
proof -
  assume nb: "\<not> blocked svc mo yr tid db r" and rj: "rejects svc tpl mo yr tid creator r"
  from nb obtain m where m: "fetchMemberByName svc (officerName r) = Some m"
    by (auto simp: blocked_def split: option.splits)
  show ?thesis
  proof (cases "court_of r")
    case None
    with rj m have "scoreFails tpl mo yr tid creator m (firstRefOrDefault m) r"
      by (simp add: rejects_def)
    from scoreAndSave_fails [OF this, of CreatedSuccessfully res db] nb m None
    show ?thesis
      by (auto simp: blocked_def processRecord_def tryRecord_def split: option.splits)
  next
    case (Some court)
    with nb m obtain ref where ref: "matchingCourtRef m court = Some ref"
      by (auto simp: blocked_def split: option.splits)
    with rj m Some have "scoreFails tpl mo yr tid creator m ref r"
      by (simp add: rejects_def)
    from scoreAndSave_fails [OF this, of "CreatedForCourt court" res db] nb m Some ref
    show ?thesis
      by (auto simp: blocked_def processRecord_def tryRecord_def split: option.splits)
  qed
qed

lemma matchingCourtRef_is_court:
  "matchingCourtRef m court = Some ref \<Longrightarrow> ref_label ref = ascii ''court'' \<and> ref_value ref = court"
  by (auto simp: matchingCourtRef_def is_court_ref_def find_Some_iff split: option.splits)

lemma process_success:
  assumes nb: "\<not> blocked svc mo yr tid db r" and nr: "\<not> rejects svc tpl mo yr tid creator r"
  shows "\<exists>res' e. processRecord svc tpl mo yr tid creator (res, db) r =
            (res', db\<lparr>kpi_entries := kpi_entries db @ [e], next_id := next_id db + 1\<rparr>) \<and>
          totalRecords res' = totalRecords res \<and>
          successfulEntries res' = successfulEntries res + 1 \<and>
          failedEntries res' = failedEntries res \<and>
          skippedEntries res' = skippedEntries res \<and>
          status e = Generated \<and>
          blocked svc mo yr tid (db\<lparr>kpi_entries := kpi_entries db @ [e], next_id := next_id db + 1\<rparr>) r"
proof -
  from nb obtain m where m: "fetchMemberByName svc (officerName r) = Some m"
    by (auto simp: blocked_def split: option.splits)
  define ref where "ref = (case court_of r of None \<Rightarrow> firstRefOrDefault m
                           | Some court \<Rightarrow> (case matchingCourtRef m court of Some x \<Rightarrow> x
                               | None \<Rightarrow> firstRefOrDefault m))"
  define msg where "msg = (case court_of r of None \<Rightarrow> CreatedSuccessfully
                           | Some court \<Rightarrow> CreatedForCourt court)"
  have court_ok: "\<And>court. court_of r = Some court \<Longrightarrow> matchingCourtRef m court = Some ref"
    using nb m by (auto simp: blocked_def ref_def split: option.splits)
  have "\<not> scoreFails tpl mo yr tid creator m ref r"
    using nr m court_ok by (auto simp: rejects_def ref_def split: option.splits)
  from scoreAndSave_ok [OF this, of msg res db]
  obtain vs where
    sv: "scoreAndSave tpl mo yr tid creator m ref msg r (res, db) =
       Inr (res\<lparr>successfulEntries := successfulEntries res + 1,
               details := (details res)(officerName r \<mapsto>
                 \<lparr>d_success = True, d_message = msg, d_entryId = Some (next_id db)\<rparr>)\<rparr>,
            db\<lparr>kpi_entries := kpi_entries db @
                  [(newKpiEntry mo yr tid creator m ref vs)\<lparr>entry_id := next_id db\<rparr>],
               next_id := next_id db + 1\<rparr>)"
    by blast
  define res' where "res' = res\<lparr>successfulEntries := successfulEntries res + 1,
               details := (details res)(officerName r \<mapsto>
                 \<lparr>d_success = True, d_message = msg, d_entryId = Some (next_id db)\<rparr>)\<rparr>"
  define e where "e = (newKpiEntry mo yr tid creator m ref vs)\<lparr>entry_id := next_id db\<rparr>"
  have pr: "processRecord svc tpl mo yr tid creator (res, db) r =
       (res', db\<lparr>kpi_entries := kpi_entries db @ [e], next_id := next_id db + 1\<rparr>)"
    using nb m sv court_ok
    by (auto simp: blocked_def processRecord_def tryRecord_def ref_def msg_def res'_def e_def
        split: option.splits)
  have bl: "blocked svc mo yr tid
      (db\<lparr>kpi_entries := kpi_entries db @ [e], next_id := next_id db + 1\<rparr>) r"
  proof (cases "court_of r")
    case None
    then show ?thesis
      using m by (simp add: blocked_def existingEntry_def newKpiEntry_def e_def find_append_hit)
  next
    case (Some court)
    from matchingCourtRef_is_court [OF court_ok [OF Some]] Some m court_ok [OF Some]
    show ?thesis
      by (simp add: blocked_def existingForCourt_def newKpiEntry_def e_def find_append_hit)
  qed
  have "totalRecords res' = totalRecords res \<and>
          successfulEntries res' = successfulEntries res + 1 \<and>
          failedEntries res' = failedEntries res \<and>
          skippedEntries res' = skippedEntries res \<and> status e = Generated"
    by (simp add: res'_def e_def newKpiEntry_def)
  with pr bl show ?thesis by blast
qed

lemma blocked_mono:
  "blocked svc mo yr tid db r \<Longrightarrow> extends db db' \<Longrightarrow> blocked svc mo yr tid db' r"
  unfolding blocked_def extends_def existingForCourt_def existingEntry_def
  by (auto split: option.splits dest: find_take_mono)

lemma extends_refl: "extends db db"
  by (simp add: extends_def)

lemma extends_trans: "extends a b \<Longrightarrow> extends b c \<Longrightarrow> extends a c"
  unfolding extends_def
  by (metis length_take min.absorb2 nat_le_linear take_all take_take)

lemma extends_append:
  "extends db (db\<lparr>kpi_entries := kpi_entries db @ [e], next_id := n\<rparr>)"
  by (simp add: extends_def)

lemma process_countedOnce:
  "countedOnce res (fst (processRecord svc tpl mo yr tid creator (res, db) r))"
proof (cases "blocked svc mo yr tid db r")
  case True
  from process_blocked [OF this, of tpl creator res] show ?thesis
    by (auto simp: countedOnce_def skipRecord_def)
next
  case nb: False
  show ?thesis
  proof (cases "rejects svc tpl mo yr tid creator r")
    case True
    from process_rejects [OF nb this, of res] show ?thesis
      by (auto simp: countedOnce_def failRecord_def)
  next
    case False
    from process_success [OF nb this, of res] show ?thesis
      by (auto simp: countedOnce_def)
  qed
qed

lemma run_counts:
  "foldl (processRecord svc tpl mo yr tid creator) (res, db) rs = (res1, db1) \<Longrightarrow>
   totalRecords res1 = totalRecords res \<and>
   successfulEntries res1 + failedEntries res1 + skippedEntries res1 =
     successfulEntries res + failedEntries res + skippedEntries res + length rs"
proof (induction rs arbitrary: res db)
  case Nil
  then show ?case by simp
next
  case (Cons r rs)
  obtain res' db' where step: "processRecord svc tpl mo yr tid creator (res, db) r = (res', db')"
    by (cases "processRecord svc tpl mo yr tid creator (res, db) r")
  with Cons.prems have "foldl (processRecord svc tpl mo yr tid creator) (res', db') rs = (res1, db1)"
    by simp
  from Cons.IH [OF this] process_countedOnce [of res svc tpl mo yr tid creator db r] step
  show ?case
    by (auto simp: countedOnce_def)
qed

lemma run_first:
  "foldl (processRecord svc tpl mo yr tid creator) (res, db) rs = (res1, db1) \<Longrightarrow>
   extends db db1 \<and>
   (\<forall>r\<in>set rs. blocked svc mo yr tid db1 r \<or> rejects svc tpl mo yr tid creator r) \<and>
   successfulEntries res1 + skippedEntries res1 \<le>
     successfulEntries res + skippedEntries res + length (filter (blocked svc mo yr tid db1) rs)"
proof (induction rs arbitrary: res db)
  case Nil
  then show ?case by (simp add: extends_refl)
next
  case (Cons r rs)
  obtain res' db' where step: "processRecord svc tpl mo yr tid creator (res, db) r = (res', db')"
    by (cases "processRecord svc tpl mo yr tid creator (res, db) r")
  with Cons.prems have "foldl (processRecord svc tpl mo yr tid creator) (res', db') rs = (res1, db1)"
    by simp
  from Cons.IH [OF this]
  have ext: "extends db' db1"
    and rest: "\<forall>r\<in>set rs. blocked svc mo yr tid db1 r \<or> rejects svc tpl mo yr tid creator r"
    and cnt: "successfulEntries res1 + skippedEntries res1 \<le>
       successfulEntries res' + skippedEntries res' + length (filter (blocked svc mo yr tid db1) rs)"
    by simp_all
  show ?case
  proof (cases "blocked svc mo yr tid db r")
    case True
    from process_blocked [OF True, of tpl creator res] step
    obtain msg where "res' = skipRecord res (officerName r) msg" "db' = db"
      by auto
    moreover from this ext True have "blocked svc mo yr tid db1 r"
      by (auto intro: blocked_mono)
    ultimately show ?thesis
      using ext rest cnt by (simp add: skipRecord_def)
  next
    case nb: False
    show ?thesis
    proof (cases "rejects svc tpl mo yr tid creator r")
      case True
      from process_rejects [OF nb True, of res] step
      obtain e where "res' = failRecord res (officerName r) e" "db' = db"
        by auto
      then show ?thesis
        using ext rest cnt True by (simp add: failRecord_def)
    next
      case False
      from process_success [OF nb False, of res] step
      obtain e where db': "db' = db\<lparr>kpi_entries := kpi_entries db @ [e], next_id := next_id db + 1\<rparr>"
        and s: "successfulEntries res' = successfulEntries res + 1"
        and k: "skippedEntries res' = skippedEntries res"
        and b: "blocked svc mo yr tid db' r"
        by auto
      have "extends db db'"
        unfolding db' by (rule extends_append)
      from extends_trans [OF this ext] have e1: "extends db db1" .
      from b ext have "blocked svc mo yr tid db1 r"
        by (rule blocked_mono)
      with e1 rest cnt s k show ?thesis
        by simp
    qed
  qed
qed

lemma run_second:
  "\<forall>r\<in>set rs. blocked svc mo yr tid db1 r \<or> rejects svc tpl mo yr tid creator r \<Longrightarrow>
   \<exists>res2. foldl (processRecord svc tpl mo yr tid creator) (res, db1) rs = (res2, db1) \<and>
     successfulEntries res2 = successfulEntries res \<and>
     skippedEntries res2 = skippedEntries res + length (filter (blocked svc mo yr tid db1) rs)"
proof (induction rs arbitrary: res)
  case Nil
  then show ?case by simp
next
  case (Cons r rs)
  show ?case
  proof (cases "blocked svc mo yr tid db1 r")
    case True
    from process_blocked [OF True, of tpl creator res]
    obtain msg where
      p: "processRecord svc tpl mo yr tid creator (res, db1) r = (skipRecord res (officerName r) msg, db1)"
      by auto
    from Cons.IH [of "skipRecord res (officerName r) msg"] Cons.prems p True
    show ?thesis
      by (auto simp: skipRecord_def)
  next
    case False
    with Cons.prems have "rejects svc tpl mo yr tid creator r"
      by simp
    from process_rejects [OF False this, of res]
    obtain e where
      p: "processRecord svc tpl mo yr tid creator (res, db1) r = (failRecord res (officerName r) e, db1)"
      by auto
    from Cons.IH [of "failRecord res (officerName r) e"] Cons.prems p False
    show ?thesis
      by (auto simp: failRecord_def)
  qed
qed

lemma try_rejects:
  "\<not> blocked svc mo yr tid db r \<Longrightarrow> rejects svc tpl mo yr tid creator r \<Longrightarrow>
   \<exists>e. tryRecord svc tpl mo yr tid creator (res, db) r = Inl e"
proof -
  assume nb: "\<not> blocked svc mo yr tid db r" and rj: "rejects svc tpl mo yr tid creator r"
  from nb obtain m where m: "fetchMemberByName svc (officerName r) = Some m"
    by (auto simp: blocked_def split: option.splits)
  show ?thesis
  proof (cases "court_of r")
    case None
    with rj m have "scoreFails tpl mo yr tid creator m (firstRefOrDefault m) r"
      by (simp add: rejects_def)
    from scoreAndSave_fails [OF this, of CreatedSuccessfully res db] nb m None
    show ?thesis
      by (auto simp: blocked_def tryRecord_def split: option.splits)
  next
    case (Some court)
    with nb m obtain ref where ref: "matchingCourtRef m court = Some ref"
      by (auto simp: blocked_def split: option.splits)
    with rj m Some have "scoreFails tpl mo yr tid creator m ref r"
      by (simp add: rejects_def)
    from scoreAndSave_fails [OF this, of "CreatedForCourt court" res db] nb m Some ref
    show ?thesis
      by (auto simp: blocked_def tryRecord_def split: option.splits)
  qed
qed

lemma tryRecord_returns:
  assumes t: "tryRecord svc tpl mo yr tid creator (res, db) r = Inr st'"
  shows "extends db (snd st') \<and> blocked svc mo yr tid (snd st') r"
proof -
  from t have p: "processRecord svc tpl mo yr tid creator (res, db) r = st'"
    by (simp add: processRecord_def)
  show ?thesis
  proof (cases "blocked svc mo yr tid db r")
    case True
    from process_blocked [OF True, of tpl creator res] p have "snd st' = db"
      by auto
    with True show ?thesis
      by (simp add: extends_refl)
  next
    case nb: False
    have nr: "\<not> rejects svc tpl mo yr tid creator r"
    proof
      assume "rejects svc tpl mo yr tid creator r"
      from try_rejects [OF nb this, of res] t show False
        by auto
    qed
    from process_success [OF nb nr, of res] p
    obtain e where s: "snd st' = db\<lparr>kpi_entries := kpi_entries db @ [e], next_id := next_id db + 1\<rparr>"
      and b: "blocked svc mo yr tid (snd st') r"
      by auto
    have "extends db (snd st')"
      unfolding s by (rule extends_append)
    with b show ?thesis
      by simp
  qed
qed

lemma run_second_store:
  assumes "\<forall>r\<in>set rs. blocked svc mo yr tid db1 r \<or> rejects svc tpl mo yr tid creator r"
  shows "snd (foldl (processRecord svc tpl mo yr tid creator) (res, db1) rs) = db1"
  using run_second [OF assms, of res] by auto

lemma second_run_step:
  assumes "blocked svc mo yr tid db1 r \<or> rejects svc tpl mo yr tid creator r"
  shows "(\<exists>msg. processRecord svc tpl mo yr tid creator (res, db1) r =
            (skipRecord res (officerName r) msg, db1)) \<or>
         (\<exists>e. processRecord svc tpl mo yr tid creator (res, db1) r =
            (failRecord res (officerName r) e, db1))"
proof (cases "blocked svc mo yr tid db1 r")
  case True
  from process_blocked [OF this, of tpl creator res] show ?thesis
    by blast
next
  case False
  with assms have "rejects svc tpl mo yr tid creator r"
    by simp
  from process_rejects [OF False this, of res] show ?thesis
    by blast
qed

lemma first_run_record_blocked:
  assumes run: "foldl (processRecord svc tpl mo yr tid creator) (res, db) rs = (res1, db1)"
    and i: "i < length rs"
    and t: "tryRecord svc tpl mo yr tid creator
              (foldl (processRecord svc tpl mo yr tid creator) (res, db) (take i rs)) (rs ! i) = Inr st'"
  shows "blocked svc mo yr tid db1 (rs ! i)"
proof -
  define st where "st = foldl (processRecord svc tpl mo yr tid creator) (res, db) (take i rs)"
  from i have split: "rs = take i rs @ (rs ! i) # drop (Suc i) rs"
    by (simp add: id_take_nth_drop)
  from t have p: "processRecord svc tpl mo yr tid creator st (rs ! i) = st'"
    by (simp add: processRecord_def st_def)
  have "foldl (processRecord svc tpl mo yr tid creator) (res, db) rs =
        foldl (processRecord svc tpl mo yr tid creator) st' (drop (Suc i) rs)"
    by (subst split) (simp add: st_def [symmetric] p)
  with run have rest: "foldl (processRecord svc tpl mo yr tid creator) (fst st', snd st')
      (drop (Suc i) rs) = (res1, db1)"
    by simp
  from run_first [OF rest] have ext: "extends (snd st') db1"
    by simp
  from t have "tryRecord svc tpl mo yr tid creator (fst st, snd st) (rs ! i) = Inr st'"
    by (simp add: st_def)
  from tryRecord_returns [OF this] have "blocked svc mo yr tid (snd st') (rs ! i)"
    by simp
  from blocked_mono [OF this ext] show ?thesis .
qed

lemma example_find_template: "findTemplateById exampleDb (ascii ''t1'') = Some exampleTemplate"
  by (simp add: findTemplateById_def exampleDb_def exampleTemplate_def)

lemmas example_defs =
  createKpiEntryFromCsvData_def processRecord_def tryRecord_def scoreAndSave_def save_def
  newKpiEntry_def schema_valid_def skipRecord_def failRecord_def toValues_def orSystem_def
  court_of_def matchingCourtRef_def existingForCourt_def existingEntry_def fetchMemberByName_def
  is_court_ref_def trim_def is_js_space_def findTemplateById_def counters_def sum_scores_def
  exampleTemplate_def exampleDb_def exampleSvc_def memberA_def memberA2_def courtRef_def
  recOk_def recOtherCourt_def recUnknownItem_def recUnknownOfficer_def
  percentage_item_def example_rules_def threshold_rule_def js_sort_def cmp_rule_desc_def
  rule_number_def ascii_def Let_def resultCounters_def resultEntries_def resultMessage_def
  migrateTwice_def

lemma create_returns:
  "findTemplateById db tid = Some tpl \<Longrightarrow>
   \<exists>res db'. createKpiEntryFromCsvData svc db csvData mo yr tid creator = Inr (res, db')"
  by (simp add: createKpiEntryFromCsvData_def split_pairs)

lemma example_batch_counters:
  "resultCounters (createKpiEntryFromCsvData exampleSvc exampleDb
       [recUnknownItem, recOk, recOtherCourt, recUnknownOfficer, recOk]
       5 2024 (ascii ''t1'') (ascii ''admin'')) = [5, 1, 1, 3]"
  by (simp add: example_defs)

text \<open>
  C6. When the template exists, createKpiEntryFromCsvData returns a result for every
  list of parsed records, and in it totalRecords is the number of records and equals
  successfulEntries + failedEntries + skippedEntries. Each record moves exactly one of
  the three counters up by one, and a throw inside the work on a record is caught: the
  record is counted as failed, the store stays as it was, and the loop goes on from
  that state.
\<close>

theorem migration_counters_add_up:
  assumes tpl: "findTemplateById db tid = Some tpl"
  shows "\<exists>res db'. createKpiEntryFromCsvData svc db csvData mo yr tid creator = Inr (res, db') \<and>
           totalRecords res = length csvData \<and>
           totalRecords res = successfulEntries res + failedEntries res + skippedEntries res \<and>
           (\<forall>st r. countedOnce (fst st) (fst (processRecord svc tpl mo yr tid creator st r))) \<and>
           (\<forall>st r e. tryRecord svc tpl mo yr tid creator st r = Inl e \<longrightarrow>
              processRecord svc tpl mo yr tid creator st r =
                (failRecord (fst st) (officerName r) e, snd st))"
proof -
  define init where "init = \<lparr>totalRecords = length csvData, successfulEntries = 0, failedEntries = 0,
                    skippedEntries = 0, errors = [], details = Map.empty\<rparr>"
  obtain res db' where run: "foldl (processRecord svc tpl mo yr tid creator) (init, db) csvData = (res, db')"
    by (cases "foldl (processRecord svc tpl mo yr tid creator) (init, db) csvData")
  have eq: "createKpiEntryFromCsvData svc db csvData mo yr tid creator = Inr (res, db')"
    using tpl run by (simp add: createKpiEntryFromCsvData_def init_def)
  from run_counts [OF run]
  have cnt: "totalRecords res = length csvData"
    "totalRecords res = successfulEntries res + failedEntries res + skippedEntries res"
    by (simp_all add: init_def)
  have once: "\<forall>st r. countedOnce (fst st) (fst (processRecord svc tpl mo yr tid creator st r))"
  proof (intro allI)
    fix st :: "migration_result \<times> database" and r
    show "countedOnce (fst st) (fst (processRecord svc tpl mo yr tid creator st r))"
      using process_countedOnce [of "fst st" svc tpl mo yr tid creator "snd st" r] by simp
  qed
  have caught: "\<forall>st r e. tryRecord svc tpl mo yr tid creator st r = Inl e \<longrightarrow>
              processRecord svc tpl mo yr tid creator st r =
                (failRecord (fst st) (officerName r) e, snd st)"
    by (simp add: processRecord_def)
  from eq cnt once caught show ?thesis
    by blast
qed

theorem migration_counters_add_up_witness:
  "findTemplateById exampleDb (ascii ''t1'') = Some exampleTemplate \<and>
   resultCounters (createKpiEntryFromCsvData exampleSvc exampleDb
       [recUnknownItem, recOk, recOtherCourt, recUnknownOfficer, recOk]
       5 2024 (ascii ''t1'') (ascii ''admin'')) = [5, 1, 1, 3] \<and>
   (\<exists>res db'. createKpiEntryFromCsvData exampleSvc exampleDb
       [recUnknownItem, recOk, recOtherCourt, recUnknownOfficer, recOk]
       5 2024 (ascii ''t1'') (ascii ''admin'') = Inr (res, db') \<and>
     totalRecords res = successfulEntries res + failedEntries res + skippedEntries res) \<and>
   tryRecord exampleSvc exampleTemplate 5 2024 (ascii ''t1'') (ascii ''admin'')
       (\<lparr>totalRecords = 1, successfulEntries = 0, failedEntries = 0, skippedEntries = 0,
         errors = [], details = Map.empty\<rparr>, exampleDb) recUnknownItem =
     Inl (ItemNotInTemplate (ascii ''q'')) \<and>
   snd (processRecord exampleSvc exampleTemplate 5 2024 (ascii ''t1'') (ascii ''admin'')
       (\<lparr>totalRecords = 1, successfulEntries = 0, failedEntries = 0, skippedEntries = 0,
         errors = [], details = Map.empty\<rparr>, exampleDb) recUnknownItem) = exampleDb"
proof -
  have a: "findTemplateById exampleDb (ascii ''t1'') = Some exampleTemplate"
    by (rule example_find_template)
  have t: "tryRecord exampleSvc exampleTemplate 5 2024 (ascii ''t1'') (ascii ''admin'')
       (\<lparr>totalRecords = 1, successfulEntries = 0, failedEntries = 0, skippedEntries = 0,
         errors = [], details = Map.empty\<rparr>, exampleDb) recUnknownItem =
     Inl (ItemNotInTemplate (ascii ''q''))"
    by (simp add: example_defs)
  from migration_counters_add_up [OF a, of exampleSvc
      "[recUnknownItem, recOk, recOtherCourt, recUnknownOfficer, recOk]" 5 2024 "ascii ''admin''"]
  obtain res db' where
    r: "createKpiEntryFromCsvData exampleSvc exampleDb
       [recUnknownItem, recOk, recOtherCourt, recUnknownOfficer, recOk]
       5 2024 (ascii ''t1'') (ascii ''admin'') = Inr (res, db')"
    and c: "totalRecords res = successfulEntries res + failedEntries res + skippedEntries res"
    and f: "\<forall>st r e. tryRecord exampleSvc exampleTemplate 5 2024 (ascii ''t1'') (ascii ''admin'') st r = Inl e \<longrightarrow>
              processRecord exampleSvc exampleTemplate 5 2024 (ascii ''t1'') (ascii ''admin'') st r =
                (failRecord (fst st) (officerName r) e, snd st)"
    by blast
  from f t have "snd (processRecord exampleSvc exampleTemplate 5 2024 (ascii ''t1'') (ascii ''admin'')
       (\<lparr>totalRecords = 1, successfulEntries = 0, failedEntries = 0, skippedEntries = 0,
         errors = [], details = Map.empty\<rparr>, exampleDb) recUnknownItem) = exampleDb"
    by simp
  with a t r c example_batch_counters show ?thesis
    by blast
qed

text \<open>
  C5, as stated, fails: a record whose value names an item that the template does not
  have is counted as failed and nothing is inserted for it, so the second run counts it
  as failed again, not as skipped. Second run: 1 record, 0 successful, 1 failed,
  0 skipped.
\<close>

theorem second_run_failed_record_not_skipped:
  "resultCounters (migrateTwice exampleSvc exampleDb [recUnknownItem] 5 2024 (ascii ''t1'')
      (ascii ''admin'')) = [1, 0, 1, 0] \<and>
   resultCounters (createKpiEntryFromCsvData exampleSvc exampleDb [recUnknownItem] 5 2024
      (ascii ''t1'') (ascii ''admin'')) = [1, 0, 1, 0]"
  by (simp add: example_defs)

text \<open>
  C5, amended. With the identity service answering the same in both runs, a second run
  of the same batch against the store that a completed first run left inserts nothing
  (the store is the same afterwards) and counts no record as successful: every record
  of the second run is skipped or failed. Every record on which the first run did not
  throw, that is, every record it inserted or skipped, is skipped by the second run, so
  skippedEntries of the second run is at least successfulEntries + skippedEntries of
  the first run, and equals totalRecords when the first run had no failed record. A
  record that is blocked, in particular one whose (member id, month, year, templateId
  and, with a court name, kpiRef.value) already has an entry, is skipped and the store
  is left as it is.
\<close>

theorem second_run_inserts_nothing:
  assumes run1: "createKpiEntryFromCsvData svc db csvData mo yr tid creator = Inr (res1, db1)"
  shows "\<exists>res2 tpl. createKpiEntryFromCsvData svc db1 csvData mo yr tid creator = Inr (res2, db1) \<and>
           findTemplateById db tid = Some tpl \<and>
           (res1, db1) = loopState svc tpl mo yr tid creator db csvData (length csvData) \<and>
           (res2, db1) = loopState svc tpl mo yr tid creator db1 csvData (length csvData) \<and>
           successfulEntries res2 = 0 \<and>
           successfulEntries res1 + skippedEntries res1 \<le> skippedEntries res2 \<and>
           skippedEntries res2 + failedEntries res2 = totalRecords res2 \<and>
           (failedEntries res1 = 0 \<longrightarrow> skippedEntries res2 = totalRecords res2) \<and>
           (\<forall>i<length csvData.
              snd (loopState svc tpl mo yr tid creator db1 csvData i) = db1 \<and>
              ((\<exists>msg. processRecord svc tpl mo yr tid creator
                         (loopState svc tpl mo yr tid creator db1 csvData i) (csvData ! i) =
                       (skipRecord (fst (loopState svc tpl mo yr tid creator db1 csvData i))
                          (officerName (csvData ! i)) msg, db1)) \<or>
               (\<exists>e. processRecord svc tpl mo yr tid creator
                         (loopState svc tpl mo yr tid creator db1 csvData i) (csvData ! i) =
                       (failRecord (fst (loopState svc tpl mo yr tid creator db1 csvData i))
                          (officerName (csvData ! i)) e, db1))) \<and>
              ((\<exists>st'. tryRecord svc tpl mo yr tid creator
                         (loopState svc tpl mo yr tid creator db csvData i) (csvData ! i) = Inr st') \<longrightarrow>
               (\<exists>msg. processRecord svc tpl mo yr tid creator
                         (loopState svc tpl mo yr tid creator db1 csvData i) (csvData ! i) =
                       (skipRecord (fst (loopState svc tpl mo yr tid creator db1 csvData i))
                          (officerName (csvData ! i)) msg, db1)))) \<and>
           (\<forall>tpl res d r. blocked svc mo yr tid d r \<longrightarrow>
              (\<exists>msg. processRecord svc tpl mo yr tid creator (res, d) r =
                 (skipRecord res (officerName r) msg, d)))"
proof -
  define init where "init = \<lparr>totalRecords = length csvData, successfulEntries = 0, failedEntries = 0,
                    skippedEntries = 0, errors = [], details = Map.empty\<rparr>"
  from run1 obtain tpl where tpl: "findTemplateById db tid = Some tpl"
    by (auto simp: createKpiEntryFromCsvData_def split: option.splits)
  with run1 have f1: "foldl (processRecord svc tpl mo yr tid creator) (init, db) csvData = (res1, db1)"
    by (simp add: createKpiEntryFromCsvData_def init_def)
  from run_first [OF f1]
  have ext: "extends db db1"
    and all: "\<forall>r\<in>set csvData. blocked svc mo yr tid db1 r \<or> rejects svc tpl mo yr tid creator r"
    and le: "successfulEntries res1 + skippedEntries res1 \<le>
       length (filter (blocked svc mo yr tid db1) csvData)"
    by (simp_all add: init_def)
  from run_counts [OF f1]
  have c1: "successfulEntries res1 + failedEntries res1 + skippedEntries res1 = length csvData"
    by (simp add: init_def)
  from ext tpl have tpl1: "findTemplateById db1 tid = Some tpl"
    by (simp add: extends_def findTemplateById_def)
  from run_second [OF all, of init]
  obtain res2 where f2: "foldl (processRecord svc tpl mo yr tid creator) (init, db1) csvData = (res2, db1)"
    and s2: "successfulEntries res2 = 0"
    and k2: "skippedEntries res2 = length (filter (blocked svc mo yr tid db1) csvData)"
    by (auto simp: init_def)
  from run_counts [OF f2]
  have c2: "totalRecords res2 = length csvData"
    "successfulEntries res2 + failedEntries res2 + skippedEntries res2 = length csvData"
    by (simp_all add: init_def)
  have eq: "createKpiEntryFromCsvData svc db1 csvData mo yr tid creator = Inr (res2, db1)"
    using tpl1 f2 by (simp add: createKpiEntryFromCsvData_def init_def)
  have l1: "(res1, db1) = loopState svc tpl mo yr tid creator db csvData (length csvData)"
    using f1 by (simp add: loopState_def init_def)
  have l2: "(res2, db1) = loopState svc tpl mo yr tid creator db1 csvData (length csvData)"
    using f2 by (simp add: loopState_def init_def)
  have bl: "\<forall>tpl res d r. blocked svc mo yr tid d r \<longrightarrow>
              (\<exists>msg. processRecord svc tpl mo yr tid creator (res, d) r =
                 (skipRecord res (officerName r) msg, d))"
    using process_blocked by blast
  have each: "\<forall>i<length csvData.
              snd (loopState svc tpl mo yr tid creator db1 csvData i) = db1 \<and>
              ((\<exists>msg. processRecord svc tpl mo yr tid creator
                         (loopState svc tpl mo yr tid creator db1 csvData i) (csvData ! i) =
                       (skipRecord (fst (loopState svc tpl mo yr tid creator db1 csvData i))
                          (officerName (csvData ! i)) msg, db1)) \<or>
               (\<exists>e. processRecord svc tpl mo yr tid creator
                         (loopState svc tpl mo yr tid creator db1 csvData i) (csvData ! i) =
                       (failRecord (fst (loopState svc tpl mo yr tid creator db1 csvData i))
                          (officerName (csvData ! i)) e, db1))) \<and>
              ((\<exists>st'. tryRecord svc tpl mo yr tid creator
                         (loopState svc tpl mo yr tid creator db csvData i) (csvData ! i) = Inr st') \<longrightarrow>
               (\<exists>msg. processRecord svc tpl mo yr tid creator
                         (loopState svc tpl mo yr tid creator db1 csvData i) (csvData ! i) =
                       (skipRecord (fst (loopState svc tpl mo yr tid creator db1 csvData i))
                          (officerName (csvData ! i)) msg, db1)))"
  proof (intro allI impI)
    fix i
    assume i: "i < length csvData"
    define st2 where "st2 = loopState svc tpl mo yr tid creator db1 csvData i"
    define r where "r = csvData ! i"
    from i have mem: "r \<in> set csvData"
      by (simp add: r_def)
    have "\<forall>r\<in>set (take i csvData).
        blocked svc mo yr tid db1 r \<or> rejects svc tpl mo yr tid creator r"
      using all by (meson in_set_takeD)
    from run_second_store [OF this, of init] have store: "snd st2 = db1"
      by (simp add: st2_def loopState_def init_def)
    then have st2: "st2 = (fst st2, db1)"
      by (cases st2) simp
    from mem all have br: "blocked svc mo yr tid db1 r \<or> rejects svc tpl mo yr tid creator r"
      by blast
    from second_run_step [OF br, of "fst st2"] st2
    have step: "(\<exists>msg. processRecord svc tpl mo yr tid creator st2 r =
                    (skipRecord (fst st2) (officerName r) msg, db1)) \<or>
                (\<exists>e. processRecord svc tpl mo yr tid creator st2 r =
                    (failRecord (fst st2) (officerName r) e, db1))"
      by simp
    have again: "(\<exists>st'. tryRecord svc tpl mo yr tid creator
                     (loopState svc tpl mo yr tid creator db csvData i) r = Inr st') \<longrightarrow>
                 (\<exists>msg. processRecord svc tpl mo yr tid creator st2 r =
                    (skipRecord (fst st2) (officerName r) msg, db1))"
    proof
      assume "\<exists>st'. tryRecord svc tpl mo yr tid creator
                     (loopState svc tpl mo yr tid creator db csvData i) r = Inr st'"
      then obtain st' where "tryRecord svc tpl mo yr tid creator
          (foldl (processRecord svc tpl mo yr tid creator) (init, db) (take i csvData))
          (csvData ! i) = Inr st'"
        by (auto simp: loopState_def init_def r_def)
      from first_run_record_blocked [OF f1 i this]
      have "blocked svc mo yr tid db1 r"
        by (simp add: r_def)
      from process_blocked [OF this, of tpl creator "fst st2"] st2
      show "\<exists>msg. processRecord svc tpl mo yr tid creator st2 r =
                    (skipRecord (fst st2) (officerName r) msg, db1)"
        by simp
    qed
    from store step again
    show "snd (loopState svc tpl mo yr tid creator db1 csvData i) = db1 \<and>
              ((\<exists>msg. processRecord svc tpl mo yr tid creator
                         (loopState svc tpl mo yr tid creator db1 csvData i) (csvData ! i) =
                       (skipRecord (fst (loopState svc tpl mo yr tid creator db1 csvData i))
                          (officerName (csvData ! i)) msg, db1)) \<or>
               (\<exists>e. processRecord svc tpl mo yr tid creator
                         (loopState svc tpl mo yr tid creator db1 csvData i) (csvData ! i) =
                       (failRecord (fst (loopState svc tpl mo yr tid creator db1 csvData i))
                          (officerName (csvData ! i)) e, db1))) \<and>
              ((\<exists>st'. tryRecord svc tpl mo yr tid creator
                         (loopState svc tpl mo yr tid creator db csvData i) (csvData ! i) = Inr st') \<longrightarrow>
               (\<exists>msg. processRecord svc tpl mo yr tid creator
                         (loopState svc tpl mo yr tid creator db1 csvData i) (csvData ! i) =
                       (skipRecord (fst (loopState svc tpl mo yr tid creator db1 csvData i))
                          (officerName (csvData ! i)) msg, db1)))"
      unfolding st2_def r_def by blast
  qed
  have "skippedEntries res2 \<le> length csvData"
    unfolding k2 by (rule length_filter_le)
  with s2 k2 le c1 c2 have ca: "successfulEntries res2 = 0"
    and cb: "successfulEntries res1 + skippedEntries res1 \<le> skippedEntries res2"
    and cc: "skippedEntries res2 + failedEntries res2 = totalRecords res2"
    and cd: "failedEntries res1 = 0 \<longrightarrow> skippedEntries res2 = totalRecords res2"
    by auto
  from eq tpl l1 l2 ca cb cc cd each bl show ?thesis
    by (intro exI [of _ res2] exI [of _ tpl] conjI)
qed

theorem second_run_inserts_nothing_witness:
  "resultCounters (createKpiEntryFromCsvData exampleSvc exampleDb
       [recOk, recOtherCourt, recUnknownOfficer, recOk] 5 2024 (ascii ''t1'') (ascii ''admin'')) =
     [4, 1, 0, 3] \<and>
   resultCounters (migrateTwice exampleSvc exampleDb
       [recOk, recOtherCourt, recUnknownOfficer, recOk] 5 2024 (ascii ''t1'') (ascii ''admin'')) =
     [4, 0, 0, 4] \<and>
   resultEntries (migrateTwice exampleSvc exampleDb
       [recOk, recOtherCourt, recUnknownOfficer, recOk] 5 2024 (ascii ''t1'') (ascii ''admin'')) =
     resultEntries (createKpiEntryFromCsvData exampleSvc exampleDb
       [recOk, recOtherCourt, recUnknownOfficer, recOk] 5 2024 (ascii ''t1'') (ascii ''admin'')) \<and>
   blocked exampleSvc 5 2024 (ascii ''t1'') exampleDb recOtherCourt \<and>
   (\<exists>res1 db1 msg.
      createKpiEntryFromCsvData exampleSvc exampleDb
        [recOk, recOtherCourt, recUnknownOfficer, recOk] 5 2024 (ascii ''t1'') (ascii ''admin'') =
        Inr (res1, db1) \<and>
      processRecord exampleSvc exampleTemplate 5 2024 (ascii ''t1'') (ascii ''admin'')
        (loopState exampleSvc exampleTemplate 5 2024 (ascii ''t1'') (ascii ''admin'') db1
           [recOk, recOtherCourt, recUnknownOfficer, recOk] 0) recOk =
        (skipRecord
           (fst (loopState exampleSvc exampleTemplate 5 2024 (ascii ''t1'') (ascii ''admin'') db1
              [recOk, recOtherCourt, recUnknownOfficer, recOk] 0))
           (ascii ''A'') msg, db1)) \<and>
   resultCounters (createKpiEntryFromCsvData exampleSvc exampleDb
       [recUnknownItem, recOk] 5 2024 (ascii ''t1'') (ascii ''admin'')) = [2, 1, 1, 0] \<and>
   resultCounters (migrateTwice exampleSvc exampleDb
       [recUnknownItem, recOk] 5 2024 (ascii ''t1'') (ascii ''admin'')) = [2, 0, 0, 2]"
proof -
  define batch where "batch = [recOk, recOtherCourt, recUnknownOfficer, recOk]"
  obtain res1 db1 where r1: "createKpiEntryFromCsvData exampleSvc exampleDb
       batch 5 2024 (ascii ''t1'') (ascii ''admin'') = Inr (res1, db1)"
    using create_returns [OF example_find_template] by blast
  note t = second_run_inserts_nothing [OF r1]
  from t obtain res2 tpl where r2: "createKpiEntryFromCsvData exampleSvc db1
       batch 5 2024 (ascii ''t1'') (ascii ''admin'') = Inr (res2, db1)"
    and tpl: "findTemplateById exampleDb (ascii ''t1'') = Some tpl"
    and each: "\<forall>i<length batch.
       (\<exists>st'. tryRecord exampleSvc tpl 5 2024 (ascii ''t1'') (ascii ''admin'')
           (loopState exampleSvc tpl 5 2024 (ascii ''t1'') (ascii ''admin'') exampleDb batch i)
           (batch ! i) = Inr st') \<longrightarrow>
       (\<exists>msg. processRecord exampleSvc tpl 5 2024 (ascii ''t1'') (ascii ''admin'')
           (loopState exampleSvc tpl 5 2024 (ascii ''t1'') (ascii ''admin'') db1 batch i)
           (batch ! i) =
         (skipRecord
            (fst (loopState exampleSvc tpl 5 2024 (ascii ''t1'') (ascii ''admin'') db1 batch i))
            (officerName (batch ! i)) msg, db1))"
    by blast
  from tpl have tpl_eq: "tpl = exampleTemplate"
    by (simp add: example_find_template)
  have first: "\<exists>st'. tryRecord exampleSvc exampleTemplate 5 2024 (ascii ''t1'') (ascii ''admin'')
           (loopState exampleSvc exampleTemplate 5 2024 (ascii ''t1'') (ascii ''admin'')
              exampleDb batch 0)
           (batch ! 0) = Inr st'"
    by (simp add: batch_def loopState_def example_defs)
  have len: "0 < length batch" and hd: "batch ! 0 = recOk" and name: "officerName recOk = ascii ''A''"
    by (simp_all add: batch_def recOk_def)
  from each [rule_format, OF len] first tpl_eq hd name
  obtain msg where again: "processRecord exampleSvc exampleTemplate 5 2024 (ascii ''t1'') (ascii ''admin'')
        (loopState exampleSvc exampleTemplate 5 2024 (ascii ''t1'') (ascii ''admin'') db1 batch 0) recOk =
        (skipRecord
           (fst (loopState exampleSvc exampleTemplate 5 2024 (ascii ''t1'') (ascii ''admin'') db1 batch 0))
           (ascii ''A'') msg, db1)"
    by auto
  have e1: "resultCounters (createKpiEntryFromCsvData exampleSvc exampleDb
       batch 5 2024 (ascii ''t1'') (ascii ''admin'')) = [4, 1, 0, 3]"
    by (simp add: batch_def example_defs)
  have e2: "resultCounters (migrateTwice exampleSvc exampleDb
       batch 5 2024 (ascii ''t1'') (ascii ''admin'')) = [4, 0, 0, 4]"
    by (simp add: batch_def example_defs)
  have e3: "resultEntries (migrateTwice exampleSvc exampleDb
       batch 5 2024 (ascii ''t1'') (ascii ''admin'')) =
     resultEntries (createKpiEntryFromCsvData exampleSvc exampleDb
       batch 5 2024 (ascii ''t1'') (ascii ''admin''))"
    using r1 r2 by (simp add: migrateTwice_def resultEntries_def)
  have e4: "blocked exampleSvc 5 2024 (ascii ''t1'') exampleDb recOtherCourt"
    by (simp add: blocked_def example_defs)
  have e5: "resultCounters (createKpiEntryFromCsvData exampleSvc exampleDb
       [recUnknownItem, recOk] 5 2024 (ascii ''t1'') (ascii ''admin'')) = [2, 1, 1, 0]"
    by (simp add: example_defs)
  have e6: "resultCounters (migrateTwice exampleSvc exampleDb
       [recUnknownItem, recOk] 5 2024 (ascii ''t1'') (ascii ''admin'')) = [2, 0, 0, 2]"
    by (simp add: example_defs)
  from r1 again have e7: "\<exists>res1 db1 msg.
      createKpiEntryFromCsvData exampleSvc exampleDb batch 5 2024 (ascii ''t1'') (ascii ''admin'') =
        Inr (res1, db1) \<and>
      processRecord exampleSvc exampleTemplate 5 2024 (ascii ''t1'') (ascii ''admin'')
        (loopState exampleSvc exampleTemplate 5 2024 (ascii ''t1'') (ascii ''admin'') db1 batch 0) recOk =
        (skipRecord
           (fst (loopState exampleSvc exampleTemplate 5 2024 (ascii ''t1'') (ascii ''admin'') db1 batch 0))
           (ascii ''A'') msg, db1)"
    by blast
  from e1 e2 e3 e4 e7 e5 e6 show ?thesis
    unfolding batch_def by (intro conjI)
qed




lemma find_updateFirst:
  "(\<And>x. P x \<Longrightarrow> P (f x)) \<Longrightarrow> find P (updateFirst P f xs) = map_option f (find P xs)"
  by (induction xs) auto

lemma filter_updateFirst:
  "(\<And>x. P x \<Longrightarrow> P (f x)) \<Longrightarrow>
   filter (\<lambda>x. \<not> P x) (updateFirst P f xs) = filter (\<lambda>x. \<not> P x) xs"
  by (induction xs) auto

lemma findByIdAndUpdate_result:
  assumes keep: "\<And>e. entry_id (f e) = entry_id e"
    and upd: "findByIdAndUpdate db i f = (db', Some e')"
  shows "\<exists>e. findEntryById db i = Some e \<and> e' = f e \<and> findEntryById db' i = Some e' \<and>
           filter (\<lambda>x. entry_id x \<noteq> i) (kpi_entries db') =
           filter (\<lambda>x. entry_id x \<noteq> i) (kpi_entries db) \<and>
           kpi_templates db' = kpi_templates db"
proof -
  from upd obtain e where e: "findEntryById db i = Some e" and e': "e' = f e"
    and db': "db' = db\<lparr>kpi_entries := updateFirst (\<lambda>e. entry_id e = i) f (kpi_entries db)\<rparr>"
    by (auto simp: findByIdAndUpdate_def split: option.splits)
  have "findEntryById db' i = Some e'"
    using e e' find_updateFirst [of "\<lambda>e. entry_id e = i" f "kpi_entries db"] keep
    by (simp add: db' findEntryById_def)
  moreover have "filter (\<lambda>x. entry_id x \<noteq> i) (kpi_entries db') =
           filter (\<lambda>x. entry_id x \<noteq> i) (kpi_entries db)"
    using filter_updateFirst [of "\<lambda>e. entry_id e = i" f "kpi_entries db"] keep
    by (simp add: db')
  ultimately show ?thesis
    using e e' by (simp add: db')
qed

lemma updateKpiEntry_result:
  "(\<forall>db' e'. updateKpiEntry db i upd = Inr (db', Some e') \<longrightarrow>
      status e' = Initiated \<and> findEntryById db' i = Some e' \<and>
      filter (\<lambda>x. entry_id x \<noteq> i) (kpi_entries db') =
      filter (\<lambda>x. entry_id x \<noteq> i) (kpi_entries db)) \<and>
   (\<forall>e. findEntryById db i = Some e \<and> u_values upd = None \<longrightarrow>
      (\<exists>db'. updateKpiEntry db i upd =
          Inr (db', Some (setFields upd None (u_totalScore upd) e)))) \<and>
   (\<forall>db' e'. updateKpiEntryStatus db i s = (db', Some e') \<longrightarrow>
      status e' = s \<and> findEntryById db' i = Some e')"
proof (intro conjI allI impI)
  fix db' e'
  assume "updateKpiEntry db i upd = Inr (db', Some e')"
  then obtain vals tot where
    u: "findByIdAndUpdate db i (setFields upd vals tot) = (db', Some e')"
    by (auto simp: updateKpiEntry_def split: sum.splits)
  have keep: "\<And>e. entry_id (setFields upd vals tot e) = entry_id e"
    by (simp add: setFields_def)
  from findByIdAndUpdate_result [of "setFields upd vals tot", OF keep u]
  obtain e where "e' = setFields upd vals tot e" "findEntryById db' i = Some e'"
    "filter (\<lambda>x. entry_id x \<noteq> i) (kpi_entries db') =
       filter (\<lambda>x. entry_id x \<noteq> i) (kpi_entries db)"
    by blast
  then show "status e' = Initiated" "findEntryById db' i = Some e'"
    "filter (\<lambda>x. entry_id x \<noteq> i) (kpi_entries db') =
       filter (\<lambda>x. entry_id x \<noteq> i) (kpi_entries db)"
    by (simp_all add: setFields_def)
next
  fix e
  assume "findEntryById db i = Some e \<and> u_values upd = None"
  then show "\<exists>db'. updateKpiEntry db i upd =
          Inr (db', Some (setFields upd None (u_totalScore upd) e))"
    by (simp add: updateKpiEntry_def rescoredValues_def findByIdAndUpdate_def)
next
  fix db' e'
  assume "updateKpiEntryStatus db i s = (db', Some e')"
  then have u: "findByIdAndUpdate db i (\<lambda>e. e\<lparr>status := s\<rparr>) = (db', Some e')"
    by (simp add: updateKpiEntryStatus_def)
  have keep: "\<And>e. entry_id (e\<lparr>status := s\<rparr>) = entry_id e"
    by simp
  from findByIdAndUpdate_result [of "\<lambda>e. e\<lparr>status := s\<rparr>", OF keep u]
  show "status e' = s" "findEntryById db' i = Some e'"
    by auto
qed

lemma updateFirst_distinct:
  assumes keep: "\<And>x. entry_id (f x) = entry_id x"
  shows "distinct (map entry_id xs) \<Longrightarrow>
    updateFirst (\<lambda>e. entry_id e = i) f xs = map (\<lambda>e. if entry_id e = i then f e else e) xs"
proof (induction xs)
  case Nil
  then show ?case by simp
next
  case (Cons x xs)
  show ?case
  proof (cases "entry_id x = i")
    case True
    with Cons.prems have "\<forall>e\<in>set xs. entry_id e \<noteq> i"
      by (metis distinct.simps(2) image_eqI list.simps(9) set_map)
    then have "map (\<lambda>e. if entry_id e = i then f e else e) xs = xs"
      by (simp add: map_idI)
    with True show ?thesis
      by simp
  next
    case False
    with Cons show ?thesis
      by simp
  qed
qed

lemma removeFirst_distinct:
  "distinct (map entry_id xs) \<Longrightarrow>
   removeFirst (\<lambda>e. entry_id e = i) xs = filter (\<lambda>e. entry_id e \<noteq> i) xs"
proof (induction xs)
  case Nil
  then show ?case by simp
next
  case (Cons x xs)
  show ?case
  proof (cases "entry_id x = i")
    case True
    with Cons.prems have "\<forall>e\<in>set xs. entry_id e \<noteq> i"
      by (metis distinct.simps(2) image_eqI list.simps(9) set_map)
    then have "filter (\<lambda>e. entry_id e \<noteq> i) xs = xs"
      by simp
    with True show ?thesis
      by simp
  next
    case False
    with Cons show ?thesis
      by simp
  qed
qed

lemma same_id_same_entry:
  "distinct (map entry_id xs) \<Longrightarrow> e \<in> set xs \<Longrightarrow> e' \<in> set xs \<Longrightarrow>
   entry_id e' = entry_id e \<Longrightarrow> e' = e"
  by (auto simp: distinct_map dest: inj_onD)

lemma frame_map:
  assumes ids: "storeIds db"
    and shape: "kpi_entries db' = map g (kpi_entries db)"
    and nxt: "next_id db' = next_id db"
    and keep: "\<And>x. entry_id (g x) = entry_id x"
    and st: "\<And>e. e \<in> set (kpi_entries db) \<Longrightarrow> status (g e) = st e"
  shows "storeIds db' \<and>
    (\<forall>e\<in>set (kpi_entries db). \<forall>e'\<in>set (kpi_entries db').
        entry_id e' = entry_id e \<longrightarrow> status e' = st e) \<and>
    (\<forall>e'\<in>set (kpi_entries db').
        entry_id e' \<notin> entry_id ` set (kpi_entries db) \<longrightarrow> new = Some (status e')) \<and>
    (\<forall>e\<in>set (kpi_entries db). entry_id e \<in> entry_id ` set (kpi_entries db') \<or> P e)"
proof -
  have idmap: "map entry_id (kpi_entries db') = map entry_id (kpi_entries db)"
    by (simp add: shape keep comp_def)
  from ids have a: "storeIds db'"
    unfolding storeIds_def idmap nxt by (simp add: shape list_all_iff keep)
  from ids have d: "distinct (map entry_id (kpi_entries db))"
    by (simp add: storeIds_def)
  have b: "\<forall>e\<in>set (kpi_entries db). \<forall>e'\<in>set (kpi_entries db').
        entry_id e' = entry_id e \<longrightarrow> status e' = st e"
  proof (intro ballI impI)
    fix e e'
    assume e: "e \<in> set (kpi_entries db)" and e': "e' \<in> set (kpi_entries db')"
      and same: "entry_id e' = entry_id e"
    from e' obtain e2 where e2: "e2 \<in> set (kpi_entries db)" and eq: "e' = g e2"
      by (auto simp: shape)
    from same eq keep have "entry_id e2 = entry_id e"
      by simp
    from same_id_same_entry [OF d e e2 this] eq st [OF e] show "status e' = st e"
      by simp
  qed
  have "set (map entry_id (kpi_entries db')) = set (map entry_id (kpi_entries db))"
    by (simp only: idmap)
  then have same_ids: "entry_id ` set (kpi_entries db') = entry_id ` set (kpi_entries db)"
    by simp
  have c: "\<forall>e'\<in>set (kpi_entries db').
        entry_id e' \<notin> entry_id ` set (kpi_entries db) \<longrightarrow> new = Some (status e')"
    unfolding same_ids [symmetric] by blast
  have e: "\<forall>e\<in>set (kpi_entries db). entry_id e \<in> entry_id ` set (kpi_entries db') \<or> P e"
    unfolding same_ids by blast
  from a b c e show ?thesis
    by (intro conjI)
qed

lemma frame_same:
  assumes ids: "storeIds db"
    and st: "\<And>e. st e = status e"
  shows "storeIds db \<and>
    (\<forall>e\<in>set (kpi_entries db). \<forall>e'\<in>set (kpi_entries db).
        entry_id e' = entry_id e \<longrightarrow> status e' = st e) \<and>
    (\<forall>e'\<in>set (kpi_entries db).
        entry_id e' \<notin> entry_id ` set (kpi_entries db) \<longrightarrow> new = Some (status e')) \<and>
    (\<forall>e\<in>set (kpi_entries db). entry_id e \<in> entry_id ` set (kpi_entries db) \<or> P e)"
proof (rule frame_map [OF ids, of db "\<lambda>e. e"])
  show "kpi_entries db = map (\<lambda>e. e) (kpi_entries db)"
    by simp
  show "next_id db = next_id db" ..
  show "\<And>x. entry_id x = entry_id x" ..
  show "\<And>e. e \<in> set (kpi_entries db) \<Longrightarrow> status e = st e"
    by (simp only: st)
qed

lemma frame_append:
  assumes ids: "storeIds db"
    and shape: "kpi_entries db' = kpi_entries db @ added"
    and nxt: "next_id db' = next_id db + length added"
    and fresh: "map entry_id added = [next_id db ..< next_id db + length added]"
    and stn: "\<forall>e\<in>set added. new = Some (status e)"
    and st: "\<And>e. st e = status e"
  shows "storeIds db' \<and>
    (\<forall>e\<in>set (kpi_entries db). \<forall>e'\<in>set (kpi_entries db').
        entry_id e' = entry_id e \<longrightarrow> status e' = st e) \<and>
    (\<forall>e'\<in>set (kpi_entries db').
        entry_id e' \<notin> entry_id ` set (kpi_entries db) \<longrightarrow> new = Some (status e')) \<and>
    (\<forall>e\<in>set (kpi_entries db). entry_id e \<in> entry_id ` set (kpi_entries db') \<or> P e)"
proof -
  from ids have d: "distinct (map entry_id (kpi_entries db))"
    and below: "\<forall>e\<in>set (kpi_entries db). entry_id e < next_id db"
    by (simp_all add: storeIds_def list_all_iff)
  have range: "\<forall>e\<in>set added. next_id db \<le> entry_id e \<and> entry_id e < next_id db + length added"
  proof
    fix e
    assume "e \<in> set added"
    then have "entry_id e \<in> set (map entry_id added)"
      by simp
    then show "next_id db \<le> entry_id e \<and> entry_id e < next_id db + length added"
      unfolding fresh by simp
  qed
  have dn: "distinct (map entry_id added)"
    unfolding fresh by simp
  have disj: "set (map entry_id (kpi_entries db)) \<inter> set (map entry_id added) = {}"
    using below range by fastforce
  have a: "storeIds db'"
    unfolding storeIds_def shape nxt using d dn disj below range
    by (auto simp: list_all_iff)
  have b: "\<forall>e\<in>set (kpi_entries db). \<forall>e'\<in>set (kpi_entries db').
        entry_id e' = entry_id e \<longrightarrow> status e' = st e"
  proof (intro ballI impI)
    fix e e'
    assume e: "e \<in> set (kpi_entries db)" and e': "e' \<in> set (kpi_entries db')"
      and same: "entry_id e' = entry_id e"
    from e below have "entry_id e < next_id db"
      by blast
    with same range have "e' \<notin> set added"
      by auto
    with e' have "e' \<in> set (kpi_entries db)"
      by (simp add: shape)
    from same_id_same_entry [OF d e this same] show "status e' = st e"
      by (simp add: st)
  qed
  have c: "\<forall>e'\<in>set (kpi_entries db').
        entry_id e' \<notin> entry_id ` set (kpi_entries db) \<longrightarrow> new = Some (status e')"
    using stn by (auto simp: shape)
  have e: "\<forall>e\<in>set (kpi_entries db). entry_id e \<in> entry_id ` set (kpi_entries db') \<or> P e"
    by (simp add: shape)
  from a b c e show ?thesis
    by (intro conjI)
qed

lemma frame_delete:
  assumes ids: "storeIds db"
    and shape: "kpi_entries db' = filter (\<lambda>e. entry_id e \<noteq> i) (kpi_entries db)"
    and nxt: "next_id db' = next_id db"
    and st: "\<And>e. st e = status e"
    and del: "\<And>e. entry_id e = i \<Longrightarrow> P e"
  shows "storeIds db' \<and>
    (\<forall>e\<in>set (kpi_entries db). \<forall>e'\<in>set (kpi_entries db').
        entry_id e' = entry_id e \<longrightarrow> status e' = st e) \<and>
    (\<forall>e'\<in>set (kpi_entries db').
        entry_id e' \<notin> entry_id ` set (kpi_entries db) \<longrightarrow> new = Some (status e')) \<and>
    (\<forall>e\<in>set (kpi_entries db). entry_id e \<in> entry_id ` set (kpi_entries db') \<or> P e)"
proof -
  from ids have d: "distinct (map entry_id (kpi_entries db))"
    and below: "\<forall>e\<in>set (kpi_entries db). entry_id e < next_id db"
    by (simp_all add: storeIds_def list_all_iff)
  have a: "storeIds db'"
    unfolding storeIds_def shape nxt using d below
    by (simp add: distinct_map_filter list_all_iff)
  have b: "\<forall>e\<in>set (kpi_entries db). \<forall>e'\<in>set (kpi_entries db').
        entry_id e' = entry_id e \<longrightarrow> status e' = st e"
  proof (intro ballI impI)
    fix e e'
    assume e: "e \<in> set (kpi_entries db)" and e': "e' \<in> set (kpi_entries db')"
      and same: "entry_id e' = entry_id e"
    from e' have "e' \<in> set (kpi_entries db)"
      by (simp add: shape)
    from same_id_same_entry [OF d e this same] show "status e' = st e"
      by (simp add: st)
  qed
  have c: "\<forall>e'\<in>set (kpi_entries db').
        entry_id e' \<notin> entry_id ` set (kpi_entries db) \<longrightarrow> new = Some (status e')"
    by (auto simp: shape)
  have e: "\<forall>e\<in>set (kpi_entries db). entry_id e \<in> entry_id ` set (kpi_entries db') \<or> P e"
  proof
    fix e
    assume e: "e \<in> set (kpi_entries db)"
    show "entry_id e \<in> entry_id ` set (kpi_entries db') \<or> P e"
    proof (cases "entry_id e = i")
      case True
      then show ?thesis
        by (simp add: del)
    next
      case False
      with e have "e \<in> set (kpi_entries db')"
        by (simp add: shape)
      then show ?thesis
        by blast
    qed
  qed
  from a b c e show ?thesis
    by (intro conjI)
qed

lemma updateFirst_none: "find P xs = None \<Longrightarrow> updateFirst P f xs = xs"
  by (induction xs) (auto split: if_splits)

lemma findByIdAndUpdate_store:
  "kpi_entries (fst (findByIdAndUpdate db i f)) =
     updateFirst (\<lambda>e. entry_id e = i) f (kpi_entries db) \<and>
   next_id (fst (findByIdAndUpdate db i f)) = next_id db \<and>
   kpi_templates (fst (findByIdAndUpdate db i f)) = kpi_templates db"
  by (simp add: findByIdAndUpdate_def findEntryById_def updateFirst_none split: option.splits)

lemma findByIdAndUpdate_map:
  assumes d: "distinct (map entry_id (kpi_entries db))"
    and keep: "\<And>x. entry_id (f x) = entry_id x"
  shows "kpi_entries (fst (findByIdAndUpdate db i f)) =
     map (\<lambda>e. if entry_id e = i then f e else e) (kpi_entries db)"
  using findByIdAndUpdate_store [of db i f] updateFirst_distinct [of f "kpi_entries db" i, OF keep d]
  by simp

lemma updateKpiEntry_store:
  assumes d: "distinct (map entry_id (kpi_entries db))"
  shows "\<exists>g. kpi_entries (storeAfter svc memberById db (UpdateKpiEntry i upd)) =
            map g (kpi_entries db) \<and>
          next_id (storeAfter svc memberById db (UpdateKpiEntry i upd)) = next_id db \<and>
          (\<forall>x. entry_id (g x) = entry_id x) \<and>
          (\<forall>e. status (g e) = statusAfter db (UpdateKpiEntry i upd) e)"
proof (cases "rescoredValues db i upd")
  case (Inl err)
  then have "updateKpiEntry db i upd = Inl err"
    by (simp add: updateKpiEntry_def)
  then show ?thesis
    by (intro exI [of _ "\<lambda>e. e"]) (simp add: storeAfter_def statusAfter_def succeeds_def)
next
  case (Inr r)
  obtain vals tot where r: "r = (vals, tot)"
    by (cases r)
  define f where "f = setFields upd vals tot"
  have keep: "\<And>x. entry_id (f x) = entry_id x"
    by (simp add: f_def setFields_def)
  have st: "\<And>x. status (f x) = Initiated"
    by (simp add: f_def setFields_def)
  from Inr r have u: "updateKpiEntry db i upd = Inr (findByIdAndUpdate db i f)"
    by (simp add: updateKpiEntry_def f_def)
  then have after: "storeAfter svc memberById db (UpdateKpiEntry i upd) = fst (findByIdAndUpdate db i f)"
    by (simp add: storeAfter_def split_beta)
  from u have ok: "succeeds (updateKpiEntry db i upd)"
    by (simp add: succeeds_def)
  show ?thesis
    unfolding after
    using findByIdAndUpdate_map [OF d keep, of i] findByIdAndUpdate_store [of db i f] keep st ok
    by (intro exI [of _ "\<lambda>e. if entry_id e = i then f e else e"]) (simp add: statusAfter_def)
qed

lemma updateKpiEntryStatus_store:
  assumes d: "distinct (map entry_id (kpi_entries db))"
  shows "kpi_entries (storeAfter svc memberById db (UpdateKpiEntryStatus i s)) =
            map (\<lambda>e. if entry_id e = i then e\<lparr>status := s\<rparr> else e) (kpi_entries db) \<and>
          next_id (storeAfter svc memberById db (UpdateKpiEntryStatus i s)) = next_id db"
proof -
  have keep: "\<And>x. entry_id (x\<lparr>status := s\<rparr>) = entry_id x"
    by simp
  from findByIdAndUpdate_map [of db "\<lambda>e. e\<lparr>status := s\<rparr>" i, OF d keep]
    findByIdAndUpdate_store [of db i "\<lambda>e. e\<lparr>status := s\<rparr>"]
  show ?thesis
    by (simp add: storeAfter_def updateKpiEntryStatus_def)
qed

lemma fst_set_map_set: "fst ` set (map_set k v m) = insert k (fst ` set m)"
  by (induction m) (force split: if_splits)+

lemma fst_set_templateMap:
  "fst ` set (foldl (\<lambda>m t. map_set (template_id t) t m) acc ts) =
     fst ` set acc \<union> template_id ` set ts"
  by (induction ts arbitrary: acc) (auto simp: fst_set_map_set)

lemma map_of_templateMap:
  "(map_of (foldl (\<lambda>m t. map_set (template_id t) t m) [] ts) k = None) =
     (k \<notin> template_id ` set ts)"
  by (simp add: map_of_eq_None_iff fst_set_templateMap)

lemma reportStep_store:
  "kpi_entries (fst (reportStep tm (db, u, s, d) e)) =
     (if map_of tm (templateId e) \<noteq> None \<and> entry_values e \<noteq> []
      then updateFirst (\<lambda>x. entry_id x = entry_id e) (\<lambda>x. x\<lparr>status := Generated\<rparr>) (kpi_entries db)
      else kpi_entries db) \<and>
   next_id (fst (reportStep tm (db, u, s, d) e)) = next_id db"
  using findByIdAndUpdate_store [of db "entry_id e" "\<lambda>x. x\<lparr>status := Generated\<rparr>"]
  by (auto simp: reportStep_def split: option.splits)

lemma report_loop:
  "distinct (map entry_id (kpi_entries db)) \<Longrightarrow>
   kpi_entries (fst (foldl (reportStep tm) (db, u, s, d) es)) =
     map (\<lambda>x. if entry_id x \<in> entry_id ` {e \<in> set es. map_of tm (templateId e) \<noteq> None \<and>
                                                   entry_values e \<noteq> []}
               then x\<lparr>status := Generated\<rparr> else x) (kpi_entries db) \<and>
   next_id (fst (foldl (reportStep tm) (db, u, s, d) es)) = next_id db"
proof (induction es arbitrary: db u s d)
  case Nil
  then show ?case by simp
next
  case (Cons e es)
  obtain db1 u1 s1 d1 where step: "reportStep tm (db, u, s, d) e = (db1, u1, s1, d1)"
    by (cases "reportStep tm (db, u, s, d) e") auto
  define mark where "mark = (\<lambda>e :: kpi_entry. map_of tm (templateId e) \<noteq> None \<and> entry_values e \<noteq> [])"
  have keep: "\<And>x. entry_id (x\<lparr>status := Generated\<rparr>) = entry_id x"
    by simp
  from reportStep_store [of tm db u s d e] step
    updateFirst_distinct [of "\<lambda>x. x\<lparr>status := Generated\<rparr>" "kpi_entries db" "entry_id e",
      OF keep Cons.prems]
  have e1: "kpi_entries db1 =
      map (\<lambda>x. if mark e \<and> entry_id x = entry_id e then x\<lparr>status := Generated\<rparr> else x)
        (kpi_entries db)"
    and n1: "next_id db1 = next_id db"
    by (auto simp: mark_def)
  have "map entry_id (kpi_entries db1) = map entry_id (kpi_entries db)"
    unfolding e1 by (simp add: comp_def)
  with Cons.prems have d1: "distinct (map entry_id (kpi_entries db1))"
    by simp
  from Cons.IH [OF d1, of u1 s1 d1]
  have rest: "kpi_entries (fst (foldl (reportStep tm) (db1, u1, s1, d1) es)) =
      map (\<lambda>x. if entry_id x \<in> entry_id ` {e \<in> set es. mark e}
                then x\<lparr>status := Generated\<rparr> else x) (kpi_entries db1)"
    and nr: "next_id (fst (foldl (reportStep tm) (db1, u1, s1, d1) es)) = next_id db1"
    by (simp_all add: mark_def)
  have "map (\<lambda>x. if entry_id x \<in> entry_id ` {e \<in> set es. mark e}
                then x\<lparr>status := Generated\<rparr> else x) (kpi_entries db1) =
        map (\<lambda>x. if entry_id x \<in> entry_id ` {a \<in> set (e # es). mark a}
                then x\<lparr>status := Generated\<rparr> else x) (kpi_entries db)"
    unfolding e1 by (rule nth_equalityI) (auto simp: image_iff)
  with rest nr n1 step show ?case
    by (simp add: mark_def)
qed

lemma generateMonthlyReport_store:
  assumes d: "distinct (map entry_id (kpi_entries db))"
  shows "kpi_entries (fst (generateMonthlyReport db f)) =
           map (\<lambda>x. if reportMarks db f x then x\<lparr>status := Generated\<rparr> else x) (kpi_entries db) \<and>
         next_id (fst (generateMonthlyReport db f)) = next_id db"
proof (cases "filter (reportQuery db f) (kpi_entries db) = []")
  case True
  then have "\<forall>x\<in>set (kpi_entries db). \<not> reportMarks db f x"
    by (auto simp: reportMarks_def filter_empty_conv)
  then have "map (\<lambda>x. if reportMarks db f x then x\<lparr>status := Generated\<rparr> else x) (kpi_entries db) =
      kpi_entries db"
    by (simp add: map_idI)
  with True show ?thesis
    by (simp add: generateMonthlyReport_def Let_def)
next
  case False
  define es where "es = filter (reportQuery db f) (kpi_entries db)"
  define ts where "ts = filter (\<lambda>t. template_id t \<in> set (remdups (map templateId es)))
                          (kpi_templates db)"
  define tm where "tm = foldl (\<lambda>m t. map_set (template_id t) t m) [] ts"
  define noDetails where "noDetails = \<lparr>rd_created = 0, rd_initiated = 0, rd_generated = 0\<rparr>"
  from False have after: "fst (generateMonthlyReport db f) =
      fst (foldl (reportStep tm) (db, 0, 0, noDetails) es)"
    by (simp add: generateMonthlyReport_def Let_def es_def ts_def tm_def
        noDetails_def split_beta)
  have tpl: "(map_of tm (templateId e) \<noteq> None) = (findTemplateById db (templateId e) \<noteq> None)"
    if e: "e \<in> set es" for e
  proof -
    have "(templateId e \<in> template_id ` set ts) =
        (\<exists>t\<in>set (kpi_templates db). template_id t = templateId e)"
    proof
      assume "templateId e \<in> template_id ` set ts"
      then show "\<exists>t\<in>set (kpi_templates db). template_id t = templateId e"
        by (auto simp: ts_def)
    next
      assume "\<exists>t\<in>set (kpi_templates db). template_id t = templateId e"
      then obtain t where "t \<in> set (kpi_templates db)" "template_id t = templateId e"
        by blast
      with e have "t \<in> set ts"
        by (simp add: ts_def)
      with \<open>template_id t = templateId e\<close> show "templateId e \<in> template_id ` set ts"
        by (metis imageI)
    qed
    then show ?thesis
      by (auto simp: tm_def map_of_templateMap findTemplateById_def find_None_iff)
  qed
  have "map (\<lambda>x. if entry_id x \<in> entry_id ` {e \<in> set es. map_of tm (templateId e) \<noteq> None \<and>
                                                   entry_values e \<noteq> []}
               then x\<lparr>status := Generated\<rparr> else x) (kpi_entries db) =
        map (\<lambda>x. if reportMarks db f x then x\<lparr>status := Generated\<rparr> else x) (kpi_entries db)"
  proof (rule map_cong [OF refl])
    fix x
    assume x: "x \<in> set (kpi_entries db)"
    have "(entry_id x \<in> entry_id ` {e \<in> set es. map_of tm (templateId e) \<noteq> None \<and>
                                                   entry_values e \<noteq> []}) = reportMarks db f x"
    proof
      assume "entry_id x \<in> entry_id ` {e \<in> set es. map_of tm (templateId e) \<noteq> None \<and>
                                                   entry_values e \<noteq> []}"
      then obtain e where e: "e \<in> set es" and m: "map_of tm (templateId e) \<noteq> None"
        and v: "entry_values e \<noteq> []" and same: "entry_id e = entry_id x"
        by auto
      from e have "e \<in> set (kpi_entries db)"
        by (simp add: es_def)
      from same_id_same_entry [OF d x this same] have "e = x" .
      with e m v tpl [OF e] show "reportMarks db f x"
        by (simp add: reportMarks_def es_def)
    next
      assume r: "reportMarks db f x"
      with x have e: "x \<in> set es"
        by (simp add: reportMarks_def es_def)
      with r tpl [OF e] show "entry_id x \<in> entry_id ` {e \<in> set es. map_of tm (templateId e) \<noteq> None \<and>
                                                   entry_values e \<noteq> []}"
        by (auto simp: reportMarks_def)
    qed
    then show "(if entry_id x \<in> entry_id ` {e \<in> set es. map_of tm (templateId e) \<noteq> None \<and>
                                                   entry_values e \<noteq> []}
               then x\<lparr>status := Generated\<rparr> else x) =
        (if reportMarks db f x then x\<lparr>status := Generated\<rparr> else x)"
      by simp
  qed
  with report_loop [OF d, of tm 0 0 noDetails es] after show ?thesis
    by simp
qed

lemma processRecord_store:
  "snd (processRecord svc tpl mo yr tid creator (res, db) r) = db \<or>
   (\<exists>e. snd (processRecord svc tpl mo yr tid creator (res, db) r) =
           db\<lparr>kpi_entries := kpi_entries db @ [e], next_id := next_id db + 1\<rparr> \<and>
         status e = Generated \<and> entry_id e = next_id db)"
proof (cases "blocked svc mo yr tid db r")
  case True
  from process_blocked [OF this, of tpl creator res] show ?thesis
    by auto
next
  case nb: False
  show ?thesis
  proof (cases "rejects svc tpl mo yr tid creator r")
    case True
    from process_rejects [OF nb this, of res] show ?thesis
      by auto
  next
    case False
    from nb obtain m where m: "fetchMemberByName svc (officerName r) = Some m"
      by (auto simp: blocked_def split: option.splits)
    show ?thesis
    proof (cases "court_of r")
      case None
      with False m have "\<not> scoreFails tpl mo yr tid creator m (firstRefOrDefault m) r"
        by (simp add: rejects_def)
      from scoreAndSave_ok [OF this, of CreatedSuccessfully res db] nb m None
      show ?thesis
        by (auto simp: blocked_def processRecord_def tryRecord_def newKpiEntry_def
            split: option.splits)
    next
      case (Some court)
      with nb m obtain ref where ref: "matchingCourtRef m court = Some ref"
        by (auto simp: blocked_def split: option.splits)
      with False m Some have "\<not> scoreFails tpl mo yr tid creator m ref r"
        by (simp add: rejects_def)
      from scoreAndSave_ok [OF this, of "CreatedForCourt court" res db] nb m Some ref
      show ?thesis
        by (auto simp: blocked_def processRecord_def tryRecord_def newKpiEntry_def
            split: option.splits)
    qed
  qed
qed

lemma migration_loop_store:
  "foldl (processRecord svc tpl mo yr tid creator) (res, db) rs = (res1, db1) \<Longrightarrow>
   \<exists>added. kpi_entries db1 = kpi_entries db @ added \<and>
     next_id db1 = next_id db + length added \<and>
     map entry_id added = [next_id db ..< next_id db + length added] \<and>
     (\<forall>e\<in>set added. status e = Generated)"
proof (induction rs arbitrary: res db)
  case Nil
  then show ?case by simp
next
  case (Cons r rs)
  obtain res' db' where step: "processRecord svc tpl mo yr tid creator (res, db) r = (res', db')"
    by (cases "processRecord svc tpl mo yr tid creator (res, db) r")
  with Cons.prems have "foldl (processRecord svc tpl mo yr tid creator) (res', db') rs = (res1, db1)"
    by simp
  from Cons.IH [OF this] obtain added where
    a: "kpi_entries db1 = kpi_entries db' @ added"
    and n: "next_id db1 = next_id db' + length added"
    and i: "map entry_id added = [next_id db' ..< next_id db' + length added]"
    and s: "\<forall>e\<in>set added. status e = Generated"
    by blast
  from processRecord_store [of svc tpl mo yr tid creator res db r] step
  consider "db' = db"
    | e where "db' = db\<lparr>kpi_entries := kpi_entries db @ [e], next_id := next_id db + 1\<rparr>"
        "status e = Generated" "entry_id e = next_id db"
    by auto
  then show ?case
  proof cases
    case 1
    with a n i s show ?thesis
      by blast
  next
    case 2
    have "[next_id db ..< next_id db + length (e # added)] =
        next_id db # [Suc (next_id db) ..< Suc (next_id db) + length added]"
      by (simp add: upt_rec)
    with 2 a n i s show ?thesis
      by (intro exI [of _ "e # added"]) simp
  qed
qed

lemma createKpiEntryFromCsvData_store:
  "createKpiEntryFromCsvData svc db csvData mo yr tid creator = Inr (res1, db1) \<Longrightarrow>
   \<exists>added. kpi_entries db1 = kpi_entries db @ added \<and>
     next_id db1 = next_id db + length added \<and>
     map entry_id added = [next_id db ..< next_id db + length added] \<and>
     (\<forall>e\<in>set added. status e = Generated)"
  by (auto simp: createKpiEntryFromCsvData_def split: option.splits dest: migration_loop_store)

lemma insertMany_store:
  "insertMany db docs = Inr (db1, saved) \<Longrightarrow>
   kpi_entries db1 = kpi_entries db @ saved \<and>
   next_id db1 = next_id db + length saved \<and>
   map entry_id saved = [next_id db ..< next_id db + length saved] \<and>
   map status saved = map status docs"
proof -
  assume a: "insertMany db docs = Inr (db1, saved)"
  then have s: "saved = map (\<lambda>(n, e). e\<lparr>entry_id := next_id db + n\<rparr>) (enumerate 0 docs)"
    and d: "db1 = db\<lparr>kpi_entries := kpi_entries db @ saved, next_id := next_id db + length docs\<rparr>"
    by (auto simp: insertMany_def Let_def split: if_splits)
  have len: "length saved = length docs"
    by (simp add: s)
  have i: "map entry_id saved = [next_id db ..< next_id db + length saved]"
    by (rule nth_equalityI) (simp_all add: s nth_enumerate_eq split_beta)
  have st: "map status saved = map status docs"
    by (rule nth_equalityI) (simp_all add: s nth_enumerate_eq split_beta)
  from d len i st show ?thesis
    by simp
qed

lemma createKpiEntry_store:
  "createKpiEntry memberById db mo yr tid creator who = Inr (db1, saved) \<Longrightarrow>
   kpi_entries db1 = kpi_entries db @ saved \<and>
   next_id db1 = next_id db + length saved \<and>
   map entry_id saved = [next_id db ..< next_id db + length saved] \<and>
   (\<forall>e\<in>set saved. status e = Created)"
proof -
  assume "createKpiEntry memberById db mo yr tid creator who = Inr (db1, saved)"
  then obtain refs where "insertMany db (map (newEntryDoc mo yr tid creator who) refs) =
      Inr (db1, saved)"
    by (auto simp: createKpiEntry_def split: option.splits)
  from insertMany_store [OF this]
  have shape: "kpi_entries db1 = kpi_entries db @ saved"
    "next_id db1 = next_id db + length saved"
    "map entry_id saved = [next_id db ..< next_id db + length saved]"
    and st: "map status saved = map status (map (newEntryDoc mo yr tid creator who) refs)"
    by simp_all
  have "set (map status saved) \<subseteq> {Created}"
    unfolding st by (auto simp: newEntryDoc_def)
  then have "\<forall>e\<in>set saved. status e = Created"
    by auto
  with shape show ?thesis
    by simp
qed

lemma migrateCsvData_store:
  assumes "migrateCsvData svc db csvContent mo yr tid dept role creator = Inr (res1, db1)"
  shows "\<exists>added. kpi_entries db1 = kpi_entries db @ added \<and>
     next_id db1 = next_id db + length added \<and>
     map entry_id added = [next_id db ..< next_id db + length added] \<and>
     (\<forall>e\<in>set added. status e = Generated)"
proof (cases "parseCsvData csvContent dept role")
  case (Inl err)
  with assms show ?thesis
    by (simp add: migrateCsvData_def)
next
  case (Inr csvData)
  show ?thesis
  proof (cases "length csvData = 0")
    case True
    with assms Inr have "db1 = db"
      by (simp add: migrateCsvData_def)
    then show ?thesis
      by (intro exI [of _ "[]"]) simp
  next
    case False
    with assms Inr have "createKpiEntryFromCsvData svc db csvData mo yr tid (orSystem creator) =
        Inr (res1, db1)"
      by (simp add: migrateCsvData_def)
    then show ?thesis
      by (rule createKpiEntryFromCsvData_store)
  qed
qed

lemma report_example_marks:
  "reportMarks reportDb mayReport (reportEntry 10 5 Created oneValue)"
  "\<not> reportMarks reportDb mayReport (reportEntry 11 5 Created [])"
  "reportMarks reportDb mayReport (reportEntry 12 5 Initiated oneValue)"
  "\<not> reportMarks reportDb mayReport (reportEntry 13 5 Generated oneValue)"
  "\<not> reportMarks reportDb mayReport (reportEntry 14 6 Created oneValue)"
  by (simp_all add: reportMarks_def reportQuery_def findTemplateById_def reportDb_def
        reportEntry_def mayReport_def oneValue_def exampleTemplate_def)

lemma report_example_ids: "storeIds reportDb"
  by (simp add: storeIds_def reportDb_def reportEntry_def)

lemma report_example_store:
  "kpi_entries (fst (generateMonthlyReport reportDb mayReport)) =
     [(reportEntry 10 5 Created oneValue)\<lparr>status := Generated\<rparr>, reportEntry 11 5 Created [],
      (reportEntry 12 5 Initiated oneValue)\<lparr>status := Generated\<rparr>,
      reportEntry 13 5 Generated oneValue, reportEntry 14 6 Created oneValue]"
proof -
  from report_example_ids have ids: "distinct (map entry_id (kpi_entries reportDb))"
    by (simp add: storeIds_def)
  have k: "kpi_entries reportDb =
     [reportEntry 10 5 Created oneValue, reportEntry 11 5 Created [],
      reportEntry 12 5 Initiated oneValue, reportEntry 13 5 Generated oneValue,
      reportEntry 14 6 Created oneValue]"
    by (simp add: reportDb_def)
  from generateMonthlyReport_store [OF ids, of mayReport]
  have "kpi_entries (fst (generateMonthlyReport reportDb mayReport)) =
      map (\<lambda>x. if reportMarks reportDb mayReport x then x\<lparr>status := Generated\<rparr> else x)
        (kpi_entries reportDb)"
    by (rule conjunct1)
  then show ?thesis
    unfolding k by (simp add: report_example_marks)
qed

text \<open>
  C8, as stated, fails twice. updateKpiEntry with an update that carries no field at all
  turns the status of a generated entry into initiated. generateMonthlyReport, which is
  neither the migration nor one of the status operations, turns the created entry and
  the initiated entry of the month that have a value into generated, and leaves the
  created entry without values and the entry of the other month as they are.
\<close>

theorem update_and_monthly_report_change_status:
  "status storedEntry = Generated \<and>
   storedStatuses (updateKpiEntry oneEntryDb 7 emptyUpdate) = [Initiated] \<and>
   map status (kpi_entries reportDb) = [Created, Created, Initiated, Generated, Created] \<and>
   map status (kpi_entries (fst (generateMonthlyReport reportDb mayReport))) =
     [Generated, Created, Generated, Generated, Created]"
proof -
  have a: "status storedEntry = Generated"
    by (simp add: storedEntry_def)
  have b: "storedStatuses (updateKpiEntry oneEntryDb 7 emptyUpdate) = [Initiated]"
    by (simp add: storedEntry_def oneEntryDb_def emptyUpdate_def storedStatuses_def
      updateKpiEntry_def rescoredValues_def findByIdAndUpdate_def findEntryById_def
      setFields_def orElse_def)
  have c: "map status (kpi_entries reportDb) = [Created, Created, Initiated, Generated, Created]"
    by (simp add: reportDb_def reportEntry_def)
  have d: "map status (kpi_entries (fst (generateMonthlyReport reportDb mayReport))) =
     [Generated, Created, Generated, Generated, Created]"
    unfolding report_example_store by (simp add: reportEntry_def)
  from a b c d show ?thesis
    by (intro conjI)
qed

text \<open>
  C8, amended. Of the operations of the entry service, the monthly report service and
  the migration that write to the entry collection, on a store whose ids are unique and
  below the next id, the status of a stored entry is changed only by these: updateKpiEntry sets it to
  initiated on the entry it updates, on every update that does not throw, whatever the
  status was and whatever status the update carries (an update without values never
  throws); updateKpiEntryStatus and bulkUpdateStatus set the status the caller passes on
  the entries they address; generateMonthlyReport sets it to generated on every created
  or initiated entry of the month and year (and of the department, when one is given)
  whose template is in the store and that has at least one value. Every other stored
  entry keeps its status under every operation. An entry that is new after an operation
  was created by createKpiEntry, with status created, or by the migration, with status
  generated; the migration changes no stored entry. Only deleteKpiEntry removes an
  entry, and the ids stay unique.
\<close>

theorem status_changes_only_as_listed:
  assumes ids: "storeIds db"
  shows "storeIds (storeAfter svc memberById db op) \<and>
    (\<forall>e\<in>set (kpi_entries db). \<forall>e'\<in>set (kpi_entries (storeAfter svc memberById db op)).
        entry_id e' = entry_id e \<longrightarrow> status e' = statusAfter db op e) \<and>
    (\<forall>e'\<in>set (kpi_entries (storeAfter svc memberById db op)).
        entry_id e' \<notin> entry_id ` set (kpi_entries db) \<longrightarrow> statusOfNew op = Some (status e')) \<and>
    (\<forall>e\<in>set (kpi_entries db).
        entry_id e \<in> entry_id ` set (kpi_entries (storeAfter svc memberById db op)) \<or>
        op = DeleteKpiEntry (entry_id e)) \<and>
    (\<forall>i upd. u_values upd = None \<longrightarrow> succeeds (updateKpiEntry db i upd))"
proof -
  define db' where "db' = storeAfter svc memberById db op"
  from ids have d: "distinct (map entry_id (kpi_entries db))"
    by (simp add: storeIds_def)
  have novalues: "\<forall>i upd. u_values upd = None \<longrightarrow> succeeds (updateKpiEntry db i upd)"
    by (simp add: updateKpiEntry_def rescoredValues_def succeeds_def)
  have frame: "storeIds db' \<and>
    (\<forall>e\<in>set (kpi_entries db). \<forall>e'\<in>set (kpi_entries db').
        entry_id e' = entry_id e \<longrightarrow> status e' = statusAfter db op e) \<and>
    (\<forall>e'\<in>set (kpi_entries db').
        entry_id e' \<notin> entry_id ` set (kpi_entries db) \<longrightarrow> statusOfNew op = Some (status e')) \<and>
    (\<forall>e\<in>set (kpi_entries db).
        entry_id e \<in> entry_id ` set (kpi_entries db') \<or> op = DeleteKpiEntry (entry_id e))"
  proof (cases op)
    case (CreateKpiEntry mo yr tid creator who)
    have st: "\<And>e. statusAfter db op e = status e"
      by (simp add: CreateKpiEntry statusAfter_def)
    have nw: "statusOfNew op = Some Created"
      by (simp add: CreateKpiEntry statusOfNew_def)
    have after: "db' = (case createKpiEntry memberById db mo yr tid creator who of
        Inl _ \<Rightarrow> db | Inr (db1, _) \<Rightarrow> db1)"
      by (simp add: db'_def CreateKpiEntry storeAfter_def)
    show ?thesis
    proof (cases "createKpiEntry memberById db mo yr tid creator who")
      case (Inl err)
      with after have same: "db' = db"
        by simp
      show ?thesis
        unfolding same by (rule frame_same [OF ids st])
    next
      case (Inr r)
      obtain db1 saved where r: "r = (db1, saved)"
        by (cases r)
      from after Inr r have eq: "db' = db1"
        by simp
      from Inr r have "createKpiEntry memberById db mo yr tid creator who = Inr (db1, saved)"
        by simp
      from createKpiEntry_store [OF this]
      have shape: "kpi_entries db1 = kpi_entries db @ saved"
        and nxt: "next_id db1 = next_id db + length saved"
        and fresh: "map entry_id saved = [next_id db ..< next_id db + length saved]"
        and cr: "\<forall>e\<in>set saved. status e = Created"
        by simp_all
      from cr have stn: "\<forall>e\<in>set saved. statusOfNew op = Some (status e)"
        by (simp add: nw)
      show ?thesis
        unfolding eq by (rule frame_append [OF ids shape nxt fresh stn st])
    qed
  next
    case (UpdateKpiEntry i upd)
    from updateKpiEntry_store [OF d, of svc memberById i upd]
    obtain g where shape: "kpi_entries db' = map g (kpi_entries db)"
      and nxt: "next_id db' = next_id db"
      and keep: "\<forall>x. entry_id (g x) = entry_id x"
      and st: "\<forall>e. status (g e) = statusAfter db op e"
      unfolding db'_def UpdateKpiEntry by blast
    show ?thesis
    proof (rule frame_map [OF ids shape nxt])
      show "\<And>x. entry_id (g x) = entry_id x"
        using keep by blast
      show "\<And>e. e \<in> set (kpi_entries db) \<Longrightarrow> status (g e) = statusAfter db op e"
        using st by blast
    qed
  next
    case (UpdateKpiEntryStatus i s)
    define g where "g = (\<lambda>e :: kpi_entry. if entry_id e = i then e\<lparr>status := s\<rparr> else e)"
    from updateKpiEntryStatus_store [OF d, of svc memberById i s]
    have shape: "kpi_entries db' = map g (kpi_entries db)" and nxt: "next_id db' = next_id db"
      by (simp_all add: db'_def UpdateKpiEntryStatus g_def)
    show ?thesis
    proof (rule frame_map [OF ids shape nxt])
      show "\<And>x. entry_id (g x) = entry_id x"
        by (simp add: g_def)
      show "\<And>e. e \<in> set (kpi_entries db) \<Longrightarrow> status (g e) = statusAfter db op e"
        by (simp add: g_def UpdateKpiEntryStatus statusAfter_def)
    qed
  next
    case (DeleteKpiEntry i)
    have st: "\<And>e. statusAfter db op e = status e"
      by (simp add: DeleteKpiEntry statusAfter_def)
    have shape: "kpi_entries db' = filter (\<lambda>e. entry_id e \<noteq> i) (kpi_entries db)"
      and nxt: "next_id db' = next_id db"
      by (simp_all add: db'_def DeleteKpiEntry storeAfter_def deleteKpiEntry_def
          removeFirst_distinct [OF d])
    show ?thesis
    proof (rule frame_delete [OF ids shape nxt st])
      show "\<And>e :: kpi_entry. entry_id e = i \<Longrightarrow> op = DeleteKpiEntry (entry_id e)"
        by (simp add: DeleteKpiEntry)
    qed
  next
    case (BulkUpdateStatus idl s)
    define g where "g = (\<lambda>e :: kpi_entry. if entry_id e \<in> set idl then e\<lparr>status := s\<rparr> else e)"
    have shape: "kpi_entries db' = map g (kpi_entries db)" and nxt: "next_id db' = next_id db"
      by (simp_all add: db'_def BulkUpdateStatus storeAfter_def bulkUpdateStatus_def g_def)
    show ?thesis
    proof (rule frame_map [OF ids shape nxt])
      show "\<And>x. entry_id (g x) = entry_id x"
        by (simp add: g_def)
      show "\<And>e. e \<in> set (kpi_entries db) \<Longrightarrow> status (g e) = statusAfter db op e"
        by (simp add: g_def BulkUpdateStatus statusAfter_def)
    qed
  next
    case (GenerateMonthlyReport f)
    define g where "g = (\<lambda>e :: kpi_entry. if reportMarks db f e then e\<lparr>status := Generated\<rparr> else e)"
    from generateMonthlyReport_store [OF d, of f]
    have shape: "kpi_entries db' = map g (kpi_entries db)" and nxt: "next_id db' = next_id db"
      by (simp_all add: db'_def GenerateMonthlyReport storeAfter_def g_def)
    show ?thesis
    proof (rule frame_map [OF ids shape nxt])
      show "\<And>x. entry_id (g x) = entry_id x"
        by (simp add: g_def)
      show "\<And>e. e \<in> set (kpi_entries db) \<Longrightarrow> status (g e) = statusAfter db op e"
        by (simp add: g_def GenerateMonthlyReport statusAfter_def)
    qed
  next
    case (CreateKpiEntryFromCsvData csvData mo yr tid creator)
    have st: "\<And>e. statusAfter db op e = status e"
      by (simp add: CreateKpiEntryFromCsvData statusAfter_def)
    have nw: "statusOfNew op = Some Generated"
      by (simp add: CreateKpiEntryFromCsvData statusOfNew_def)
    have after: "db' = (case createKpiEntryFromCsvData svc db csvData mo yr tid creator of
        Inl _ \<Rightarrow> db | Inr (_, db1) \<Rightarrow> db1)"
      by (simp add: db'_def CreateKpiEntryFromCsvData storeAfter_def)
    show ?thesis
    proof (cases "createKpiEntryFromCsvData svc db csvData mo yr tid creator")
      case (Inl err)
      with after have same: "db' = db"
        by simp
      show ?thesis
        unfolding same by (rule frame_same [OF ids st])
    next
      case (Inr r)
      obtain res1 db1 where r: "r = (res1, db1)"
        by (cases r)
      from after Inr r have eq: "db' = db1"
        by simp
      from Inr r have "createKpiEntryFromCsvData svc db csvData mo yr tid creator = Inr (res1, db1)"
        by simp
      from createKpiEntryFromCsvData_store [OF this]
      obtain added where shape: "kpi_entries db1 = kpi_entries db @ added"
        and nxt: "next_id db1 = next_id db + length added"
        and fresh: "map entry_id added = [next_id db ..< next_id db + length added]"
        and gen: "\<forall>e\<in>set added. status e = Generated"
        by blast
      from gen have stn: "\<forall>e\<in>set added. statusOfNew op = Some (status e)"
        by (simp add: nw)
      show ?thesis
        unfolding eq by (rule frame_append [OF ids shape nxt fresh stn st])
    qed
  next
    case (MigrateCsvData csvContent mo yr tid dept role creator)
    have st: "\<And>e. statusAfter db op e = status e"
      by (simp add: MigrateCsvData statusAfter_def)
    have nw: "statusOfNew op = Some Generated"
      by (simp add: MigrateCsvData statusOfNew_def)
    have after: "db' = (case migrateCsvData svc db csvContent mo yr tid dept role creator of
        Inl _ \<Rightarrow> db | Inr (_, db1) \<Rightarrow> db1)"
      by (simp add: db'_def MigrateCsvData storeAfter_def)
    show ?thesis
    proof (cases "migrateCsvData svc db csvContent mo yr tid dept role creator")
      case (Inl err)
      with after have same: "db' = db"
        by simp
      show ?thesis
        unfolding same by (rule frame_same [OF ids st])
    next
      case (Inr r)
      obtain res1 db1 where r: "r = (res1, db1)"
        by (cases r)
      from after Inr r have eq: "db' = db1"
        by simp
      from Inr r have "migrateCsvData svc db csvContent mo yr tid dept role creator =
          Inr (res1, db1)"
        by simp
      from migrateCsvData_store [OF this]
      obtain added where shape: "kpi_entries db1 = kpi_entries db @ added"
        and nxt: "next_id db1 = next_id db + length added"
        and fresh: "map entry_id added = [next_id db ..< next_id db + length added]"
        and gen: "\<forall>e\<in>set added. status e = Generated"
        by blast
      from gen have stn: "\<forall>e\<in>set added. statusOfNew op = Some (status e)"
        by (simp add: nw)
      show ?thesis
        unfolding eq by (rule frame_append [OF ids shape nxt fresh stn st])
    qed
  qed
  note f = frame [unfolded db'_def]
  from f [THEN conjunct1] f [THEN conjunct2, THEN conjunct1]
    f [THEN conjunct2, THEN conjunct2, THEN conjunct1]
    f [THEN conjunct2, THEN conjunct2, THEN conjunct2] novalues
  show ?thesis
    by (intro conjI)
qed

lemma update_example_store:
  "map status (kpi_entries (storeAfter svc memberById oneEntryDb (UpdateKpiEntry 7 emptyUpdate))) =
     [Initiated]"
  by (simp add: storeAfter_def storedEntry_def oneEntryDb_def emptyUpdate_def
      updateKpiEntry_def rescoredValues_def findByIdAndUpdate_def findEntryById_def
      setFields_def orElse_def)

lemma migration_example_store:
  "map status (kpi_entries (storeAfter exampleSvc memberById exampleDb
      (CreateKpiEntryFromCsvData [recOk] 5 2024 (ascii ''t1'') (ascii ''admin'')))) = [Generated]"
  by (simp add: storeAfter_def example_defs)

lemma create_example_store:
  "map status (kpi_entries (storeAfter svc memberOfId exampleDb
      (CreateKpiEntry 5 2024 (ascii ''t1'') (ascii ''admin'') (ascii ''u1'')))) = [Created]"
  by (simp add: storeAfter_def createKpiEntry_def insertMany_def newEntryDoc_def
      schema_valid_def memberOfId_def memberA_def courtRef_def exampleDb_def existingEntry_def
      findTemplateById_def exampleTemplate_def ascii_def Let_def enumerate_simps)

theorem status_changes_only_as_listed_witness:
  "storeIds reportDb \<and> storeIds oneEntryDb \<and> storeIds exampleDb \<and>
   storeIds (storeAfter exampleSvc memberOfId reportDb (GenerateMonthlyReport mayReport)) \<and>
   map status (kpi_entries reportDb) = [Created, Created, Initiated, Generated, Created] \<and>
   map (statusAfter reportDb (GenerateMonthlyReport mayReport)) (kpi_entries reportDb) =
     [Generated, Created, Generated, Generated, Created] \<and>
   map status (kpi_entries (storeAfter exampleSvc memberOfId reportDb
      (GenerateMonthlyReport mayReport))) = [Generated, Created, Generated, Generated, Created] \<and>
   u_values emptyUpdate = None \<and>
   succeeds (updateKpiEntry oneEntryDb 7 emptyUpdate) \<and>
   status storedEntry = Generated \<and>
   statusAfter oneEntryDb (UpdateKpiEntry 7 emptyUpdate) storedEntry = Initiated \<and>
   map status (kpi_entries (storeAfter exampleSvc memberOfId oneEntryDb
      (UpdateKpiEntry 7 emptyUpdate))) = [Initiated] \<and>
   map status (kpi_entries (storeAfter exampleSvc memberOfId exampleDb
      (CreateKpiEntryFromCsvData [recOk] 5 2024 (ascii ''t1'') (ascii ''admin'')))) = [Generated] \<and>
   map status (kpi_entries (storeAfter exampleSvc memberOfId exampleDb
      (CreateKpiEntry 5 2024 (ascii ''t1'') (ascii ''admin'') (ascii ''u1'')))) = [Created]"
proof -
  have i1: "storeIds reportDb"
    by (rule report_example_ids)
  have i2: "storeIds oneEntryDb"
    by (simp add: storeIds_def oneEntryDb_def storedEntry_def)
  have i3: "storeIds exampleDb"
    by (simp add: storeIds_def exampleDb_def)
  note report = status_changes_only_as_listed [OF i1, of exampleSvc memberOfId
      "GenerateMonthlyReport mayReport"]
  note update = status_changes_only_as_listed [OF i2, of exampleSvc memberOfId
      "UpdateKpiEntry 7 emptyUpdate"]
  from report have a: "storeIds (storeAfter exampleSvc memberOfId reportDb
      (GenerateMonthlyReport mayReport))"
    by (rule conjunct1)
  have nv: "u_values emptyUpdate = None"
    by (simp add: emptyUpdate_def)
  from update nv have ok: "succeeds (updateKpiEntry oneEntryDb 7 emptyUpdate)"
    by blast
  have b: "map status (kpi_entries reportDb) = [Created, Created, Initiated, Generated, Created]"
    by (simp add: reportDb_def reportEntry_def)
  have k: "kpi_entries reportDb =
     [reportEntry 10 5 Created oneValue, reportEntry 11 5 Created [],
      reportEntry 12 5 Initiated oneValue, reportEntry 13 5 Generated oneValue,
      reportEntry 14 6 Created oneValue]"
    by (simp add: reportDb_def)
  have "map (statusAfter reportDb (GenerateMonthlyReport mayReport)) (kpi_entries reportDb) =
     [Generated, status (reportEntry 11 5 Created []), Generated,
      status (reportEntry 13 5 Generated oneValue), status (reportEntry 14 6 Created oneValue)]"
    unfolding k by (simp add: statusAfter_def report_example_marks)
  then have c: "map (statusAfter reportDb (GenerateMonthlyReport mayReport)) (kpi_entries reportDb) =
     [Generated, Created, Generated, Generated, Created]"
    by (simp add: reportEntry_def)
  have d: "map status (kpi_entries (storeAfter exampleSvc memberOfId reportDb
      (GenerateMonthlyReport mayReport))) = [Generated, Created, Generated, Generated, Created]"
    by (simp add: storeAfter_def report_example_store) (simp add: reportEntry_def)
  have e: "status storedEntry = Generated"
    by (simp add: storedEntry_def)
  have "entry_id storedEntry = 7"
    by (simp add: storedEntry_def)
  with ok have f: "statusAfter oneEntryDb (UpdateKpiEntry 7 emptyUpdate) storedEntry = Initiated"
    by (simp add: statusAfter_def)
  from i1 i2 i3 a b c d nv ok e f update_example_store [of exampleSvc memberOfId]
    migration_example_store [of memberOfId] create_example_store [of exampleSvc]
  show ?thesis
    by (intro conjI)
qed

lemma insert_cmp_byPercentage:
  "insert_cmp byPercentageDesc x ys = insort_key (\<lambda>r. - percentageScore r) x ys"
  by (induction ys) (auto simp: byPercentageDesc_def)

lemma js_sort_byPercentage:
  "js_sort byPercentageDesc xs = sort_key (\<lambda>r. - percentageScore r) xs"
  by (induction xs) (simp_all add: js_sort_def insert_cmp_byPercentage)

lemma ranks_from:
  "map ranking_rank (map (\<lambda>(index, ranking). ranking\<lparr>ranking_rank := index + 1\<rparr>) (enumerate n rs)) =
   [Suc n..<Suc n + length rs]"
proof (induction rs arbitrary: n)
  case Nil
  then show ?case by simp
next
  case (Cons r rs)
  have "[Suc n..<Suc n + length (r # rs)] = Suc n # [Suc (Suc n)..<Suc (Suc n) + length rs]"
    by (subst upt_rec) simp
  with Cons.IH [of "Suc n"] show ?case by simp
qed

lemma addRanks_ranks: "map ranking_rank (addRanks rs) = [1..<Suc (length rs)]"
  using ranks_from [of 0 rs] by (simp add: addRanks_def)

lemma ranks_keep:
  "(\<And>r k. g (r\<lparr>ranking_rank := k\<rparr>) = g r) \<Longrightarrow>
   map g (map (\<lambda>(index, ranking). ranking\<lparr>ranking_rank := index + 1\<rparr>) (enumerate n rs)) = map g rs"
  by (induction rs arbitrary: n) simp_all

lemma addRanks_forget:
  "map (\<lambda>r. r\<lparr>ranking_rank := 0\<rparr>) (addRanks rs) = map (\<lambda>r. r\<lparr>ranking_rank := 0\<rparr>) rs"
  unfolding addRanks_def by (rule ranks_keep) simp

lemma addRanks_percentages: "map percentageScore (addRanks rs) = map percentageScore rs"
  unfolding addRanks_def by (rule ranks_keep) simp

lemma sorted_desc:
  "sorted (map (\<lambda>r. - f r) xs) \<Longrightarrow> sorted_wrt (\<lambda>a b. (f b :: rat) \<le> f a) xs"
  by (induction xs) auto

lemma js_slice_take_drop:
  "0 \<le> start \<Longrightarrow> start \<le> stop \<Longrightarrow>
   js_slice start stop xs = take (nat (stop - start)) (drop (nat start) xs)"
  by (auto simp: js_slice_def Let_def min_def)


lemma next_page_iff:
  assumes "1 \<le> limit"
  shows "(page < \<lceil>(of_nat n :: rat) / of_int limit\<rceil>) = (page * limit < int n)"
proof -
  have pos: "(0::rat) < of_int limit"
    using assms by simp
  have "(page < \<lceil>(of_nat n :: rat) / of_int limit\<rceil>) = (of_int page < (of_nat n :: rat) / of_int limit)"
    by (simp add: less_ceiling_iff)
  also have "\<dots> = ((of_int page :: rat) * of_int limit < of_nat n)"
    using pos by (simp add: pos_less_divide_eq)
  also have "\<dots> = (page * limit < int n)"
    by (metis of_int_less_iff of_int_mult of_int_of_nat_eq)
  finally show ?thesis .
qed

lemma example_ranking_page:
  "rankingSummary (rankings (getEmployeeRankings (pageFilters 2 1) rankingDb)) =
     [(ascii ''e90'', 90, 1), (ascii ''e70'', 70, 2)] \<and>
   hasNextPage (getEmployeeRankings (pageFilters 2 1) rankingDb) \<and>
   page_total (getEmployeeRankings (pageFilters 2 1) rankingDb) = 3"
  by (simp add: getEmployeeRankings_def allRankings_def employeeScores_def rankingStep_def
      rankingQuery_def departmentMatch_def roleMatch_def finalDepartments_def finalRoles_def
      defaultDepartments_def templateMaxScore_def newEmployee_def addToEmployee_def
      withPercentage_def byPercentageDesc_def addRanks_def js_sort_def js_slice_def ceilPages_def
      orElse_def rankingSummary_def pageFilters_def rankingDb_def generatedEntry_def
      findTemplateById_def exampleTemplate_def percentage_item_def courtRef_def ascii_def
      enumerate_eq_zip Let_def)

lemma allRankings_unranked:
  "map (\<lambda>r. r\<lparr>ranking_rank := 0\<rparr>) (allRankings f db) =
   sort_key (\<lambda>r. - percentageScore r) (map withPercentage (employeeScores f db))"
proof -
  have "map (\<lambda>r. r\<lparr>ranking_rank := 0\<rparr>) (allRankings f db) =
        map (\<lambda>r. r\<lparr>ranking_rank := 0\<rparr>)
          (sort_key (\<lambda>r. - percentageScore r) (map withPercentage (employeeScores f db)))"
    by (simp add: allRankings_def addRanks_forget js_sort_byPercentage)
  also have "\<dots> = sort_key (\<lambda>r. - percentageScore r) (map withPercentage (employeeScores f db))"
    by (rule map_idI) (auto simp: withPercentage_def)
  finally show ?thesis .
qed

lemma allRankings_sorted:
  "sorted_wrt (\<lambda>a b. percentageScore b \<le> percentageScore a) (allRankings f db)"
proof -
  let ?s = "sort_key (\<lambda>r. - percentageScore r) (map withPercentage (employeeScores f db))"
  have "sorted (map (\<lambda>r. - percentageScore r) ?s)"
    by (rule sorted_sort_key)
  then have "sorted (map uminus (map percentageScore ?s))"
    by (simp add: comp_def)
  then have "sorted (map uminus (map percentageScore (allRankings f db)))"
    by (simp add: allRankings_def addRanks_percentages js_sort_byPercentage)
  then have "sorted (map (\<lambda>r. - percentageScore r) (allRankings f db))"
    by (simp add: comp_def)
  then show ?thesis
    by (rule sorted_desc)
qed

lemma allRankings_percentage:
  assumes "r \<in> set (allRankings f db)"
  shows "percentageScore r =
    (if 0 < maxPossibleScore (employee r)
     then emp_totalScore (employee r) / maxPossibleScore (employee r) * 100 else 0)"
proof -
  from assms have "r\<lparr>ranking_rank := 0\<rparr> \<in> set (map (\<lambda>r. r\<lparr>ranking_rank := 0\<rparr>) (allRankings f db))"
    by simp
  then have "r\<lparr>ranking_rank := 0\<rparr> \<in> set (map withPercentage (employeeScores f db))"
    by (simp only: allRankings_unranked set_sort)
  then obtain emp where emp: "r\<lparr>ranking_rank := 0\<rparr> = withPercentage emp"
    by auto
  have "percentageScore r = percentageScore (r\<lparr>ranking_rank := 0\<rparr>)"
    "employee r = employee (r\<lparr>ranking_rank := 0\<rparr>)"
    by simp_all
  then have "percentageScore r = percentageScore (withPercentage emp)"
    "employee r = employee (withPercentage emp)"
    by (simp_all only: emp)
  then show ?thesis
    by (simp add: withPercentage_def)
qed

lemma length_addRanks: "length (addRanks rs) = length rs"
  by (simp add: addRanks_def)

text \<open>
  C9. With a limit and a page of at least 1, getEmployeeRankings returns the page that
  offset and limit cut out of the full ranking list. The full list is sorted descending
  by percentage, it is the stable sort of the employees in the order in which the Map
  holds them (so employees with equal percentages keep that order and get consecutive,
  distinct ranks), its ranks are 1, 2, ..., and each percentage is total / maxPossible *
  100, or 0 when maxPossible is not positive. The i-th ranking of the page has rank
  offset + i + 1, and hasNextPage says that rankings remain after the page. For three
  employees with 90, 70 and 50 percent, limit 2 and page 1 give ranks 1 and 2 (the 90
  and the 70) and hasNextPage.
\<close>

theorem rankings_sorted_ranked_paginated:
  assumes lim: "orElse (f_limit f) 50 = limit" "1 \<le> limit"
    and pg: "orElse (f_page f) 1 = page" "1 \<le> page"
  shows "rankings (getEmployeeRankings f db) =
           take (nat limit) (drop (nat ((page - 1) * limit)) (allRankings f db)) \<and>
         sorted_wrt (\<lambda>a b. percentageScore b \<le> percentageScore a) (allRankings f db) \<and>
         map ranking_rank (allRankings f db) = [1..<Suc (length (allRankings f db))] \<and>
         map (\<lambda>r. r\<lparr>ranking_rank := 0\<rparr>) (allRankings f db) =
           sort_key (\<lambda>r. - percentageScore r) (map withPercentage (employeeScores f db)) \<and>
         (\<forall>r\<in>set (allRankings f db). percentageScore r =
            (if 0 < maxPossibleScore (employee r)
             then emp_totalScore (employee r) / maxPossibleScore (employee r) * 100 else 0)) \<and>
         (\<forall>i<length (rankings (getEmployeeRankings f db)).
            ranking_rank (rankings (getEmployeeRankings f db) ! i) =
              nat ((page - 1) * limit) + i + 1) \<and>
         page_total (getEmployeeRankings f db) = length (allRankings f db) \<and>
         hasNextPage (getEmployeeRankings f db) = (page * limit < int (length (allRankings f db))) \<and>
         rankingSummary (rankings (getEmployeeRankings (pageFilters 2 1) rankingDb)) =
           [(ascii ''e90'', 90, 1), (ascii ''e70'', 70, 2)] \<and>
         hasNextPage (getEmployeeRankings (pageFilters 2 1) rankingDb)"
proof -
  let ?full = "allRankings f db"
  let ?off = "nat ((page - 1) * limit)"
  have start: "0 \<le> (page - 1) * limit"
    using lim(2) pg(2) by simp
  have slice: "rankings (getEmployeeRankings f db) = take (nat limit) (drop ?off ?full)"
    using js_slice_take_drop [OF start, of "(page - 1) * limit + limit" ?full] lim pg
    by (simp add: getEmployeeRankings_def Let_def)
  have ranks: "map ranking_rank ?full = [1..<Suc (length ?full)]"
    by (simp only: allRankings_def addRanks_ranks length_addRanks)
  have ith: "\<forall>i<length (rankings (getEmployeeRankings f db)).
      ranking_rank (rankings (getEmployeeRankings f db) ! i) = ?off + i + 1"
  proof (intro allI impI)
    fix i
    assume "i < length (rankings (getEmployeeRankings f db))"
    then have i: "i < nat limit" "?off + i < length ?full"
      by (auto simp: slice)
    then have "rankings (getEmployeeRankings f db) ! i = ?full ! (?off + i)"
      by (simp add: slice)
    moreover have "ranking_rank (?full ! (?off + i)) = map ranking_rank ?full ! (?off + i)"
      using i by simp
    moreover have "[1..<Suc (length ?full)] ! (?off + i) = 1 + (?off + i)"
      using i by (intro nth_upt) simp
    ultimately show "ranking_rank (rankings (getEmployeeRankings f db) ! i) = ?off + i + 1"
      by (simp add: ranks)
  qed
  have tot: "page_total (getEmployeeRankings f db) = length ?full"
    by (simp add: getEmployeeRankings_def Let_def)
  have nxt: "hasNextPage (getEmployeeRankings f db) = (page * limit < int (length ?full))"
    using lim pg next_page_iff [OF lim(2), of page "length ?full"]
    by (simp add: getEmployeeRankings_def Let_def ceilPages_def)
  have pct: "\<forall>r\<in>set ?full. percentageScore r =
            (if 0 < maxPossibleScore (employee r)
             then emp_totalScore (employee r) / maxPossibleScore (employee r) * 100 else 0)"
    using allRankings_percentage by blast
  from slice allRankings_sorted [of f db] ranks allRankings_unranked [of f db] pct ith tot nxt
    example_ranking_page
  show ?thesis
    by (intro conjI) simp_all
qed

theorem rankings_sorted_ranked_paginated_witness:
  "orElse (f_limit (pageFilters 2 1)) 50 = 2 \<and> (1::int) \<le> 2 \<and>
   orElse (f_page (pageFilters 2 1)) 1 = 1 \<and> (1::int) \<le> 1 \<and>
   rankings (getEmployeeRankings (pageFilters 2 1) rankingDb) =
     take 2 (allRankings (pageFilters 2 1) rankingDb) \<and>
   rankingSummary (allRankings (pageFilters 2 1) rankingDb) =
     [(ascii ''e90'', 90, 1), (ascii ''e70'', 70, 2), (ascii ''e50'', 50, 3)] \<and>
   hasNextPage (getEmployeeRankings (pageFilters 2 1) rankingDb) = ((1::int) * 2 < 3)"
proof -
  have a: "orElse (f_limit (pageFilters 2 1)) 50 = 2" "orElse (f_page (pageFilters 2 1)) 1 = 1"
    by (simp_all add: orElse_def pageFilters_def)
  have full: "rankingSummary (allRankings (pageFilters 2 1) rankingDb) =
     [(ascii ''e90'', 90, 1), (ascii ''e70'', 70, 2), (ascii ''e50'', 50, 3)]"
    by (simp add: allRankings_def employeeScores_def rankingStep_def
      rankingQuery_def departmentMatch_def roleMatch_def finalDepartments_def finalRoles_def
      defaultDepartments_def templateMaxScore_def newEmployee_def addToEmployee_def
      withPercentage_def byPercentageDesc_def addRanks_def js_sort_def
      orElse_def rankingSummary_def pageFilters_def rankingDb_def generatedEntry_def
      findTemplateById_def exampleTemplate_def percentage_item_def courtRef_def ascii_def
      enumerate_eq_zip Let_def)
  have "length (rankingSummary (allRankings (pageFilters 2 1) rankingDb)) = 3"
    by (simp only: full) simp
  then have len: "length (allRankings (pageFilters 2 1) rankingDb) = 3"
    by (simp add: rankingSummary_def)
  have l: "(1::int) \<le> 2" and p: "(1::int) \<le> 1"
    by simp_all
  note t = rankings_sorted_ranked_paginated [OF a(1) l a(2) p, of rankingDb]
  from t have "rankings (getEmployeeRankings (pageFilters 2 1) rankingDb) =
      take (nat 2) (drop (nat ((1 - 1) * 2)) (allRankings (pageFilters 2 1) rankingDb))"
    by (rule conjunct1)
  then have s: "rankings (getEmployeeRankings (pageFilters 2 1) rankingDb) =
     take 2 (allRankings (pageFilters 2 1) rankingDb)"
    by simp
  from t have "hasNextPage (getEmployeeRankings (pageFilters 2 1) rankingDb) =
     ((1::int) * 2 < int (length (allRankings (pageFilters 2 1) rankingDb)))"
    by blast
  then have n: "hasNextPage (getEmployeeRankings (pageFilters 2 1) rankingDb) = ((1::int) * 2 < 3)"
    by (simp only: len) simp
  from a l p s full n show ?thesis
    by (intro conjI)
qed

section \<open>CSV import: evaluation of the header tables\<close>

lemmas hi_defs =
  hi_TL_janadarshana_janashikaayata_PG_def hi_TL_janadarshana_janashikaayata_PG_v2_def
  hi_aanganabaadii_skula_piidiiesa_shopa_svaasthya_kendra_niriikshana_def
  hi_aanganabaadii_skuula_piidiiesa_shopa_svaasthya_kendra_niriikshana_def
  hi_aanganabaadii_skuula_piidiiesa_shopa_svaasthya_kendra_niriikshana_v2_def
  hi_aanganabaadii_skuula_piidiiesa_shopa_vikaasa_kaarya_niriikshana_def
  hi_aara_bii_sii_6_4_def hi_aara_bii_sii_6_4_v2_def hi_abhilekha_durustii_def
  hi_abhilekha_durustii_trutiyudhaara_def hi_adhikaarii_def hi_adhikaarii_kaa_naama_def
  hi_apiila_niraakarana_def hi_avaidha_utkhanana_atikramana_def
  hi_avaidha_utkhanana_atikramana_v2_def hi_jaati_pramaana_patra_def hi_jaati_pramaanapatra_def
  hi_khaataa_vibhaajana_def hi_khaataa_vibhaajana_vivaadita_avivaadita_def
  hi_kula_niraakarana_def hi_kula_prakaranon_kaa_niraakarana_def hi_kuula_niraakarana_def
  hi_naama_def hi_naamaantarana_def hi_naamaantarana_vivaadita_avivaadita_def
  hi_padaadhikaarii_def hi_piithaasiina_adhikaarii_def hi_piithaasiina_adhikaarii_kaa_naama_def
  hi_siimaankana_def hi_tii_ela_janadarshana_janashikaayata_loka_sevaa_def
  hi_tiiela_janadarshana_janashikaayata_piijii_def
  hi_tiiela_janadarshana_janashikaayata_piijii_v2_def hi_truti_sudhaara_def
  hi_truti_sudhaara_a_6_a_def hi_truti_sudhaara_a_6_a_v2_def hi_vividha_raajasva_maamale_def
  hi_vividha_raajasva_maamale_bii_121_def hi_vyapavartana_def hi_vyapavartana_a_2_def
  hi_vyapavartana_a_2_v2_def

lemma considerVariation_eval:
  "considerVariation n std best v =
     (if variationScore n v > (case best of None \<Rightarrow> 0 | Some b \<Rightarrow> bm_score b)
      then Some \<lparr>standardHeader = std, bm_variation = v, bm_score = variationScore n v\<rparr>
      else best)"
  by (auto simp: considerVariation_def Let_def split: option.splits)

lemma variationScore_eval:
  "variationScore n v =
     (if n = toLowerCase v then 100
      else if js_includes n (toLowerCase v) \<or> js_includes (toLowerCase v) n then 50 else 0)"
  by (simp add: variationScore_def Let_def)

lemma normalizeHeader_eval:
  "normalizeHeader header normalizations =
     map_option standardHeader
       (foldl (\<lambda>best (std, variations).
                 foldl (considerVariation (toLowerCase (trim header)) std) best variations)
          None normalizations)"
  by (simp add: normalizeHeader_def Let_def)

lemmas normalize_eval =
  normalizeHeader_eval considerVariation_eval variationScore_eval toLowerCase_def lower_unit_def
  trim_def is_js_space_def headerNormalizations_def ascii_def


lemma levCells_eval:
  "levCells c (x # xs) left (diag # up # prev) =
     min (min (left + 1) (up + 1)) (diag + (if x = c then 0 else 1)) #
     levCells c xs (min (min (left + 1) (up + 1)) (diag + (if x = c then 0 else 1))) (up # prev)"
  "levCells c [] left prev = []"
  "levCells c xs left [] = []"
  "levCells c xs left [d] = []"
  by (simp_all add: Let_def)

lemma calculateSimilarity_eval:
  "calculateSimilarity str1 str2 =
     (if length str1 > length str2
      then (if length str1 = 0 then 1
            else (of_nat (length str1) - of_nat (levenshteinDistance str1 str2)) / of_nat (length str1))
      else (if length str2 = 0 then 1
            else (of_nat (length str2) - of_nat (levenshteinDistance str2 str1)) / of_nat (length str2)))"
  by (simp add: calculateSimilarity_def Let_def)

lemmas similarity_eval =
  calculateSimilarity_eval levenshteinDistance_def levRow_def levCells_eval ascii_def


lemma nh_piithaasiina_adhikaarii:
  "normalizeHeader hi_piithaasiina_adhikaarii headerNormalizations = Some hi_piithaasiina_adhikaarii"
  by (simp add: normalize_eval hi_defs)

lemma nh_officer:
  "normalizeHeader (ascii ''officer'') headerNormalizations = Some hi_piithaasiina_adhikaarii"
  by (simp add: normalize_eval hi_defs)

lemma nh_court:
  "normalizeHeader (ascii ''court'') headerNormalizations = None"
  by (simp add: normalize_eval hi_defs)

lemma nh_account_division:
  "normalizeHeader (ascii ''account division'') headerNormalizations = Some hi_khaataa_vibhaajana_vivaadita_avivaadita"
  by (simp add: normalize_eval hi_defs)

lemma sim_account_division_piithaasiina_adhikaarii:
  "calculateSimilarity (ascii ''account division'') hi_piithaasiina_adhikaarii = 1 / 16"
  by (simp add: similarity_eval hi_defs del: levCells.simps)

lemma nh_khaataa_vibhaajana_vivaadita_avivaadita:
  "normalizeHeader hi_khaataa_vibhaajana_vivaadita_avivaadita headerNormalizations = Some hi_khaataa_vibhaajana_vivaadita_avivaadita"
  by (simp add: normalize_eval hi_defs)

lemma sim_officer_khaataa_vibhaajana_vivaadita_avivaadita:
  "calculateSimilarity (ascii ''officer'') hi_khaataa_vibhaajana_vivaadita_avivaadita = 0"
  by (simp add: similarity_eval hi_defs del: levCells.simps)

lemma nh_naamaantarana_vivaadita_avivaadita:
  "normalizeHeader hi_naamaantarana_vivaadita_avivaadita headerNormalizations = Some hi_naamaantarana_vivaadita_avivaadita"
  by (simp add: normalize_eval hi_defs)

lemma sim_officer_naamaantarana_vivaadita_avivaadita:
  "calculateSimilarity (ascii ''officer'') hi_naamaantarana_vivaadita_avivaadita = 0"
  by (simp add: similarity_eval hi_defs del: levCells.simps)

lemma sim_account_division_naamaantarana_vivaadita_avivaadita:
  "calculateSimilarity (ascii ''account division'') hi_naamaantarana_vivaadita_avivaadita = 1 / 29"
  by (simp add: similarity_eval hi_defs del: levCells.simps)

lemma nh_naamaantarana:
  "normalizeHeader hi_naamaantarana headerNormalizations = Some hi_naamaantarana_vivaadita_avivaadita"
  by (simp add: normalize_eval hi_defs)

lemma sim_officer_naamaantarana:
  "calculateSimilarity (ascii ''officer'') hi_naamaantarana = 0"
  by (simp add: similarity_eval hi_defs del: levCells.simps)

lemma sim_account_division_naamaantarana:
  "calculateSimilarity (ascii ''account division'') hi_naamaantarana = 0"
  by (simp add: similarity_eval hi_defs del: levCells.simps)

lemma nh_siimaankana:
  "normalizeHeader hi_siimaankana headerNormalizations = Some hi_siimaankana"
  by (simp add: normalize_eval hi_defs)

lemma sim_officer_siimaankana:
  "calculateSimilarity (ascii ''officer'') hi_siimaankana = 0"
  by (simp add: similarity_eval hi_defs del: levCells.simps)

lemma sim_account_division_siimaankana:
  "calculateSimilarity (ascii ''account division'') hi_siimaankana = 0"
  by (simp add: similarity_eval hi_defs del: levCells.simps)

lemma nh_vividha_raajasva_maamale_bii_121:
  "normalizeHeader hi_vividha_raajasva_maamale_bii_121 headerNormalizations = Some hi_vividha_raajasva_maamale_bii_121"
  by (simp add: normalize_eval hi_defs)

lemma sim_officer_vividha_raajasva_maamale_bii_121:
  "calculateSimilarity (ascii ''officer'') hi_vividha_raajasva_maamale_bii_121 = 0"
  by (simp add: similarity_eval hi_defs del: levCells.simps)

lemma sim_account_division_vividha_raajasva_maamale_bii_121:
  "calculateSimilarity (ascii ''account division'') hi_vividha_raajasva_maamale_bii_121 = 1 / 27"
  by (simp add: similarity_eval hi_defs del: levCells.simps)

lemma nh_vividha_raajasva_maamale:
  "normalizeHeader hi_vividha_raajasva_maamale headerNormalizations = Some hi_vividha_raajasva_maamale_bii_121"
  by (simp add: normalize_eval hi_defs)

lemma sim_officer_vividha_raajasva_maamale:
  "calculateSimilarity (ascii ''officer'') hi_vividha_raajasva_maamale = 0"
  by (simp add: similarity_eval hi_defs del: levCells.simps)

lemma sim_account_division_vividha_raajasva_maamale:
  "calculateSimilarity (ascii ''account division'') hi_vividha_raajasva_maamale = 0"
  by (simp add: similarity_eval hi_defs del: levCells.simps)

lemma nh_kuula_niraakarana:
  "normalizeHeader hi_kuula_niraakarana headerNormalizations = Some hi_kula_niraakarana"
  by (simp add: normalize_eval hi_defs)

lemma sim_officer_kuula_niraakarana:
  "calculateSimilarity (ascii ''officer'') hi_kuula_niraakarana = 0"
  by (simp add: similarity_eval hi_defs del: levCells.simps)

lemma sim_account_division_kuula_niraakarana:
  "calculateSimilarity (ascii ''account division'') hi_kuula_niraakarana = 1 / 16"
  by (simp add: similarity_eval hi_defs del: levCells.simps)

lemma nh_kula_niraakarana:
  "normalizeHeader hi_kula_niraakarana headerNormalizations = Some hi_kula_niraakarana"
  by (simp add: normalize_eval hi_defs)

lemma sim_officer_kula_niraakarana:
  "calculateSimilarity (ascii ''officer'') hi_kula_niraakarana = 0"
  by (simp add: similarity_eval hi_defs del: levCells.simps)

lemma sim_account_division_kula_niraakarana:
  "calculateSimilarity (ascii ''account division'') hi_kula_niraakarana = 1 / 16"
  by (simp add: similarity_eval hi_defs del: levCells.simps)

lemma nh_jaati_pramaana_patra:
  "normalizeHeader hi_jaati_pramaana_patra headerNormalizations = Some hi_jaati_pramaanapatra"
  by (simp add: normalize_eval hi_defs)

lemma sim_officer_jaati_pramaana_patra:
  "calculateSimilarity (ascii ''officer'') hi_jaati_pramaana_patra = 0"
  by (simp add: similarity_eval hi_defs del: levCells.simps)

lemma sim_account_division_jaati_pramaana_patra:
  "calculateSimilarity (ascii ''account division'') hi_jaati_pramaana_patra = 0"
  by (simp add: similarity_eval hi_defs del: levCells.simps)

lemma nh_jaati_pramaanapatra:
  "normalizeHeader hi_jaati_pramaanapatra headerNormalizations = Some hi_jaati_pramaanapatra"
  by (simp add: normalize_eval hi_defs)

lemma sim_officer_jaati_pramaanapatra:
  "calculateSimilarity (ascii ''officer'') hi_jaati_pramaanapatra = 0"
  by (simp add: similarity_eval hi_defs del: levCells.simps)

lemma sim_account_division_jaati_pramaanapatra:
  "calculateSimilarity (ascii ''account division'') hi_jaati_pramaanapatra = 0"
  by (simp add: similarity_eval hi_defs del: levCells.simps)

lemma nh_avaidha_utkhanana_atikramana_v2:
  "normalizeHeader hi_avaidha_utkhanana_atikramana_v2 headerNormalizations = Some hi_avaidha_utkhanana_atikramana"
  by (simp add: normalize_eval hi_defs)

lemma sim_officer_avaidha_utkhanana_atikramana_v2:
  "calculateSimilarity (ascii ''officer'') hi_avaidha_utkhanana_atikramana_v2 = 0"
  by (simp add: similarity_eval hi_defs del: levCells.simps)

lemma sim_account_division_avaidha_utkhanana_atikramana_v2:
  "calculateSimilarity (ascii ''account division'') hi_avaidha_utkhanana_atikramana_v2 = 1 / 21"
  by (simp add: similarity_eval hi_defs del: levCells.simps)

lemma nh_avaidha_utkhanana_atikramana:
  "normalizeHeader hi_avaidha_utkhanana_atikramana headerNormalizations = Some hi_avaidha_utkhanana_atikramana"
  by (simp add: normalize_eval hi_defs)

lemma sim_officer_avaidha_utkhanana_atikramana:
  "calculateSimilarity (ascii ''officer'') hi_avaidha_utkhanana_atikramana = 0"
  by (simp add: similarity_eval hi_defs del: levCells.simps)

lemma sim_account_division_avaidha_utkhanana_atikramana:
  "calculateSimilarity (ascii ''account division'') hi_avaidha_utkhanana_atikramana = 0"
  by (simp add: similarity_eval hi_defs del: levCells.simps)

lemma nh_aara_bii_sii_6_4:
  "normalizeHeader hi_aara_bii_sii_6_4 headerNormalizations = Some hi_aara_bii_sii_6_4"
  by (simp add: normalize_eval hi_defs)

lemma sim_officer_aara_bii_sii_6_4:
  "calculateSimilarity (ascii ''officer'') hi_aara_bii_sii_6_4 = 0"
  by (simp add: similarity_eval hi_defs del: levCells.simps)

lemma sim_account_division_aara_bii_sii_6_4:
  "calculateSimilarity (ascii ''account division'') hi_aara_bii_sii_6_4 = 1 / 16"
  by (simp add: similarity_eval hi_defs del: levCells.simps)

lemma nh_RBC_6_4:
  "normalizeHeader (ascii ''RBC 6(4)'') headerNormalizations = Some hi_aara_bii_sii_6_4"
  by (simp add: normalize_eval hi_defs)

lemma sim_officer_RBC_6_4:
  "calculateSimilarity (ascii ''officer'') (ascii ''RBC 6(4)'') = 0"
  by (simp add: similarity_eval hi_defs del: levCells.simps)

lemma sim_account_division_RBC_6_4:
  "calculateSimilarity (ascii ''account division'') (ascii ''RBC 6(4)'') = 1 / 16"
  by (simp add: similarity_eval hi_defs del: levCells.simps)

lemma nh_tii_ela_janadarshana_janashikaayata_loka_sevaa:
  "normalizeHeader hi_tii_ela_janadarshana_janashikaayata_loka_sevaa headerNormalizations = Some hi_tiiela_janadarshana_janashikaayata_piijii"
  by (simp add: normalize_eval hi_defs)

lemma sim_officer_tii_ela_janadarshana_janashikaayata_loka_sevaa:
  "calculateSimilarity (ascii ''officer'') hi_tii_ela_janadarshana_janashikaayata_loka_sevaa = 0"
  by (simp add: similarity_eval hi_defs del: levCells.simps)

lemma sim_account_division_tii_ela_janadarshana_janashikaayata_loka_sevaa:
  "calculateSimilarity (ascii ''account division'') hi_tii_ela_janadarshana_janashikaayata_loka_sevaa = 1 / 35"
  by (simp add: similarity_eval hi_defs del: levCells.simps)

lemma nh_tiiela_janadarshana_janashikaayata_piijii:
  "normalizeHeader hi_tiiela_janadarshana_janashikaayata_piijii headerNormalizations = Some hi_tiiela_janadarshana_janashikaayata_piijii"
  by (simp add: normalize_eval hi_defs)

lemma sim_officer_tiiela_janadarshana_janashikaayata_piijii:
  "calculateSimilarity (ascii ''officer'') hi_tiiela_janadarshana_janashikaayata_piijii = 0"
  by (simp add: similarity_eval hi_defs del: levCells.simps)

lemma sim_account_division_tiiela_janadarshana_janashikaayata_piijii:
  "calculateSimilarity (ascii ''account division'') hi_tiiela_janadarshana_janashikaayata_piijii = 0"
  by (simp add: similarity_eval hi_defs del: levCells.simps)

lemma nh_disposal:
  "normalizeHeader (ascii ''disposal'') headerNormalizations = Some hi_vyapavartana"
  by (simp add: normalize_eval hi_defs)

lemma sim_disposal_piithaasiina_adhikaarii:
  "calculateSimilarity (ascii ''disposal'') hi_piithaasiina_adhikaarii = 0"
  by (simp add: similarity_eval hi_defs del: levCells.simps)

lemma nh_vyapavartana:
  "normalizeHeader hi_vyapavartana headerNormalizations = Some hi_vyapavartana"
  by (simp add: normalize_eval hi_defs)

lemma sim_officer_vyapavartana:
  "calculateSimilarity (ascii ''officer'') hi_vyapavartana = 0"
  by (simp add: similarity_eval hi_defs del: levCells.simps)

lemma nh_abhilekha_durustii_trutiyudhaara:
  "normalizeHeader hi_abhilekha_durustii_trutiyudhaara headerNormalizations = Some hi_abhilekha_durustii_trutiyudhaara"
  by (simp add: normalize_eval hi_defs)

lemma sim_officer_abhilekha_durustii_trutiyudhaara:
  "calculateSimilarity (ascii ''officer'') hi_abhilekha_durustii_trutiyudhaara = 0"
  by (simp add: similarity_eval hi_defs del: levCells.simps)

lemma sim_disposal_abhilekha_durustii_trutiyudhaara:
  "calculateSimilarity (ascii ''disposal'') hi_abhilekha_durustii_trutiyudhaara = 0"
  by (simp add: similarity_eval hi_defs del: levCells.simps)

lemma nh_apiila_niraakarana:
  "normalizeHeader hi_apiila_niraakarana headerNormalizations = Some hi_apiila_niraakarana"
  by (simp add: normalize_eval hi_defs)

lemma sim_officer_apiila_niraakarana:
  "calculateSimilarity (ascii ''officer'') hi_apiila_niraakarana = 0"
  by (simp add: similarity_eval hi_defs del: levCells.simps)

lemma sim_disposal_apiila_niraakarana:
  "calculateSimilarity (ascii ''disposal'') hi_apiila_niraakarana = 0"
  by (simp add: similarity_eval hi_defs del: levCells.simps)

lemma nh_kula_prakaranon_kaa_niraakarana:
  "normalizeHeader hi_kula_prakaranon_kaa_niraakarana headerNormalizations = None"
  by (simp add: normalize_eval hi_defs)

lemma sim_disposal_jaati_pramaanapatra:
  "calculateSimilarity (ascii ''disposal'') hi_jaati_pramaanapatra = 0"
  by (simp add: similarity_eval hi_defs del: levCells.simps)

lemma nh_aanganabaadii_skuula_piidiiesa_shopa_vikaasa_kaarya_niriikshana:
  "normalizeHeader hi_aanganabaadii_skuula_piidiiesa_shopa_vikaasa_kaarya_niriikshana headerNormalizations = Some hi_aanganabaadii_skuula_piidiiesa_shopa_vikaasa_kaarya_niriikshana"
  by (simp add: normalize_eval hi_defs)

lemma sim_officer_aanganabaadii_skuula_piidiiesa_shopa_vikaasa_kaarya_niriikshana:
  "calculateSimilarity (ascii ''officer'') hi_aanganabaadii_skuula_piidiiesa_shopa_vikaasa_kaarya_niriikshana = 0"
  by (simp add: similarity_eval hi_defs del: levCells.simps)

lemma sim_disposal_aanganabaadii_skuula_piidiiesa_shopa_vikaasa_kaarya_niriikshana:
  "calculateSimilarity (ascii ''disposal'') hi_aanganabaadii_skuula_piidiiesa_shopa_vikaasa_kaarya_niriikshana = 0"
  by (simp add: similarity_eval hi_defs del: levCells.simps)

lemma sim_disposal_RBC_6_4:
  "calculateSimilarity (ascii ''disposal'') (ascii ''RBC 6(4)'') = 0"
  by (simp add: similarity_eval hi_defs del: levCells.simps)

lemma sim_disposal_tiiela_janadarshana_janashikaayata_piijii:
  "calculateSimilarity (ascii ''disposal'') hi_tiiela_janadarshana_janashikaayata_piijii = 0"
  by (simp add: similarity_eval hi_defs del: levCells.simps)

lemmas header_facts =
  nh_RBC_6_4 nh_aanganabaadii_skuula_piidiiesa_shopa_vikaasa_kaarya_niriikshana
  nh_aara_bii_sii_6_4 nh_abhilekha_durustii_trutiyudhaara nh_account_division
  nh_apiila_niraakarana nh_avaidha_utkhanana_atikramana nh_avaidha_utkhanana_atikramana_v2
  nh_court nh_disposal nh_jaati_pramaana_patra nh_jaati_pramaanapatra
  nh_khaataa_vibhaajana_vivaadita_avivaadita nh_kula_niraakarana
  nh_kula_prakaranon_kaa_niraakarana nh_kuula_niraakarana nh_naamaantarana
  nh_naamaantarana_vivaadita_avivaadita nh_officer nh_piithaasiina_adhikaarii nh_siimaankana
  nh_tii_ela_janadarshana_janashikaayata_loka_sevaa
  nh_tiiela_janadarshana_janashikaayata_piijii nh_vividha_raajasva_maamale
  nh_vividha_raajasva_maamale_bii_121 nh_vyapavartana sim_account_division_RBC_6_4
  sim_account_division_aara_bii_sii_6_4 sim_account_division_avaidha_utkhanana_atikramana
  sim_account_division_avaidha_utkhanana_atikramana_v2
  sim_account_division_jaati_pramaana_patra sim_account_division_jaati_pramaanapatra
  sim_account_division_kula_niraakarana sim_account_division_kuula_niraakarana
  sim_account_division_naamaantarana sim_account_division_naamaantarana_vivaadita_avivaadita
  sim_account_division_piithaasiina_adhikaarii sim_account_division_siimaankana
  sim_account_division_tii_ela_janadarshana_janashikaayata_loka_sevaa
  sim_account_division_tiiela_janadarshana_janashikaayata_piijii
  sim_account_division_vividha_raajasva_maamale
  sim_account_division_vividha_raajasva_maamale_bii_121 sim_disposal_RBC_6_4
  sim_disposal_aanganabaadii_skuula_piidiiesa_shopa_vikaasa_kaarya_niriikshana
  sim_disposal_abhilekha_durustii_trutiyudhaara sim_disposal_apiila_niraakarana
  sim_disposal_jaati_pramaanapatra sim_disposal_piithaasiina_adhikaarii
  sim_disposal_tiiela_janadarshana_janashikaayata_piijii sim_officer_RBC_6_4
  sim_officer_aanganabaadii_skuula_piidiiesa_shopa_vikaasa_kaarya_niriikshana
  sim_officer_aara_bii_sii_6_4 sim_officer_abhilekha_durustii_trutiyudhaara
  sim_officer_apiila_niraakarana sim_officer_avaidha_utkhanana_atikramana
  sim_officer_avaidha_utkhanana_atikramana_v2 sim_officer_jaati_pramaana_patra
  sim_officer_jaati_pramaanapatra sim_officer_khaataa_vibhaajana_vivaadita_avivaadita
  sim_officer_kula_niraakarana sim_officer_kuula_niraakarana sim_officer_naamaantarana
  sim_officer_naamaantarana_vivaadita_avivaadita sim_officer_siimaankana
  sim_officer_tii_ela_janadarshana_janashikaayata_loka_sevaa
  sim_officer_tiiela_janadarshana_janashikaayata_piijii sim_officer_vividha_raajasva_maamale
  sim_officer_vividha_raajasva_maamale_bii_121 sim_officer_vyapavartana

lemma ascii_lits:
  "ascii ''officer'' = [111, 102, 102, 105, 99, 101, 114]"
  "ascii ''court'' = [99, 111, 117, 114, 116]"
  "ascii ''account division'' = [97, 99, 99, 111, 117, 110, 116, 32, 100, 105, 118, 105, 115, 105, 111, 110]"
  "ascii ''RBC 6(4)'' = [82, 66, 67, 32, 54, 40, 52, 41]"
  "ascii ''disposal'' = [100, 105, 115, 112, 111, 115, 97, 108]"
  by (simp_all add: ascii_def)


lemma ascii_lits_more:
  "ascii ''officerName'' = [111, 102, 102, 105, 99, 101, 114, 78, 97, 109, 101]"
  "ascii ''revenue-department'' =
     [114, 101, 118, 101, 110, 117, 101, 45, 100, 101, 112, 97, 114, 116, 109, 101, 110, 116]"
  "ascii ''tehsildar'' = [116, 101, 104, 115, 105, 108, 100, 97, 114]"
  "ascii ''sdm'' = [115, 100, 109]"
  by (simp_all add: ascii_def)


lemma considerHeader_eval:
  "considerHeader targetHeader normalizedTarget normalizations best header =
     (if header = [] \<or> trim header = [] then best
      else
        (case normalizeHeader header normalizations of
           None \<Rightarrow> best
         | Some nh \<Rightarrow>
             if nh = normalizedTarget then
               (if 1 > snd best
                then (Some \<lparr>originalHeader = header, normalizedHeader = nh, confidence = 1\<rparr>, 1)
                else best)
             else if nh \<noteq> [] \<and> calculateSimilarity header targetHeader > 7 / 10 then
               (if calculateSimilarity header targetHeader > snd best
                then (Some \<lparr>originalHeader = header, normalizedHeader = nh,
                             confidence = calculateSimilarity header targetHeader\<rparr>,
                      calculateSimilarity header targetHeader)
                else best)
             else best))"
  by (auto simp: considerHeader_def Let_def split: option.splits)

lemmas header_facts_unfolded = header_facts [unfolded ascii_lits hi_defs]

lemmas header_match_eval =
  findBestHeaderMatch_def considerHeader_eval tehsildarHeaders_def sdmHeaders_def ascii_def hi_defs
  trim_def is_js_space_def header_facts_unfolded


lemma fbm_tehsildar_piithaasiina_adhikaarii:
  "findBestHeaderMatch hi_piithaasiina_adhikaarii tehsildarHeaders headerNormalizations =
     Some \<lparr>originalHeader = ascii ''officer'', normalizedHeader = hi_piithaasiina_adhikaarii, confidence = 1\<rparr>"
  by (simp add: header_match_eval)

lemma fbm_tehsildar_khaataa_vibhaajana_vivaadita_avivaadita:
  "findBestHeaderMatch hi_khaataa_vibhaajana_vivaadita_avivaadita tehsildarHeaders headerNormalizations =
     Some \<lparr>originalHeader = ascii ''account division'', normalizedHeader = hi_khaataa_vibhaajana_vivaadita_avivaadita, confidence = 1\<rparr>"
  by (simp add: header_match_eval)

lemma fbm_tehsildar_naamaantarana_vivaadita_avivaadita:
  "findBestHeaderMatch hi_naamaantarana_vivaadita_avivaadita tehsildarHeaders headerNormalizations =
     None"
  by (simp add: header_match_eval)

lemma fbm_tehsildar_naamaantarana:
  "findBestHeaderMatch hi_naamaantarana tehsildarHeaders headerNormalizations =
     None"
  by (simp add: header_match_eval)

lemma fbm_tehsildar_siimaankana:
  "findBestHeaderMatch hi_siimaankana tehsildarHeaders headerNormalizations =
     None"
  by (simp add: header_match_eval)

lemma fbm_tehsildar_vividha_raajasva_maamale_bii_121:
  "findBestHeaderMatch hi_vividha_raajasva_maamale_bii_121 tehsildarHeaders headerNormalizations =
     None"
  by (simp add: header_match_eval)

lemma fbm_tehsildar_vividha_raajasva_maamale:
  "findBestHeaderMatch hi_vividha_raajasva_maamale tehsildarHeaders headerNormalizations =
     None"
  by (simp add: header_match_eval)

lemma fbm_tehsildar_kuula_niraakarana:
  "findBestHeaderMatch hi_kuula_niraakarana tehsildarHeaders headerNormalizations =
     None"
  by (simp add: header_match_eval)

lemma fbm_tehsildar_kula_niraakarana:
  "findBestHeaderMatch hi_kula_niraakarana tehsildarHeaders headerNormalizations =
     None"
  by (simp add: header_match_eval)

lemma fbm_tehsildar_jaati_pramaana_patra:
  "findBestHeaderMatch hi_jaati_pramaana_patra tehsildarHeaders headerNormalizations =
     None"
  by (simp add: header_match_eval)

lemma fbm_tehsildar_jaati_pramaanapatra:
  "findBestHeaderMatch hi_jaati_pramaanapatra tehsildarHeaders headerNormalizations =
     None"
  by (simp add: header_match_eval)

lemma fbm_tehsildar_avaidha_utkhanana_atikramana_v2:
  "findBestHeaderMatch hi_avaidha_utkhanana_atikramana_v2 tehsildarHeaders headerNormalizations =
     None"
  by (simp add: header_match_eval)

lemma fbm_tehsildar_avaidha_utkhanana_atikramana:
  "findBestHeaderMatch hi_avaidha_utkhanana_atikramana tehsildarHeaders headerNormalizations =
     None"
  by (simp add: header_match_eval)

lemma fbm_tehsildar_aara_bii_sii_6_4:
  "findBestHeaderMatch hi_aara_bii_sii_6_4 tehsildarHeaders headerNormalizations =
     None"
  by (simp add: header_match_eval)

lemma fbm_tehsildar_RBC_6_4:
  "findBestHeaderMatch (ascii ''RBC 6(4)'') tehsildarHeaders headerNormalizations =
     None"
  by (simp add: header_match_eval)

lemma fbm_tehsildar_tii_ela_janadarshana_janashikaayata_loka_sevaa:
  "findBestHeaderMatch hi_tii_ela_janadarshana_janashikaayata_loka_sevaa tehsildarHeaders headerNormalizations =
     None"
  by (simp add: header_match_eval)

lemma fbm_tehsildar_tiiela_janadarshana_janashikaayata_piijii:
  "findBestHeaderMatch hi_tiiela_janadarshana_janashikaayata_piijii tehsildarHeaders headerNormalizations =
     None"
  by (simp add: header_match_eval)

lemma fbm_sdm_piithaasiina_adhikaarii:
  "findBestHeaderMatch hi_piithaasiina_adhikaarii sdmHeaders headerNormalizations =
     Some \<lparr>originalHeader = ascii ''officer'', normalizedHeader = hi_piithaasiina_adhikaarii, confidence = 1\<rparr>"
  by (simp add: header_match_eval)

lemma fbm_sdm_vyapavartana:
  "findBestHeaderMatch hi_vyapavartana sdmHeaders headerNormalizations =
     Some \<lparr>originalHeader = ascii ''disposal'', normalizedHeader = hi_vyapavartana, confidence = 1\<rparr>"
  by (simp add: header_match_eval)

lemma fbm_sdm_abhilekha_durustii_trutiyudhaara:
  "findBestHeaderMatch hi_abhilekha_durustii_trutiyudhaara sdmHeaders headerNormalizations =
     None"
  by (simp add: header_match_eval)

lemma fbm_sdm_apiila_niraakarana:
  "findBestHeaderMatch hi_apiila_niraakarana sdmHeaders headerNormalizations =
     None"
  by (simp add: header_match_eval)

lemma fbm_sdm_kula_prakaranon_kaa_niraakarana:
  "findBestHeaderMatch hi_kula_prakaranon_kaa_niraakarana sdmHeaders headerNormalizations =
     None"
  by (simp add: header_match_eval)

lemma fbm_sdm_jaati_pramaanapatra:
  "findBestHeaderMatch hi_jaati_pramaanapatra sdmHeaders headerNormalizations =
     None"
  by (simp add: header_match_eval)

lemma fbm_sdm_aanganabaadii_skuula_piidiiesa_shopa_vikaasa_kaarya_niriikshana:
  "findBestHeaderMatch hi_aanganabaadii_skuula_piidiiesa_shopa_vikaasa_kaarya_niriikshana sdmHeaders headerNormalizations =
     None"
  by (simp add: header_match_eval)

lemma fbm_sdm_RBC_6_4:
  "findBestHeaderMatch (ascii ''RBC 6(4)'') sdmHeaders headerNormalizations =
     None"
  by (simp add: header_match_eval)

lemma fbm_sdm_tiiela_janadarshana_janashikaayata_piijii:
  "findBestHeaderMatch hi_tiiela_janadarshana_janashikaayata_piijii sdmHeaders headerNormalizations =
     None"
  by (simp add: header_match_eval)

lemmas tehsildar_matches =
  fbm_tehsildar_piithaasiina_adhikaarii fbm_tehsildar_khaataa_vibhaajana_vivaadita_avivaadita
  fbm_tehsildar_naamaantarana_vivaadita_avivaadita fbm_tehsildar_naamaantarana
  fbm_tehsildar_siimaankana fbm_tehsildar_vividha_raajasva_maamale_bii_121
  fbm_tehsildar_vividha_raajasva_maamale fbm_tehsildar_kuula_niraakarana
  fbm_tehsildar_kula_niraakarana fbm_tehsildar_jaati_pramaana_patra
  fbm_tehsildar_jaati_pramaanapatra fbm_tehsildar_avaidha_utkhanana_atikramana_v2
  fbm_tehsildar_avaidha_utkhanana_atikramana fbm_tehsildar_aara_bii_sii_6_4
  fbm_tehsildar_RBC_6_4 fbm_tehsildar_tii_ela_janadarshana_janashikaayata_loka_sevaa
  fbm_tehsildar_tiiela_janadarshana_janashikaayata_piijii

lemmas sdm_matches =
  fbm_sdm_piithaasiina_adhikaarii fbm_sdm_vyapavartana fbm_sdm_abhilekha_durustii_trutiyudhaara
  fbm_sdm_apiila_niraakarana fbm_sdm_kula_prakaranon_kaa_niraakarana
  fbm_sdm_jaati_pramaanapatra
  fbm_sdm_aanganabaadii_skuula_piidiiesa_shopa_vikaasa_kaarya_niriikshana fbm_sdm_RBC_6_4
  fbm_sdm_tiiela_janadarshana_janashikaayata_piijii

section \<open>CSV import: header mapping and rows\<close>

lemma createHeaderMapping_eval:
  "createHeaderMapping headers dept role =
     (case map_of csvParserConfigs (configKey dept role) of
        None \<Rightarrow> Inl (NoCsvConfig (configKey dept role))
      | Some config \<Rightarrow>
          Inr (foldl (\<lambda>headerMapping (kpiName, mapping).
                       case firstSearchTermMatch (searchTerms mapping) headers of
                         Some kpiMatch \<Rightarrow> map_set kpiName kpiMatch headerMapping
                       | None \<Rightarrow> headerMapping)
                 (case findBestHeaderMatch (officerNameColumn config) headers headerNormalizations of
                    Some m \<Rightarrow> [(ascii ''officerName'', m)]
                  | None \<Rightarrow> [])
                 (kpiMappings config)))"
  by (simp add: createHeaderMapping_def Let_def split: option.splits)

lemma floor_rat_numeral:
  "\<lfloor>(numeral a :: rat) / numeral b\<rfloor> = numeral a div numeral b"
  using floor_divide_of_int_eq [of "numeral a" "numeral b", where ?'a = rat] by simp

lemmas tehsildar_matches_unfolded =
  tehsildar_matches [unfolded tehsildarHeaders_def ascii_lits hi_defs]

lemmas sdm_matches_unfolded =
  sdm_matches [unfolded sdmHeaders_def ascii_lits hi_defs]

lemmas mapping_eval =
  createHeaderMapping_eval configKey_def csvParserConfigs_def tehsildarConfig_def sdmConfig_def
  tehsildarHeaders_def sdmHeaders_def ascii_def hi_defs

lemma tehsildar_header_mapping:
  "createHeaderMapping tehsildarHeaders (ascii ''revenue-department'') (ascii ''tehsildar'') =
     Inr [(ascii ''officerName'',
           \<lparr>originalHeader = ascii ''officer'', normalizedHeader = hi_piithaasiina_adhikaarii,
            confidence = 1\<rparr>),
          (hi_khaataa_vibhaajana_vivaadita_avivaadita,
           \<lparr>originalHeader = ascii ''account division'',
            normalizedHeader = hi_khaataa_vibhaajana_vivaadita_avivaadita, confidence = 1\<rparr>)]"
  by (simp add: mapping_eval tehsildar_matches_unfolded)

lemma sdm_header_mapping:
  "createHeaderMapping sdmHeaders (ascii ''revenue-department'') (ascii ''sdm'') =
     Inr [(ascii ''officerName'',
           \<lparr>originalHeader = ascii ''officer'', normalizedHeader = hi_piithaasiina_adhikaarii,
            confidence = 1\<rparr>),
          (hi_vyapavartana,
           \<lparr>originalHeader = ascii ''disposal'', normalizedHeader = hi_vyapavartana,
            confidence = 1\<rparr>)]"
  by (simp add: mapping_eval sdm_matches_unfolded)

lemmas cell_eval =
  parseInt_def Let_def is_js_space_def is_digit_def digit_of_def digits_value_def orElse_def
  percentageOf_def round2_def floor_rat_numeral nth_opt_def trim_def

lemmas extract_eval =
  extractPercentageWithMapping_def indexOf_def csvParserConfigs_def tehsildarConfig_def sdmConfig_def
  cell_eval
  ascii_def hi_defs

lemma tehsildar_first_kpi_extracted:
  "extractPercentageWithMapping dataRow tehsildarHeaders
     \<lparr>originalHeader = ascii ''account division'',
      normalizedHeader = hi_khaataa_vibhaajana_vivaadita_avivaadita, confidence = 1\<rparr>
     hi_khaataa_vibhaajana_vivaadita_avivaadita = Some 96"
  by (simp add: extract_eval dataRow_def tehsildarHeaders_def)

lemma sdm_first_kpi_not_extracted:
  "extractPercentageWithMapping dataRow sdmHeaders
     \<lparr>originalHeader = ascii ''disposal'', normalizedHeader = hi_vyapavartana, confidence = 1\<rparr>
     hi_vyapavartana = None"
  by (simp add: extract_eval dataRow_def sdmHeaders_def)


lemmas header_mappings_unfolded =
  tehsildar_header_mapping [unfolded tehsildarHeaders_def ascii_lits ascii_lits_more hi_defs]
  sdm_header_mapping [unfolded sdmHeaders_def ascii_lits ascii_lits_more hi_defs]

lemmas parse_eval =
  parseCsvData_def parseLine_def extractKpi_def extractPercentageWithMapping_def indexOf_def
  List.map_filter_simps configKey_def csvParserConfigs_def tehsildarConfig_def sdmConfig_def
  cell_eval ascii_def hi_defs header_mappings_unfolded

lemma two_line_csv_parsed:
  "parseCsvData twoLineCsv (ascii ''revenue-department'') (ascii ''tehsildar'') =
     Inr [\<lparr>officerName = ascii ''Ram'', courtName = Some (ascii ''Court1''),
           kpiValues = [(hi_khaataa_vibhaajana_vivaadita_avivaadita, 96)]\<rparr>]"
  by (simp add: parse_eval twoLineCsv_def)

lemma sdm_csv_parsed:
  "parseCsvData sdmCsv (ascii ''revenue-department'') (ascii ''sdm'') = Inr []"
  by (simp add: parse_eval sdmCsv_def)


section \<open>CSV import: the header policy\<close>

lemma fold_variations:
  "foldl (considerVariation n std) b vs =
   foldl (\<lambda>best p. considerVariation n (fst p) best (snd p)) b (map (Pair std) vs)"
  by (induction vs arbitrary: b) simp_all

lemma fold_table:
  "foldl (\<lambda>best (std, variations). foldl (considerVariation n std) best variations) b table =
   foldl (\<lambda>best p. considerVariation n (fst p) best (snd p)) b (variantPairs table)"
proof (induction table arbitrary: b)
  case Nil
  then show ?case by (simp add: variantPairs_def)
next
  case (Cons e table)
  obtain std vs where e: "e = (std, vs)"
    by (cases e)
  have "variantPairs (e # table) = map (Pair std) vs @ variantPairs table"
    by (simp add: variantPairs_def e)
  then show ?case
    using Cons.IH by (simp add: e fold_variations)
qed

lemma best_of_pairs:
  "foldl (\<lambda>best p. considerVariation n (fst p) best (snd p)) b ps =
     (if foldr max (map (\<lambda>p. variationScore n (snd p)) ps) 0 \<le> (case b of None \<Rightarrow> 0 | Some x \<Rightarrow> bm_score x)
      then b
      else map_option
             (\<lambda>p. \<lparr>standardHeader = fst p, bm_variation = snd p, bm_score = variationScore n (snd p)\<rparr>)
             (find (\<lambda>p. variationScore n (snd p) = foldr max (map (\<lambda>p. variationScore n (snd p)) ps) 0) ps))"
proof (induction ps arbitrary: b)
  case Nil
  then show ?case by simp
next
  case (Cons p ps)
  let ?sc = "\<lambda>p. variationScore n (snd p)"
  let ?M' = "foldr max (map ?sc ps) 0"
  let ?bs = "case b of None \<Rightarrow> 0 | Some x \<Rightarrow> bm_score x"
  show ?case
  proof (cases "?sc p > ?bs")
    case True
    then have step: "considerVariation n (fst p) b (snd p) =
        Some \<lparr>standardHeader = fst p, bm_variation = snd p, bm_score = ?sc p\<rparr>"
      by (simp add: considerVariation_eval)
    show ?thesis
      using True by (simp add: step Cons.IH max_def)
  next
    case False
    then have step: "considerVariation n (fst p) b (snd p) = b"
      by (simp add: considerVariation_eval)
    show ?thesis
      using False by (simp add: step Cons.IH max_def)
  qed
qed

lemma variationScore_policy: "variationScore (toLowerCase (trim h)) v = policyScore (trim h) v"
  by (simp add: variationScore_eval policyScore_def)

lemma normalizeHeader_policy: "normalizeHeader header table = policyNormalize (trim header) table"
proof -
  let ?n = "toLowerCase (trim header)"
  let ?ps = "variantPairs table"
  have "normalizeHeader header table =
      map_option standardHeader (foldl (\<lambda>best p. considerVariation ?n (fst p) best (snd p)) None ?ps)"
    by (simp add: normalizeHeader_eval fold_table)
  also have "\<dots> = policyNormalize (trim header) table"
    unfolding best_of_pairs
    by (simp add: policyNormalize_def bestScore_def option.map_comp comp_def
        variationScore_policy)
  finally show ?thesis .
qed

lemma foldr_max_zero: "(foldr max (xs :: nat list) 0 = 0) = (\<forall>x\<in>set xs. x = 0)"
  by (induction xs) (auto simp: max_def)


lemma score_le_best:
  "q \<in> set ps \<Longrightarrow> f q \<le> foldr max (map f ps) (0::nat)"
  by (induction ps) (auto simp: max_def)

lemma best_attained:
  "foldr max (map f ps) (0::nat) \<noteq> 0 \<Longrightarrow> \<exists>q\<in>set ps. f q = foldr max (map f ps) 0"
  by (induction ps) (auto simp: max_def)

lemma find_first_split:
  "find P xs = Some x \<Longrightarrow> \<exists>pre post. xs = pre @ x # post \<and> P x \<and> (\<forall>q\<in>set pre. \<not> P q)"
proof (induction xs)
  case Nil
  then show ?case by simp
next
  case (Cons y ys)
  show ?case
  proof (cases "P y")
    case True
    with Cons.prems have "x = y" by simp
    with True show ?thesis
      by (intro exI [of _ "[]"] exI [of _ ys]) simp
  next
    case False
    with Cons.prems have "find P ys = Some x" by simp
    from Cons.IH [OF this] obtain pre post where
      "ys = pre @ x # post" "P x" "\<forall>q\<in>set pre. \<not> P q"
      by blast
    with False show ?thesis
      by (intro exI [of _ "y # pre"] exI [of _ post]) simp
  qed
qed

lemma caste_certificate_ordinals:
  "indexOf (map fst (kpiMappings sdmConfig)) hi_jaati_pramaanapatra = Some 4 \<and>
   indexOf (map fst (kpiMappings tehsildarConfig)) hi_jaati_pramaanapatra = Some 5"
  by (simp add: indexOf_def sdmConfig_def tehsildarConfig_def hi_defs ascii_def)

lemma caste_certificate_cells:
  "map (nth_opt wideRow) [14, 15, 17, 18] =
     [Some (ascii ''50''), Some (ascii ''25''), Some (ascii ''10''), Some (ascii ''9'')]"
  by (simp add: wideRow_def nth_opt_def)

lemma caste_certificate_extracted:
  "extractPercentageWithMapping wideRow casteHeaders
     \<lparr>originalHeader = hi_jaati_pramaanapatra,
      normalizedHeader = hi_jaati_pramaanapatra, confidence = 1\<rparr>
     hi_jaati_pramaanapatra = Some 90"
  by (simp add: extract_eval wideRow_def casteHeaders_def)

lemma caste_certificate_claimed:
  "percentageOf 25 50 = 50"
  by (simp add: cell_eval)

text \<open>
  C2: the code at two failing inputs. The code looks the KPI up in the KPI list of the
  tehsildar configuration, whatever configuration is active.

  In the sdm configuration the KPI vyapavartana is the first of the list (ordinal 0), so
  the claim has its value read from columns 2 and 3 of the row: registered 100, disposed
  96, hence 96. The KPI is not in the tehsildar list, the code returns null, and the row
  of the sdm file gives no record. The same row under the tehsildar configuration gives
  96 for the first KPI of that list.

  The KPI jaati pramaanapatra has ordinal 4 in the sdm list and ordinal 5 in the
  tehsildar list. For a row of an sdm file the claim has it read from columns 14 and 15
  (registered 50, disposed 25, hence 50); the code reads columns 17 and 18 (registered
  10, disposed 9) and returns 90.
\<close>

theorem sdm_percentage_read_from_tehsildar_sequence:
  "indexOf (map fst (kpiMappings sdmConfig)) hi_vyapavartana = Some 0 \<and>
   indexOf (map fst (kpiMappings tehsildarConfig)) hi_vyapavartana = None \<and>
   extractPercentageWithMapping dataRow sdmHeaders
     \<lparr>originalHeader = ascii ''disposal'', normalizedHeader = hi_vyapavartana, confidence = 1\<rparr>
     hi_vyapavartana = None \<and>
   parseCsvData sdmCsv (ascii ''revenue-department'') (ascii ''sdm'') = Inr [] \<and>
   extractPercentageWithMapping dataRow tehsildarHeaders
     \<lparr>originalHeader = ascii ''account division'',
      normalizedHeader = hi_khaataa_vibhaajana_vivaadita_avivaadita, confidence = 1\<rparr>
     hi_khaataa_vibhaajana_vivaadita_avivaadita = Some 96 \<and>
   indexOf (map fst (kpiMappings sdmConfig)) hi_jaati_pramaanapatra = Some 4 \<and>
   indexOf (map fst (kpiMappings tehsildarConfig)) hi_jaati_pramaanapatra = Some 5 \<and>
   map (nth_opt wideRow) [14, 15, 17, 18] =
     [Some (ascii ''50''), Some (ascii ''25''), Some (ascii ''10''), Some (ascii ''9'')] \<and>
   percentageOf 25 50 = 50 \<and>
   extractPercentageWithMapping wideRow casteHeaders
     \<lparr>originalHeader = hi_jaati_pramaanapatra,
      normalizedHeader = hi_jaati_pramaanapatra, confidence = 1\<rparr>
     hi_jaati_pramaanapatra = Some 90"
proof -
  have a: "indexOf (map fst (kpiMappings sdmConfig)) hi_vyapavartana = Some 0"
    by (simp add: indexOf_def sdmConfig_def)
  have b: "indexOf (map fst (kpiMappings tehsildarConfig)) hi_vyapavartana = None"
    by (simp add: indexOf_def tehsildarConfig_def hi_defs ascii_def)
  from a b sdm_first_kpi_not_extracted sdm_csv_parsed tehsildar_first_kpi_extracted
    caste_certificate_ordinals [THEN conjunct1] caste_certificate_ordinals [THEN conjunct2]
    caste_certificate_cells caste_certificate_claimed caste_certificate_extracted
  show ?thesis
    by (intro conjI)
qed

text \<open>
  C7: the code at a failing input. The text has two lines, a header row and the line at
  index 1, which parseCsvData takes as the sub-header row. The loop over the lines starts
  at index 1, so that line is parsed as a data row as well, and the record of the result
  comes from it.
\<close>

theorem line_one_parsed_as_data:
  "split_on 10 (trim twoLineCsv) =
     [ascii ''officer,court,account division'', ascii ''Ram,Court1,100,96,4''] \<and>
   parseCsvData twoLineCsv (ascii ''revenue-department'') (ascii ''tehsildar'') =
     Inr [\<lparr>officerName = ascii ''Ram'', courtName = Some (ascii ''Court1''),
           kpiValues = [(hi_khaataa_vibhaajana_vivaadita_avivaadita, 96)]\<rparr>]"
proof -
  have "split_on 10 (trim twoLineCsv) =
     [ascii ''officer,court,account division'', ascii ''Ram,Court1,100,96,4'']"
    by (simp add: twoLineCsv_def ascii_def trim_def is_js_space_def)
  with two_line_csv_parsed show ?thesis
    by (intro conjI)
qed

lemma nh_appeal_disposal_blank:
  "normalizeHeader (ascii '' appeal disposal'') headerNormalizations = Some hi_apiila_niraakarana"
  by (simp add: normalize_eval hi_defs)

lemma policy_appeal_disposal_blank:
  "policyNormalize (ascii '' appeal disposal'') headerNormalizations = Some hi_vyapavartana"
  by (simp add: policyNormalize_def bestScore_def variantPairs_def policyScore_def
      toLowerCase_def lower_unit_def headerNormalizations_def ascii_def hi_defs)

text \<open>
  C10, as stated, fails on a header with a blank in front. The normalizer trims the
  header before it compares, so the header is equal to the variant \<open>appeal disposal\<close>
  and the key of that variant wins with score 100. Under the policy as stated the raw
  header equals no variant; it contains the variant \<open>disposal\<close> of an earlier key, which
  then wins the tie at score 50.
\<close>

theorem blank_before_header_changes_key:
  "normalizeHeader (ascii '' appeal disposal'') headerNormalizations = Some hi_apiila_niraakarana \<and>
   policyNormalize (ascii '' appeal disposal'') headerNormalizations = Some hi_vyapavartana \<and>
   hi_apiila_niraakarana \<noteq> hi_vyapavartana"
proof -
  have "hi_apiila_niraakarana \<noteq> hi_vyapavartana"
    by (simp add: hi_defs)
  with nh_appeal_disposal_blank policy_appeal_disposal_blank show ?thesis
    by (intro conjI)
qed

text \<open>
  C10, amended. For every header and table, the normalizer returns what the policy
  gives on the trimmed header: with 100 for case-insensitive equality of the trimmed
  header with a variant, 50 for containment in either direction and 0 otherwise, no match
  is returned exactly when every variant scores 0, and otherwise the key returned is
  that of the first (key, variant) pair in table order whose score is the best score:
  every pair before it scores less, and no pair scores more.
\<close>

theorem normalizeHeader_policy_on_trimmed_header:
  "normalizeHeader header table = policyNormalize (trim header) table \<and>
   (normalizeHeader header table = None) =
     (\<forall>p\<in>set (variantPairs table). policyScore (trim header) (snd p) = 0) \<and>
   (\<forall>k. normalizeHeader header table = Some k \<longrightarrow>
      (\<exists>pre v post. variantPairs table = pre @ (k, v) # post \<and>
         policyScore (trim header) v = bestScore (trim header) table \<and>
         0 < bestScore (trim header) table \<and>
         (\<forall>q\<in>set pre. policyScore (trim header) (snd q) < bestScore (trim header) table) \<and>
         (\<forall>q\<in>set (variantPairs table).
            policyScore (trim header) (snd q) \<le> bestScore (trim header) table)))"
proof (intro conjI allI impI)
  show eq: "normalizeHeader header table = policyNormalize (trim header) table"
    by (rule normalizeHeader_policy)
  let ?sc = "\<lambda>p. policyScore (trim header) (snd p)"
  let ?ps = "variantPairs table"
  let ?M = "bestScore (trim header) table"
  have le: "\<forall>q\<in>set ?ps. ?sc q \<le> ?M"
    unfolding bestScore_def by (auto intro: score_le_best)
  have zero: "(?M = 0) = (\<forall>p\<in>set ?ps. ?sc p = 0)"
    unfolding bestScore_def by (simp add: foldr_max_zero)
  show "(normalizeHeader header table = None) = (\<forall>p\<in>set ?ps. ?sc p = 0)"
  proof
    assume "normalizeHeader header table = None"
    then have n: "policyNormalize (trim header) table = None"
      by (simp add: eq)
    show "\<forall>p\<in>set ?ps. ?sc p = 0"
    proof (rule ccontr)
      assume "\<not> (\<forall>p\<in>set ?ps. ?sc p = 0)"
      then have pos: "?M \<noteq> 0"
        by (simp add: zero)
      with n have "find (\<lambda>p. ?sc p = ?M) ?ps = None"
        by (simp add: policyNormalize_def)
      then have none: "\<forall>p\<in>set ?ps. ?sc p \<noteq> ?M"
        by (auto simp: find_None_iff)
      from pos have "\<exists>p\<in>set ?ps. ?sc p = ?M"
        unfolding bestScore_def by (rule best_attained)
      with none show False by blast
    qed
  next
    assume "\<forall>p\<in>set ?ps. ?sc p = 0"
    then have "?M = 0"
      by (simp add: zero)
    then show "normalizeHeader header table = None"
      by (simp add: eq policyNormalize_def)
  qed
next
  fix k
  let ?sc = "\<lambda>p. policyScore (trim header) (snd p)"
  let ?ps = "variantPairs table"
  let ?M = "bestScore (trim header) table"
  assume "normalizeHeader header table = Some k"
  then have s: "policyNormalize (trim header) table = Some k"
    by (simp add: normalizeHeader_policy)
  then have pos: "0 < ?M"
    by (auto simp: policyNormalize_def split: if_splits)
  with s obtain p where f: "find (\<lambda>p. ?sc p = ?M) ?ps = Some p" and k: "k = fst p"
    by (auto simp: policyNormalize_def)
  have le: "\<forall>q\<in>set ?ps. ?sc q \<le> ?M"
    unfolding bestScore_def by (auto intro: score_le_best)
  from find_first_split [OF f] obtain pre post where
    sp: "?ps = pre @ p # post" and hit: "?sc p = ?M" and before: "\<forall>q\<in>set pre. ?sc q \<noteq> ?M"
    by blast
  have "\<forall>q\<in>set pre. ?sc q < ?M"
  proof
    fix q
    assume q: "q \<in> set pre"
    then have "q \<in> set ?ps"
      by (simp add: sp)
    with le have "?sc q \<le> ?M"
      by blast
    with before q show "?sc q < ?M"
      by (simp add: le_neq_implies_less)
  qed
  with sp hit pos le k show "\<exists>pre v post. ?ps = pre @ (k, v) # post \<and>
         policyScore (trim header) v = ?M \<and> 0 < ?M \<and>
         (\<forall>q\<in>set pre. ?sc q < ?M) \<and> (\<forall>q\<in>set ?ps. ?sc q \<le> ?M)"
    by (intro exI [of _ pre] exI [of _ "snd p"] exI [of _ post]) simp
qed

theorem normalizeHeader_policy_on_trimmed_header_witness:
  "normalizeHeader (ascii '' appeal disposal'') headerNormalizations = Some hi_apiila_niraakarana \<and>
   policyNormalize (trim (ascii '' appeal disposal'')) headerNormalizations = Some hi_apiila_niraakarana \<and>
   0 < bestScore (trim (ascii '' appeal disposal'')) headerNormalizations \<and>
   normalizeHeader (ascii ''court'') headerNormalizations = None \<and>
   policyNormalize (trim (ascii ''court'')) headerNormalizations = None"
proof -
  note hit = normalizeHeader_policy_on_trimmed_header
    [of "ascii '' appeal disposal''" headerNormalizations]
  note miss = normalizeHeader_policy_on_trimmed_header
    [of "ascii ''court''" headerNormalizations]
  from hit [THEN conjunct1] nh_appeal_disposal_blank
  have a: "policyNormalize (trim (ascii '' appeal disposal'')) headerNormalizations =
      Some hi_apiila_niraakarana"
    by (simp only:)
  from hit [THEN conjunct2, THEN conjunct2, rule_format, OF nh_appeal_disposal_blank]
  have b: "0 < bestScore (trim (ascii '' appeal disposal'')) headerNormalizations"
    by blast
  from miss [THEN conjunct1] nh_court
  have c: "policyNormalize (trim (ascii ''court'')) headerNormalizations = None"
    by (simp only:)
  from nh_appeal_disposal_blank a b nh_court c show ?thesis
    by (intro conjI)
qed

end
